theory Spec2Isabelle
  imports
    Complex_Main
    "HOL-Library.Multiset"
    "HOL-Library.Char_ord"
    "HOL-Library.List_Lexorder"
    "HOL-Library.Log_Nat"
begin

section \<open>QuantaLearn: the progression model of \<^verbatim>\<open>MainApp\<close>\<close>

text \<open>
  The development embeds the state transitions of \<^verbatim>\<open>src/components/AuthPage.tsx\<close>
  (component \<^verbatim>\<open>MainApp\<close>) and the data model of \<^verbatim>\<open>src/types.ts\<close>.

  Conventions.
  \<^item> A TypeScript interface is a record, an enum a datatype, an optional field an
    \<open>option\<close>. Field names that several interfaces share (\<^verbatim>\<open>id\<close>, \<^verbatim>\<open>title\<close>,
    \<^verbatim>\<open>description\<close>, \<^verbatim>\<open>isCompleted\<close>) carry the interface as a prefix, because
    record fields are constants of the theory; \<^verbatim>\<open>type\<close> of a question is \<open>qtype\<close>.
  \<^item> A JavaScript string is a \<open>string\<close>; the default comparison of
    \<^verbatim>\<open>Array.prototype.sort\<close> (code units, lexicographic) is the order of
    \<open>Char_ord\<close> and \<open>List_Lexorder\<close>, and the sorted arrangement of an array is \<open>sort\<close>.
  \<^item> A JavaScript number that counts (a score, an index, an attempt counter) is a
    \<open>nat\<close>; the percentage, which is computed in binary64 arithmetic and may be
    \<^verbatim>\<open>NaN\<close>, is a \<open>jsnumber\<close>.
  \<^item> Objects are values, except quizzes: the grading loop sorts arrays of the quiz in
    place, so quizzes live in a store (a list, the address is the position) and a module or
    a course holds the address of its quiz.
\<close>

subsection \<open>Data model (\<^verbatim>\<open>src/types.ts\<close>)\<close>

datatype QuizType = MCQ | MSQ | FIB

record Question =
  question :: string
  qtype :: QuizType
  options :: "string list option"
  correctAnswers :: "string list"

record Quiz =
  quiz_title :: string
  questions :: "Question list"

datatype GenerationState = LOCKED | GENERATING | READY | FAILED

text \<open>The values a percentage can take: \<^verbatim>\<open>Math.round\<close> of a binary64 value.\<close>

datatype jsnumber = NaN | Num int | Infinity

text \<open>
  A module or a course refers to its quiz by the address of the quiz in the store.
  The handlers read and write \<^verbatim>\<open>quizAttempts\<close> of a module, which the interface of
  \<^verbatim>\<open>types.ts\<close> does not declare.
\<close>

type_synonym quiz_ref = nat

record Module =
  module_title :: string
  objective :: string
  content :: "string option"
  quiz :: "quiz_ref option"
  isCompleted :: bool
  generationState :: GenerationState
  quizScore :: "jsnumber option"
  quizAttempts :: "nat option"

record Badge =
  courseTitle :: string
  score :: jsnumber
  dateAwarded :: string

record Course =
  course_id :: string
  course_title :: string
  course_description :: string
  modules :: "Module list"
  badge :: "Badge option"
  unlockedModuleIndex :: nat
  course_isCompleted :: bool
  mockTest :: "quiz_ref option"
  mockTestState :: "GenerationState option"
  mockTestScore :: "jsnumber option"

record LearningPath =
  path_id :: string
  path_title :: string
  path_description :: string
  courses :: "Course list"
  unlockedCourseIndex :: nat

subsection \<open>Numbers: binary64 arithmetic of the percentage\<close>

text \<open>
  \<^verbatim>\<open>Math.round((score / quiz.questions.length) * 100)\<close> divides and multiplies in
  IEEE 754 binary64, each operation rounding its exact result to the nearest value with a
  53-bit significand, ties to even. \<open>binary64\<close> is that rounding on the rationals; it
  leaves out subnormal numbers and overflow, which a quotient of two array lengths and its
  hundredfold never reach. \<open>2 powi e\<close> is the power of two with an integer exponent.
\<close>

definition roundTiesToEven :: "rat \<Rightarrow> int" where
  "roundTiesToEven y =
     (let f = \<lfloor>y\<rfloor>; d = y - of_int f
      in if d < 1 / 2 then f else if 1 / 2 < d then f + 1 else if even f then f else f + 1)"

text \<open>
  The exponent \<open>e\<close> of the last significand bit of a positive \<open>x\<close>:
  \<open>2^52 \<le> x / 2^e < 2^53\<close>. The bit lengths of numerator and denominator give it up to
  one, the comparison settles it.
\<close>

definition exponent53 :: "rat \<Rightarrow> int" where
  "exponent53 x =
     (let (p, q) = quotient_of x;
          e0 = int (floorlog 2 (nat p)) - int (floorlog 2 (nat q)) - 53
      in if 2 ^ 53 \<le> x / 2 powi e0 then e0 + 1 else e0)"

definition binary64_pos :: "rat \<Rightarrow> rat" where
  "binary64_pos x = of_int (roundTiesToEven (x / 2 powi exponent53 x)) * 2 powi exponent53 x"

definition binary64 :: "rat \<Rightarrow> rat" where
  "binary64 x = (if x = 0 then 0 else if x < 0 then - binary64_pos (- x) else binary64_pos x)"

text \<open>\<^verbatim>\<open>Math.round\<close>: the nearest integer, a tie going up.\<close>

definition Math_round :: "rat \<Rightarrow> int" where
  "Math_round x = \<lfloor>x + 1 / 2\<rfloor>"

text \<open>
  \<^verbatim>\<open>Math.round((score / total) * 100)\<close>. \<^verbatim>\<open>0 / 0\<close> is \<^verbatim>\<open>NaN\<close> and stays so; a
  positive score over \<^verbatim>\<open>0\<close> is \<^verbatim>\<open>Infinity\<close>.
\<close>

definition percentageOf :: "nat \<Rightarrow> nat \<Rightarrow> jsnumber" where
  "percentageOf sc totalQuestions =
     (if totalQuestions = 0 then (if sc = 0 then NaN else Infinity)
      else Num (Math_round (binary64 (binary64 (of_nat sc / of_nat totalQuestions) * 100))))"

text \<open>\<^verbatim>\<open>percentage >= k\<close>: false for \<^verbatim>\<open>NaN\<close>.\<close>

fun num_ge :: "jsnumber \<Rightarrow> int \<Rightarrow> bool" where
  "num_ge NaN k = False"
| "num_ge (Num n) k = (k \<le> n)"
| "num_ge Infinity k = True"

subsection \<open>The grading loop (\<^verbatim>\<open>handleQuizSubmit\<close>, \<^verbatim>\<open>handleMockTestSubmit\<close>)\<close>

text \<open>
  \<^verbatim>\<open>
  let score = 0;
  quiz.questions.forEach((q, index) => {
      const userAnswers = answers[index]?.sort() || [];
      const correctAnswers = q.correctAnswers.sort();
      if (JSON.stringify(userAnswers) === JSON.stringify(correctAnswers)) { score++; }
  });
  \<close>
  \<^verbatim>\<open>sort\<close> sorts its array in place and returns it, so the loop leaves both the
  submitted arrays and the quiz's \<^verbatim>\<open>correctAnswers\<close> arrays sorted: the model returns
  the questions and the answers as the loop leaves them, beside the score.
  \<^verbatim>\<open>JSON.stringify\<close> is injective on arrays of strings, so the comparison is equality
  of the two lists.
\<close>

type_synonym answers = "nat \<rightharpoonup> string list"

fun gradeQuestions :: "nat \<Rightarrow> Question list \<Rightarrow> answers \<Rightarrow> nat \<Rightarrow> nat \<times> Question list \<times> answers" where
  "gradeQuestions index [] ans sc = (sc, [], ans)"
| "gradeQuestions index (q # qs) ans sc =
     (let userAnswers = (case ans index of None \<Rightarrow> [] | Some a \<Rightarrow> sort a);
          ans1 = (case ans index of None \<Rightarrow> ans | Some a \<Rightarrow> ans(index \<mapsto> sort a));
          sortedCorrect = sort (correctAnswers q);
          q1 = q\<lparr>correctAnswers := sortedCorrect\<rparr>;
          sc1 = (if userAnswers = sortedCorrect then sc + 1 else sc);
          (sc2, qs2, ans2) = gradeQuestions (index + 1) qs ans1 sc1
      in (sc2, q1 # qs2, ans2))"

definition gradeQuiz :: "Quiz \<Rightarrow> answers \<Rightarrow> nat \<times> Quiz \<times> answers" where
  "gradeQuiz qz ans =
     (let (sc, qs, ans1) = gradeQuestions 0 (questions qz) ans 0
      in (sc, qz\<lparr>questions := qs\<rparr>, ans1))"

text \<open>
  The percentage that both handlers compute right after the loop:
  \<^verbatim>\<open>const percentage = Math.round((score / quiz.questions.length) * 100);\<close>
\<close>

definition gradedPercentage :: "Quiz \<Rightarrow> answers \<Rightarrow> jsnumber" where
  "gradedPercentage qz ans =
     (let (sc, qz1, ans1) = gradeQuiz qz ans in percentageOf sc (length (questions qz1)))"

text \<open>
  The selection submitted for the question at \<open>index\<close>, as the loop reads it
  (\<^verbatim>\<open>answers[index] || []\<close>): a question without an entry has the empty selection.
\<close>

definition submitted :: "answers \<Rightarrow> nat \<Rightarrow> string list" where
  "submitted ans index = (case ans index of None \<Rightarrow> [] | Some a \<Rightarrow> a)"

subsection \<open>Application state (\<^verbatim>\<open>MainApp\<close>)\<close>

datatype View =
    View_dashboard | View_create_hub | View_create_topic | View_create_document
  | View_create_path | View_path | View_course | View_module | View_quiz
  | View_quiz_results | View_quiz_answers | View_loading | View_profile
  | View_mock_test | View_mock_test_results

text \<open>
  The \<^verbatim>\<open>useState\<close> cells of \<^verbatim>\<open>MainApp\<close> that the handlers read or write, the
  user's API key, and the store of quiz objects. \<^verbatim>\<open>courses\<close>, \<^verbatim>\<open>quizScore\<close> and
  \<^verbatim>\<open>mockTestScore\<close> are \<open>courses_state\<close>, \<open>quizScore_state\<close> and
  \<open>mockTestScore_state\<close> here.
\<close>

record AppState =
  apiKey :: "string option"
  quizStore :: "Quiz list"
  courses_state :: "Course list"
  learningPaths :: "LearningPath list"
  activePath :: "LearningPath option"
  activeCourse :: "Course option"
  activeModule :: "(Module \<times> nat) option"
  view :: View
  quizScore_state :: "nat \<times> nat"
  mockTestScore_state :: "nat \<times> nat"

text \<open>\<^verbatim>\<open>!user.apiKey\<close> holds for a missing key and for the empty string.\<close>

definition hasApiKey :: "AppState \<Rightarrow> bool" where
  "hasApiKey st = (case apiKey st of None \<Rightarrow> False | Some k \<Rightarrow> k \<noteq> [])"

text \<open>
  The course updaters call \<^verbatim>\<open>setActiveCourse(updatedCourse)\<close> for every course they
  rewrite, so the active course ends as the last course rewritten, and stays as it was
  when none is. \<open>rewritten\<close> lists the rewritten courses in the order of the calls.
\<close>

definition lastSet :: "'a list \<Rightarrow> 'a option \<Rightarrow> 'a option" where
  "lastSet xs old = (if xs = [] then old else Some (last xs))"

definition rewritten :: "string \<Rightarrow> (Course \<Rightarrow> Course) \<Rightarrow> Course list \<Rightarrow> Course list" where
  "rewritten aid upd cs = map upd (filter (\<lambda>c. course_id c = aid) cs)"

text \<open>\<^verbatim>\<open>xs.map((x, i) => f(i, x))\<close>.\<close>

definition mapi :: "(nat \<Rightarrow> 'a \<Rightarrow> 'b) \<Rightarrow> 'a list \<Rightarrow> 'b list" where
  "mapi f xs = map (\<lambda>i. f i (xs ! i)) [0..<length xs]"

text \<open>\<^verbatim>\<open>xs.findIndex(P)\<close>, with \<open>None\<close> for \<^verbatim>\<open>-1\<close>.\<close>

fun findIndex :: "('a \<Rightarrow> bool) \<Rightarrow> 'a list \<Rightarrow> nat option" where
  "findIndex P [] = None"
| "findIndex P (x # xs) = (if P x then Some 0 else map_option Suc (findIndex P xs))"

subsection \<open>Creation (\<^verbatim>\<open>handleCreateCourse\<close>, \<^verbatim>\<open>handleCreateLearningPath\<close>)\<close>

text \<open>The outlines the gateway returns, as \<^verbatim>\<open>courseSchema\<close> and \<^verbatim>\<open>learningPathSchema\<close> shape them.\<close>

record ModuleOutline =
  outline_module_title :: string
  outline_objective :: string

record CourseOutline =
  outline_title :: string
  outline_description :: string
  outline_modules :: "ModuleOutline list"

record PathOutline =
  outline_path_title :: string
  outline_path_description :: string
  outline_courses :: "CourseOutline list"

text \<open>\<^verbatim>\<open>{ ...m, isCompleted: false, generationState: GenerationState.LOCKED, quizAttempts: 0 }\<close>\<close>

definition newModule :: "ModuleOutline \<Rightarrow> Module" where
  "newModule m =
     \<lparr>module_title = outline_module_title m, objective = outline_objective m,
      content = None, quiz = None, isCompleted = False, generationState = LOCKED,
      quizScore = None, quizAttempts = Some 0\<rparr>"

text \<open>
  \<^verbatim>\<open>{ id: new Date().toISOString(), ...outline, isCompleted: false,
     modules: outline.modules.map(...), unlockedModuleIndex: 0 }\<close>; \<open>now\<close> is the date string.
\<close>

definition newCourse :: "string \<Rightarrow> CourseOutline \<Rightarrow> Course" where
  "newCourse now outline =
     \<lparr>course_id = now, course_title = outline_title outline,
      course_description = outline_description outline,
      modules = map newModule (outline_modules outline),
      badge = None, unlockedModuleIndex = 0, course_isCompleted = False,
      mockTest = None, mockTestState = None, mockTestScore = None\<rparr>"

text \<open>A course of a path: \<^verbatim>\<open>id: new Date().toISOString() + c.title\<close>.\<close>

definition newPathCourse :: "string \<Rightarrow> CourseOutline \<Rightarrow> Course" where
  "newPathCourse now c =
     \<lparr>course_id = now @ outline_title c, course_title = outline_title c,
      course_description = outline_description c,
      modules = map newModule (outline_modules c),
      badge = None, unlockedModuleIndex = 0, course_isCompleted = False,
      mockTest = None, mockTestState = None, mockTestScore = None\<rparr>"

text \<open>
  The path reads the clock once for its own id and once more for every course it
  builds: \<open>now\<close> is the date string of the first reading and \<open>nowAt i\<close> the one read for
  the course at \<open>i\<close>.
\<close>

definition newPath :: "string \<Rightarrow> (nat \<Rightarrow> string) \<Rightarrow> PathOutline \<Rightarrow> LearningPath" where
  "newPath now nowAt pathOutline =
     \<lparr>path_id = now, path_title = outline_path_title pathOutline,
      path_description = outline_path_description pathOutline,
      courses = mapi (\<lambda>i c. newPathCourse (nowAt i) c) (outline_courses pathOutline),
      unlockedCourseIndex = 0\<rparr>"

text \<open>
  The gateway's answer is a parameter: \<open>None\<close> when \<^verbatim>\<open>generateCourseOutline\<close>
  throws. The error message and the loading flag of the user interface are left out.
\<close>

definition handleCreateCourse :: "string \<Rightarrow> CourseOutline option \<Rightarrow> AppState \<Rightarrow> AppState" where
  "handleCreateCourse now gateway st =
     (if \<not> hasApiKey st then st\<lparr>view := View_profile\<rparr>
      else case gateway of
        None \<Rightarrow> st\<lparr>view := View_create_topic\<rparr>
      | Some outline \<Rightarrow>
          st\<lparr>courses_state := courses_state st @ [newCourse now outline],
             activeCourse := Some (newCourse now outline), view := View_course\<rparr>)"

definition handleCreateLearningPath ::
  "string \<Rightarrow> (nat \<Rightarrow> string) \<Rightarrow> PathOutline option \<Rightarrow> AppState \<Rightarrow> AppState" where
  "handleCreateLearningPath now nowAt gateway st =
     (if \<not> hasApiKey st then st\<lparr>view := View_profile\<rparr>
      else case gateway of
        None \<Rightarrow> st\<lparr>view := View_create_path\<rparr>
      | Some pathOutline \<Rightarrow>
          st\<lparr>learningPaths := learningPaths st @ [newPath now nowAt pathOutline],
             activePath := Some (newPath now nowAt pathOutline), view := View_path\<rparr>)"

subsection \<open>Module generation (\<^verbatim>\<open>handleGenerateModule\<close>)\<close>

text \<open>
  \<^verbatim>\<open>
  const courseUpdater = (c: Course) => {
       if (c.id === activeCourse.id) {
          const updatedModules = [...c.modules];
          updatedModules[moduleIndex] = { ...updatedModules[moduleIndex], generationState: state, content, quiz };
          const updatedCourse = { ...c, modules: updatedModules };
          setActiveCourse(updatedCourse);
          return updatedCourse;
      }
      return c;
  };
  \<close>
  \<^verbatim>\<open>content\<close> and \<^verbatim>\<open>quiz\<close> are the optional parameters of
  \<^verbatim>\<open>updateModuleState\<close>: the object literal writes them also when they are
  \<^verbatim>\<open>undefined\<close>. The list update is the assignment for an index inside the array.
\<close>

definition moduleCourseUpdater ::
  "string \<Rightarrow> nat \<Rightarrow> GenerationState \<Rightarrow> string option \<Rightarrow> quiz_ref option \<Rightarrow> Course \<Rightarrow> Course" where
  "moduleCourseUpdater aid moduleIndex state cont qz c =
     (if course_id c = aid
      then c\<lparr>modules := (modules c)[moduleIndex :=
               (modules c ! moduleIndex)\<lparr>generationState := state, content := cont, quiz := qz\<rparr>]\<rparr>
      else c)"

text \<open>
  For an index outside the array the assignment would extend the array with an object
  that has none of the other fields of a module, a value outside \<open>Module list\<close>:
  \<open>updateModuleState\<close> is \<open>None\<close> there. The user interface passes the position of
  a module of the course.
\<close>

definition indexInside :: "string \<Rightarrow> nat \<Rightarrow> Course list \<Rightarrow> bool" where
  "indexInside aid moduleIndex cs =
     list_all (\<lambda>c. course_id c = aid \<longrightarrow> moduleIndex < length (modules c)) cs"

definition allCourses :: "AppState \<Rightarrow> Course list" where
  "allCourses st = courses_state st @ concat (map courses (learningPaths st))"

definition updateModuleState ::
  "string \<Rightarrow> nat \<Rightarrow> GenerationState \<Rightarrow> string option \<Rightarrow> quiz_ref option \<Rightarrow> AppState \<Rightarrow> AppState option" where
  "updateModuleState aid moduleIndex state cont qz st =
     (if \<not> indexInside aid moduleIndex (allCourses st) then None
      else
        let courseUpdater = moduleCourseUpdater aid moduleIndex state cont qz
        in Some (st\<lparr>courses_state := map courseUpdater (courses_state st),
                    learningPaths := map (\<lambda>p. p\<lparr>courses := map courseUpdater (courses p)\<rparr>) (learningPaths st),
                    activeCourse := lastSet (rewritten aid courseUpdater (allCourses st)) (activeCourse st)\<rparr>))"

text \<open>
  \<^verbatim>\<open>
  updateModuleState(GenerationState.GENERATING);
  try {
      const { content, quiz } = await generateModuleContentAndQuiz(user.apiKey, activeCourse.title, activeCourse.modules[moduleIndex].title);
      updateModuleState(GenerationState.READY, content, quiz);
  } catch (e) { updateModuleState(GenerationState.FAILED); }
  \<close>
  The gateway's answer is a parameter, \<open>None\<close> when the call throws; reading the title of
  a module that the active course does not have throws too. The quiz of a successful
  answer is a new object of the store. The handler is split where it awaits:
  \<open>requestModule\<close> runs to the call, \<open>resolveModule\<close> from the answer on, on the state
  of that moment; \<open>handleGenerateModule\<close> runs both with nothing in between and returns
  the state in between and the final one. Without an active course or a key it returns
  the state as it is.
\<close>

definition requestModule :: "Course \<Rightarrow> nat \<Rightarrow> AppState \<Rightarrow> AppState option" where
  "requestModule ac moduleIndex st =
     updateModuleState (course_id ac) moduleIndex GENERATING None None st"

definition resolveModule :: "Course \<Rightarrow> nat \<Rightarrow> (string \<times> Quiz) option \<Rightarrow> AppState \<Rightarrow> AppState option" where
  "resolveModule ac moduleIndex gateway st =
     (case (if moduleIndex < length (modules ac) then gateway else None) of
        Some (cont, qz) \<Rightarrow>
          updateModuleState (course_id ac) moduleIndex READY (Some cont) (Some (length (quizStore st)))
            (st\<lparr>quizStore := quizStore st @ [qz]\<rparr>)
      | None \<Rightarrow> updateModuleState (course_id ac) moduleIndex FAILED None None st)"

definition handleGenerateModule ::
  "nat \<Rightarrow> (string \<times> Quiz) option \<Rightarrow> AppState \<Rightarrow> (AppState \<times> AppState) option" where
  "handleGenerateModule moduleIndex gateway st =
     (case activeCourse st of
        None \<Rightarrow> Some (st, st)
      | Some ac \<Rightarrow>
          if \<not> hasApiKey st then Some (st, st)
          else case requestModule ac moduleIndex st of
                 None \<Rightarrow> None
               | Some st1 \<Rightarrow> map_option (\<lambda>st2. (st1, st2)) (resolveModule ac moduleIndex gateway st1))"

subsection \<open>Module quiz (\<^verbatim>\<open>handleQuizSubmit\<close>)\<close>

text \<open>
  \<^verbatim>\<open>
  const courseUpdater = (c: Course) => {
      if (c.id !== activeCourse.id) return c;
      let updatedModules;
      if (percentage >= 80) {
           updatedModules = c.modules.map((m, i) => i === activeModule.index ? { ...m, isCompleted: true, quizScore: percentage, quizAttempts: 0 } : m);
      } else {
           updatedModules = c.modules.map((m, i) => i === activeModule.index ? { ...m, quizAttempts: (m.quizAttempts || 0) + 1 } : m);
      }
      let newUnlockedIndex = c.unlockedModuleIndex;
      if (percentage >= 80 && c.unlockedModuleIndex === activeModule.index) {
          newUnlockedIndex = c.unlockedModuleIndex + 1;
      }
      let updatedCourse = { ...c, modules: updatedModules, unlockedModuleIndex: newUnlockedIndex };
      const isCourseComplete = updatedModules.every(m => m.isCompleted);
      if (isCourseComplete) { updatedCourse.isCompleted = true; }
      setActiveCourse(updatedCourse);
      return updatedCourse;
  };
  \<close>
\<close>

definition quizCourseUpdater :: "jsnumber \<Rightarrow> nat \<Rightarrow> string \<Rightarrow> Course \<Rightarrow> Course" where
  "quizCourseUpdater percentage index aid c =
     (if course_id c \<noteq> aid then c
      else
        let updatedModules =
              (if num_ge percentage 80
               then mapi (\<lambda>i m. if i = index
                                  then m\<lparr>isCompleted := True, quizScore := Some percentage, quizAttempts := Some 0\<rparr>
                                  else m) (modules c)
               else mapi (\<lambda>i m. if i = index
                                  then m\<lparr>quizAttempts := Some ((case quizAttempts m of None \<Rightarrow> 0 | Some a \<Rightarrow> a) + 1)\<rparr>
                                  else m) (modules c));
            newUnlockedIndex =
              (if num_ge percentage 80 \<and> unlockedModuleIndex c = index
               then unlockedModuleIndex c + 1 else unlockedModuleIndex c);
            updatedCourse = c\<lparr>modules := updatedModules, unlockedModuleIndex := newUnlockedIndex\<rparr>
        in if list_all isCompleted updatedModules
           then updatedCourse\<lparr>course_isCompleted := True\<rparr> else updatedCourse)"

text \<open>
  \<^verbatim>\<open>
  setLearningPaths(prevPaths => prevPaths.map(p => {
      if (p.id !== activePath.id) return p;
      const updatedPathCourses = p.courses.map(courseUpdater);
      const currentCourseIndex = updatedPathCourses.findIndex(c => c.id === activeCourse.id);
      let newUnlockedCourseIndex = p.unlockedCourseIndex;
      if (currentCourseIndex !== -1 && updatedPathCourses[currentCourseIndex].isCompleted && currentCourseIndex === p.unlockedCourseIndex) {
          newUnlockedCourseIndex++;
      }
      const updatedPath = { ...p, courses: updatedPathCourses, unlockedCourseIndex: newUnlockedCourseIndex };
      setActivePath(updatedPath);
      return updatedPath;
  }));
  \<close>
\<close>

definition quizPathUpdater :: "(Course \<Rightarrow> Course) \<Rightarrow> string \<Rightarrow> string \<Rightarrow> LearningPath \<Rightarrow> LearningPath" where
  "quizPathUpdater courseUpdater aid apid p =
     (if path_id p \<noteq> apid then p
      else
        let updatedPathCourses = map courseUpdater (courses p);
            currentCourseIndex = findIndex (\<lambda>c. course_id c = aid) updatedPathCourses;
            newUnlockedCourseIndex =
              (case currentCourseIndex of
                 None \<Rightarrow> unlockedCourseIndex p
               | Some i \<Rightarrow>
                   if course_isCompleted (updatedPathCourses ! i) \<and> i = unlockedCourseIndex p
                   then unlockedCourseIndex p + 1 else unlockedCourseIndex p)
        in p\<lparr>courses := updatedPathCourses, unlockedCourseIndex := newUnlockedCourseIndex\<rparr>)"

text \<open>
  The handler. It returns the state as it is without an active module, a quiz on it, or
  an active course (\<^verbatim>\<open>if (!activeModule || !activeModule.module.quiz || !activeCourse) return;\<close>);
  an address outside the store is no object, and is treated the same. The learning paths
  are rewritten only under \<^verbatim>\<open>if (activePath)\<close>.
\<close>

definition handleQuizSubmit :: "answers \<Rightarrow> AppState \<Rightarrow> AppState" where
  "handleQuizSubmit ans st =
     (case activeModule st of
        None \<Rightarrow> st
      | Some (m, index) \<Rightarrow>
     (case quiz m of
        None \<Rightarrow> st
      | Some a \<Rightarrow>
     (case activeCourse st of
        None \<Rightarrow> st
      | Some ac \<Rightarrow>
          if length (quizStore st) \<le> a then st
          else
            let qz = quizStore st ! a;
                (sc, qz1, ans1) = gradeQuiz qz ans;
                percentage = percentageOf sc (length (questions qz1));
                courseUpdater = quizCourseUpdater percentage index (course_id ac);
                pathCourses =
                  (case activePath st of
                     None \<Rightarrow> []
                   | Some ap \<Rightarrow> concat (map courses (filter (\<lambda>p. path_id p = path_id ap) (learningPaths st))))
            in st\<lparr>quizStore := (quizStore st)[a := qz1],
                  quizScore_state := (sc, length (questions qz1)),
                  courses_state := map courseUpdater (courses_state st),
                  learningPaths :=
                    (case activePath st of
                       None \<Rightarrow> learningPaths st
                     | Some ap \<Rightarrow> map (quizPathUpdater courseUpdater (course_id ac) (path_id ap)) (learningPaths st)),
                  activePath :=
                    (case activePath st of
                       None \<Rightarrow> None
                     | Some ap \<Rightarrow>
                         lastSet (map (quizPathUpdater courseUpdater (course_id ac) (path_id ap))
                                    (filter (\<lambda>p. path_id p = path_id ap) (learningPaths st))) (Some ap)),
                  activeCourse :=
                    lastSet (rewritten (course_id ac) courseUpdater (courses_state st @ pathCourses)) (Some ac),
                  view := View_quiz_results\<rparr>)))"

subsection \<open>Mock test (\<^verbatim>\<open>handleMockTestSubmit\<close>, \<^verbatim>\<open>getBadgeStyling\<close>)\<close>

text \<open>
  \<^verbatim>\<open>
  let newBadge: Badge | undefined = undefined;
  if (percentage >= 70) {
      if (percentage >= 80) {
          newBadge = { courseTitle: activeCourse.title, score: percentage, dateAwarded: new Date().toLocaleDateString() };
      }
  }
  \<close>
  \<open>today\<close> is the date string.
\<close>

definition newBadge :: "Course \<Rightarrow> jsnumber \<Rightarrow> string \<Rightarrow> Badge option" where
  "newBadge ac percentage today =
     (if num_ge percentage 70
      then (if num_ge percentage 80
            then Some \<lparr>courseTitle = course_title ac, score = percentage, dateAwarded = today\<rparr>
            else None)
      else None)"

text \<open>
  \<^verbatim>\<open>
  const courseUpdater = (c: Course) => {
      if (c.id === activeCourse.id) {
          const updatedCourse = { ...c, mockTestScore: percentage, ...(newBadge && { badge: newBadge }) };
          setActiveCourse(updatedCourse);
          return updatedCourse;
      }
      return c;
  };
  \<close>
\<close>

definition mockCourseUpdater :: "jsnumber \<Rightarrow> Badge option \<Rightarrow> string \<Rightarrow> Course \<Rightarrow> Course" where
  "mockCourseUpdater percentage nb aid c =
     (if course_id c = aid
      then (case nb of
              None \<Rightarrow> c\<lparr>mockTestScore := Some percentage\<rparr>
            | Some b \<Rightarrow> c\<lparr>mockTestScore := Some percentage, badge := Some b\<rparr>)
      else c)"

definition handleMockTestSubmit :: "answers \<Rightarrow> string \<Rightarrow> AppState \<Rightarrow> AppState" where
  "handleMockTestSubmit ans today st =
     (case activeCourse st of
        None \<Rightarrow> st
      | Some ac \<Rightarrow>
     (case mockTest ac of
        None \<Rightarrow> st
      | Some a \<Rightarrow>
          if length (quizStore st) \<le> a then st
          else
            let qz = quizStore st ! a;
                (sc, qz1, ans1) = gradeQuiz qz ans;
                percentage = percentageOf sc (length (questions qz1));
                courseUpdater = mockCourseUpdater percentage (newBadge ac percentage today) (course_id ac)
            in st\<lparr>quizStore := (quizStore st)[a := qz1],
                  mockTestScore_state := (sc, length (questions qz1)),
                  courses_state := map courseUpdater (courses_state st),
                  learningPaths := map (\<lambda>p. p\<lparr>courses := map courseUpdater (courses p)\<rparr>) (learningPaths st),
                  activeCourse := lastSet (rewritten (course_id ac) courseUpdater (allCourses st)) (Some ac),
                  view := View_mock_test_results\<rparr>))"

text \<open>
  \<^verbatim>\<open>
  const getBadgeStyling = (score: number) => {
      if (score >= 90) return { name: 'Gold', color: 'text-yellow-500' };
      if (score >= 85) return { name: 'Silver', color: 'text-gray-500' };
      return { name: 'Bronze', color: 'text-orange-600' };
  };
  \<close>
\<close>

definition getBadgeStyling :: "jsnumber \<Rightarrow> string \<times> string" where
  "getBadgeStyling sc =
     (if num_ge sc 90 then (''Gold'', ''text-yellow-500'')
      else if num_ge sc 85 then (''Silver'', ''text-gray-500'')
      else (''Bronze'', ''text-orange-600''))"

subsection \<open>Navigation (\<^verbatim>\<open>setAppView\<close>, \<^verbatim>\<open>PathView\<close>, \<^verbatim>\<open>setViewAndActiveModule\<close>)\<close>

text \<open>
  \<^verbatim>\<open>
  if (!['course', 'module', 'quiz', 'quiz_results', 'quiz_answers', 'mock_test', 'mock_test_results'].includes(newView)) {
      setActiveCourse(null); setActiveModule(null);
  }
  if (newView !== 'path') { setActivePath(null); }
  if (newView === 'dashboard') { setActivePath(null); }
  setView(newView);
  \<close>
  Every child component receives \<^verbatim>\<open>setAppView\<close> as its \<^verbatim>\<open>setView\<close>.
\<close>

definition setAppView :: "View \<Rightarrow> AppState \<Rightarrow> AppState" where
  "setAppView newView st =
     (let st1 = (if newView \<notin> {View_course, View_module, View_quiz, View_quiz_results,
                                 View_quiz_answers, View_mock_test, View_mock_test_results}
                 then st\<lparr>activeCourse := None, activeModule := None\<rparr> else st);
          st2 = (if newView \<noteq> View_path then st1\<lparr>activePath := None\<rparr> else st1);
          st3 = (if newView = View_dashboard then st2\<lparr>activePath := None\<rparr> else st2)
      in st3\<lparr>view := newView\<rparr>)"

text \<open>
  \<^verbatim>\<open>PathView\<close>, a click on the course at \<open>index\<close> of the active path:
  \<^verbatim>\<open>if (index <= activePath.unlockedCourseIndex) { setActiveCourse(course); setView('course'); }\<close>
  The view lists the courses of the path, so \<open>index\<close> is a position of the list.
\<close>

definition handleCourseClick :: "nat \<Rightarrow> AppState \<Rightarrow> AppState" where
  "handleCourseClick index st =
     (case activePath st of
        None \<Rightarrow> st
      | Some ap \<Rightarrow>
          if index < length (courses ap) \<and> index \<le> unlockedCourseIndex ap
          then setAppView View_course (st\<lparr>activeCourse := Some (courses ap ! index)\<rparr>)
          else st)"

text \<open>
  \<^verbatim>\<open>CourseView\<close>, a click on the module at \<open>index\<close> of the active course:
  \<^verbatim>\<open>if (module.generationState === GenerationState.READY) { setActiveModule(module, index); setView('module'); }\<close>
  where \<^verbatim>\<open>setActiveModule\<close> is \<^verbatim>\<open>setViewAndActiveModule\<close>; the view lists the
  modules of the course.
\<close>

definition handleModuleClick :: "nat \<Rightarrow> AppState \<Rightarrow> AppState" where
  "handleModuleClick index st =
     (case activeCourse st of
        None \<Rightarrow> st
      | Some ac \<Rightarrow>
          if index < length (modules ac) \<and> generationState (modules ac ! index) = READY
          then setAppView View_module (st\<lparr>activeModule := Some (modules ac ! index, index), view := View_module\<rparr>)
          else st)"

subsection \<open>Sequences of gradings\<close>

text \<open>
  One mock-test grading as it reaches a stored course: the active course of the moment
  (its id selects the course, its title goes into the badge), the percentage and the date.
\<close>

definition mockGrading :: "Course \<times> jsnumber \<times> string \<Rightarrow> Course \<Rightarrow> Course" where
  "mockGrading g c =
     (case g of (ac, percentage, today) \<Rightarrow>
        mockCourseUpdater percentage (newBadge ac percentage today) (course_id ac) c)"

definition mockGradings :: "(Course \<times> jsnumber \<times> string) list \<Rightarrow> Course \<Rightarrow> Course" where
  "mockGradings gs c = fold mockGrading gs c"




subsection \<open>Example values\<close>

text \<open>Concrete courses, quizzes and submissions, for the instances below.\<close>

definition exampleModule :: Module where
  "exampleModule =
     \<lparr>module_title = ''Vectors'', objective = ''Add vectors'', content = Some ''## Vectors'',
      quiz = Some 0, isCompleted = False, generationState = READY,
      quizScore = None, quizAttempts = Some 0\<rparr>"

definition exampleCourse :: Course where
  "exampleCourse =
     \<lparr>course_id = ''c1'', course_title = ''Algebra'', course_description = ''Linear algebra'',
      modules = [exampleModule, exampleModule\<lparr>module_title := ''Matrices'', quiz := None, content := None, generationState := LOCKED\<rparr>],
      badge = None, unlockedModuleIndex = 0, course_isCompleted = False,
      mockTest = None, mockTestState = None, mockTestScore = None\<rparr>"

text \<open>The same course after a mock test at 95 percent.\<close>

definition exampleGoldCourse :: Course where
  "exampleGoldCourse =
     exampleCourse\<lparr>badge := Some \<lparr>courseTitle = ''Algebra'', score = Num 95, dateAwarded = ''1/1/2025''\<rparr>,
                    mockTestScore := Some (Num 95)\<rparr>"

definition exampleQuestion :: Question where
  "exampleQuestion =
     \<lparr>question = ''Which are vectors?'', qtype = MSQ,
      options = Some [''a'', ''b'', ''c''], correctAnswers = [''b'', ''a'']\<rparr>"

definition exampleQuiz :: Quiz where
  "exampleQuiz = \<lparr>quiz_title = ''Vectors quiz'', questions = [exampleQuestion]\<rparr>"

text \<open>A course with a single module, and a path that holds it.\<close>

definition exampleSingleCourse :: Course where
  "exampleSingleCourse = exampleCourse\<lparr>course_id := ''c2'', modules := [exampleModule]\<rparr>"

definition examplePath :: LearningPath where
  "examplePath =
     \<lparr>path_id = ''p1'', path_title = ''Mathematics'', path_description = ''From algebra on'',
      courses = [exampleSingleCourse], unlockedCourseIndex = 0\<rparr>"

text \<open>The learner is about to submit the quiz of the first module of \<open>exampleCourse\<close>.\<close>

definition exampleState :: AppState where
  "exampleState =
     \<lparr>apiKey = Some ''key'', quizStore = [exampleQuiz], courses_state = [exampleCourse],
      learningPaths = [], activePath = None, activeCourse = Some exampleCourse,
      activeModule = Some (exampleModule, 0), view = View_quiz,
      quizScore_state = (0, 0), mockTestScore_state = (0, 0)\<rparr>"

text \<open>The learner looks at \<open>examplePath\<close>, the only stored path; no course is open.\<close>

definition examplePathState :: AppState where
  "examplePathState =
     \<lparr>apiKey = Some ''key'', quizStore = [exampleQuiz], courses_state = [],
      learningPaths = [examplePath], activePath = Some examplePath, activeCourse = None,
      activeModule = None, view = View_path,
      quizScore_state = (0, 0), mockTestScore_state = (0, 0)\<rparr>"

text \<open>
  A path that holds the course of two modules, and the learner looking at it; the course
  is stored in the path only.
\<close>

definition exampleModulePath :: LearningPath where
  "exampleModulePath =
     \<lparr>path_id = ''p2'', path_title = ''Algebra first'', path_description = ''Start here'',
      courses = [exampleCourse], unlockedCourseIndex = 0\<rparr>"

definition exampleModulePathState :: AppState where
  "exampleModulePathState =
     examplePathState\<lparr>learningPaths := [exampleModulePath], activePath := Some exampleModulePath\<rparr>"

text \<open>
  From the view of a path the learner opens its first course, the first module of the
  course, and the quiz of the module (the button of \<^verbatim>\<open>ModuleView\<close>, \<^verbatim>\<open>setView('quiz')\<close>).
\<close>

definition openFirstQuiz :: "AppState \<Rightarrow> AppState" where
  "openFirstQuiz st = setAppView View_quiz (handleModuleClick 0 (handleCourseClick 0 st))"

text \<open>The learner is about to submit the mock test of a course that holds a badge.\<close>

definition exampleMockCourse :: Course where
  "exampleMockCourse = exampleGoldCourse\<lparr>mockTest := Some 0, mockTestState := Some READY\<rparr>"

definition exampleMockState :: AppState where
  "exampleMockState =
     \<lparr>apiKey = Some ''key'', quizStore = [exampleQuiz], courses_state = [exampleMockCourse],
      learningPaths = [], activePath = None, activeCourse = Some exampleMockCourse,
      activeModule = None, view = View_mock_test,
      quizScore_state = (0, 0), mockTestScore_state = (0, 0)\<rparr>"

text \<open>A test of forty questions, and a submission that answers the first 23 of them.\<close>

definition exampleQuiz40 :: Quiz where
  "exampleQuiz40 = \<lparr>quiz_title = ''Mock test'', questions = replicate 40 exampleQuestion\<rparr>"

definition exampleAnswers23 :: answers where
  "exampleAnswers23 = (\<lambda>i. if i < 23 then Some [''a'', ''b''] else None)"



text \<open>A submission that selects both correct options of the first question.\<close>

definition exampleAnswers :: answers where
  "exampleAnswers = [0 \<mapsto> [''a'', ''b'']]"

text \<open>
  A quiz whose question lists a correct answer twice, with the submission that selects
  it, and a quiz without questions.
\<close>

definition exampleDuplicateQuiz :: Quiz where
  "exampleDuplicateQuiz =
     \<lparr>quiz_title = ''Duplicates'', questions = [exampleQuestion\<lparr>correctAnswers := [''a'', ''a'']\<rparr>]\<rparr>"

definition exampleSingleAnswer :: answers where
  "exampleSingleAnswer = [0 \<mapsto> [''a'']]"

definition exampleEmptyQuiz :: Quiz where
  "exampleEmptyQuiz = \<lparr>quiz_title = ''Empty'', questions = []\<rparr>"

section \<open>Properties\<close>

subsection \<open>Lists\<close>


lemma nth_mapi: "i < length xs \<Longrightarrow> mapi f xs ! i = f i (xs ! i)"
  by (simp add: mapi_def)

lemma filter_upt_Suc_shift:
  "length (filter P [0..<Suc n]) = (if P 0 then 1 else 0) + length (filter (\<lambda>j. P (Suc j)) [0..<n])"
proof -
  have "[0..<Suc n] = 0 # map Suc [0..<n]"
    by (simp add: upt_conv_Cons map_Suc_upt del: upt_Suc)
  then show ?thesis
    by (simp add: filter_map o_def del: upt_Suc)
qed

lemma sort_eq_iff_mset: "sort xs = sort ys \<longleftrightarrow> mset xs = mset ys"
  by (metis mset_sort properties_for_sort sorted_sort)

subsection \<open>Binary64 rounding\<close>

text \<open>
  The exponent that \<open>exponent53\<close> computes is the one that puts the significand between
  \<open>2^52\<close> and \<open>2^53\<close>, and it is the only one; so the rounding error of \<open>binary64\<close>
  is at most \<open>2^-53\<close> of the value, and a value is evaluated by naming its exponent.
\<close>

lemma pow2_Suc: "(2::rat) powi (e + 1) = 2 * 2 powi e"
  by (simp add: power_int_add_1')

lemma pow2_double_le: "e < e' \<Longrightarrow> 2 * (2::rat) powi e \<le> 2 powi e'"
  using power_int_increasing [of "e + 1" e' "2::rat"] by (simp add: pow2_Suc)

lemma roundTiesToEven_error: "\<bar>of_int (roundTiesToEven y) - y\<bar> \<le> 1 / 2"
proof -
  have "of_int \<lfloor>y\<rfloor> \<le> y" "y < of_int \<lfloor>y\<rfloor> + 1" by linarith+
  then show ?thesis
    by (auto simp: roundTiesToEven_def Let_def)
qed

lemma roundTiesToEven_of_int: "roundTiesToEven (of_int k) = k"
  by (simp add: roundTiesToEven_def)

lemma floorlog2_bounds:
  assumes "0 < n"
  shows "2 ^ floorlog 2 n \<le> 2 * n" and "n < 2 ^ floorlog 2 n"
proof -
  have b: "2 ^ (floorlog 2 n - 1) \<le> n \<and> n < 2 ^ floorlog 2 n"
    using assms by (intro floorlog_bounds) auto
  then show "n < 2 ^ floorlog 2 n" by simp
  have "floorlog 2 n \<noteq> 0"
    using assms by (simp add: floorlog_eq_zero_iff)
  then obtain k where k: "floorlog 2 n = Suc k" by (cases "floorlog 2 n") auto
  show "2 ^ floorlog 2 n \<le> 2 * n"
    using b by (simp add: k)
qed

lemma exponent53_candidate:
  fixes P Q :: nat
  assumes "0 < P" and "0 < Q"
  defines "e0 \<equiv> int (floorlog 2 P) - int (floorlog 2 Q) - 53"
  shows "2 ^ 52 < (of_nat P / of_nat Q :: rat) / 2 powi e0"
    and "(of_nat P / of_nat Q :: rat) / 2 powi e0 < 2 ^ 54"
proof -
  define a where "a = floorlog 2 P"
  define b where "b = floorlog 2 Q"
  have pa: "2 ^ a \<le> 2 * P" "P < 2 ^ a" and qb: "2 ^ b \<le> 2 * Q" "Q < 2 ^ b"
    using floorlog2_bounds [OF assms(1)] floorlog2_bounds [OF assms(2)] by (simp_all add: a_def b_def)
  have "Q * 2 ^ a < 2 ^ b * 2 ^ a" using qb(2) by simp
  also have "\<dots> \<le> 2 ^ b * (2 * P)" using pa(1) by (intro mult_le_mono2)
  finally have n1: "Q * 2 ^ a < 2 * P * 2 ^ b" by (simp add: mult_ac)
  have "P * 2 ^ b < 2 ^ a * 2 ^ b" using pa(2) by simp
  also have "\<dots> \<le> 2 ^ a * (2 * Q)" using qb(1) by (intro mult_le_mono2)
  finally have n2: "P * 2 ^ b < 2 * Q * 2 ^ a" by (simp add: mult_ac)
  have "(of_nat (Q * 2 ^ a) :: rat) < of_nat (2 * P * 2 ^ b)"
    using n1 by (simp only: of_nat_less_iff)
  then have r1: "(of_nat Q :: rat) * 2 ^ a < 2 * of_nat P * 2 ^ b"
    by simp
  have "(of_nat (P * 2 ^ b) :: rat) < of_nat (2 * Q * 2 ^ a)"
    using n2 by (simp only: of_nat_less_iff)
  then have r2: "(of_nat P :: rat) * 2 ^ b < 2 * of_nat Q * 2 ^ a"
    by simp
  have e0: "(2::rat) powi e0 = 2 ^ a / (2 ^ b * 2 ^ 53)"
  proof -
    have "e0 = int a - (int b + 53)" by (simp add: e0_def a_def b_def)
    moreover have "(2::rat) powi (int a - (int b + 53)) = 2 powi int a / 2 powi (int b + 53)"
      by (rule power_int_diff) simp
    moreover have "(2::rat) powi (int b + 53) = 2 powi int b * 2 powi 53"
      by (rule power_int_add) simp
    ultimately show ?thesis by simp
  qed
  define w :: rat where "w = (of_nat P * 2 ^ b) / (of_nat Q * 2 ^ a)"
  have y: "(of_nat P / of_nat Q :: rat) / 2 powi e0 = w * 2 ^ 53"
    by (simp add: e0 w_def)
  have pos: "0 < (of_nat Q :: rat) * 2 ^ a" using assms(2) by simp
  have w1: "1 / 2 < w"
    unfolding w_def using r1 pos by (simp add: pos_less_divide_eq)
  have w2: "w < 2"
    unfolding w_def using r2 pos by (simp add: pos_divide_less_eq)
  show "2 ^ 52 < (of_nat P / of_nat Q :: rat) / 2 powi e0"
    unfolding y using w1 by simp
  show "(of_nat P / of_nat Q :: rat) / 2 powi e0 < 2 ^ 54"
    unfolding y using w2 by simp
qed

lemma exponent53_bounds:
  assumes "0 < x"
  shows "2 ^ 52 \<le> x / 2 powi exponent53 x" and "x / 2 powi exponent53 x < 2 ^ 53"
proof -
  obtain p q where pq: "quotient_of x = (p, q)" by (cases "quotient_of x") auto
  have q: "0 < q" using pq by (rule quotient_of_denom_pos)
  have x: "x = of_int p / of_int q" using pq by (rule quotient_of_div)
  have p: "0 < p" using assms q by (simp add: x zero_less_divide_iff)
  define e0 where "e0 = int (floorlog 2 (nat p)) - int (floorlog 2 (nat q)) - 53"
  have x': "x = of_nat (nat p) / of_nat (nat q)"
    using p q by (simp add: x)
  have c: "2 ^ 52 < x / 2 powi e0" "x / 2 powi e0 < 2 ^ 54"
    using exponent53_candidate [of "nat p" "nat q"] p q unfolding x' e0_def by simp_all
  have e: "exponent53 x = (if 2 ^ 53 \<le> x / 2 powi e0 then e0 + 1 else e0)"
    by (simp add: exponent53_def pq e0_def)
  show "2 ^ 52 \<le> x / 2 powi exponent53 x"
    using c by (simp add: e pow2_Suc)
  show "x / 2 powi exponent53 x < 2 ^ 53"
    using c by (simp add: e pow2_Suc)
qed

lemma exponent53_unique:
  assumes "0 < x" and "2 ^ 52 \<le> x / 2 powi e" and "x / 2 powi e < 2 ^ 53"
  shows "exponent53 x = e"
proof (rule ccontr)
  assume ne: "exponent53 x \<noteq> e"
  have b: "2 ^ 52 \<le> x / 2 powi exponent53 x" "x / 2 powi exponent53 x < 2 ^ 53"
    using exponent53_bounds [OF assms(1)] by simp_all
  have key: "False" if "e1 < e2" and "2 ^ 52 \<le> x / 2 powi e2" and "x / 2 powi e1 < 2 ^ 53" for e1 e2
  proof -
    have "2 ^ 52 * 2 powi e2 \<le> x" using that(2) by (simp add: pos_le_divide_eq)
    moreover have "x < 2 ^ 53 * 2 powi e1" using that(3) by (simp add: pos_divide_less_eq)
    moreover have "2 * (2::rat) powi e1 \<le> 2 powi e2" using that(1) by (rule pow2_double_le)
    ultimately show False by simp
  qed
  from ne consider "exponent53 x < e" | "e < exponent53 x" by linarith
  then show False
    using key [of "exponent53 x" e] key [of e "exponent53 x"] assms b by cases auto
qed

lemma binary64_eqI:
  assumes "0 < x" and "2 ^ 52 \<le> x / 2 powi e" and "x / 2 powi e < 2 ^ 53"
  shows "binary64 x = of_int (roundTiesToEven (x / 2 powi e)) * 2 powi e"
  using assms exponent53_unique [OF assms] by (simp add: binary64_def binary64_pos_def)

lemma binary64_error:
  assumes "0 < x"
  shows "\<bar>binary64 x - x\<bar> \<le> x / 2 ^ 53"
proof -
  define e where "e = exponent53 x"
  define y where "y = x / 2 powi e"
  have y: "2 ^ 52 \<le> y" using exponent53_bounds(1) [OF assms] by (simp add: y_def e_def)
  have x: "x = y * 2 powi e" by (simp add: y_def)
  have b: "binary64 x = of_int (roundTiesToEven y) * 2 powi e"
    using assms by (simp add: binary64_def binary64_pos_def y_def e_def)
  have "binary64 x - x = (of_int (roundTiesToEven y) - y) * 2 powi e"
    unfolding b by (subst x) (simp only: left_diff_distrib)
  then have "\<bar>binary64 x - x\<bar> = \<bar>of_int (roundTiesToEven y) - y\<bar> * 2 powi e"
    by (simp add: abs_mult)
  also have "\<dots> \<le> 1 / 2 * 2 powi e"
    by (intro mult_right_mono roundTiesToEven_error) simp
  also have "\<dots> \<le> y / 2 ^ 53 * 2 powi e"
    using y by (intro mult_right_mono) simp_all
  finally show ?thesis by (simp add: y_def)
qed

lemma binary64_1: "binary64 1 = 1"
  using binary64_eqI [of 1 "- 52"] roundTiesToEven_of_int [of "2 ^ 52"] by simp

lemma binary64_100: "binary64 100 = 100"
  using binary64_eqI [of 100 "- 46"] roundTiesToEven_of_int [of "100 * 2 ^ 46"] by simp

lemma Math_round_of_int: "Math_round (of_int k) = k"
  unfolding Math_round_def by (rule floor_unique) simp_all

lemma percentageOf_full: "0 < n \<Longrightarrow> percentageOf n n = Num 100"
  using Math_round_of_int [of 100] by (simp add: percentageOf_def binary64_1 binary64_100)

lemma percentageOf_zero: "0 < n \<Longrightarrow> percentageOf 0 n = Num 0"
  using Math_round_of_int [of 0] by (simp add: percentageOf_def binary64_def)


lemma binary64_pos: 
  assumes "0 < x" shows "0 < binary64 x"
proof -
  have "\<bar>binary64 x - x\<bar> \<le> x / 2 ^ 53" using assms by (rule binary64_error)
  moreover have "x / 2 ^ 53 < x" using assms by simp
  ultimately show ?thesis by linarith
qed

lemma percentage_error:
  assumes "0 < sc" and "sc \<le> n"
  shows "\<bar>binary64 (binary64 (of_nat sc / of_nat n) * 100) - 100 * (of_nat sc / of_nat n)\<bar> < 1 / 2 ^ 45"
proof -
  define x :: rat where "x = of_nat sc / of_nat n"
  define y where "y = binary64 x"
  define z where "z = binary64 (y * 100)"
  have n: "0 < n" using assms by simp
  have x0: "0 < x" using assms n by (simp add: x_def)
  have x1: "x \<le> 1" using assms n by (simp add: x_def)
  have ey: "\<bar>y - x\<bar> \<le> x / 2 ^ 53" unfolding y_def using x0 by (rule binary64_error)
  have y0: "0 < y" unfolding y_def using x0 by (rule binary64_pos)
  have ez: "\<bar>z - y * 100\<bar> \<le> y * 100 / 2 ^ 53"
    unfolding z_def using y0 by (intro binary64_error) simp
  have c53: "(2::rat) ^ 53 = 9007199254740992" and c45: "(2::rat) ^ 45 = 35184372088832"
    by simp_all
  note ey' = ey [unfolded abs_le_iff c53]
  note ez' = ez [unfolded abs_le_iff c53]
  have "z - 100 * x < 1 / 35184372088832" and "- (z - 100 * x) < 1 / 35184372088832"
    using ey' ez' x0 x1 by linarith+
  then have "\<bar>z - 100 * x\<bar> < 1 / 2 ^ 45"
    unfolding c45 abs_less_iff by simp
  then show ?thesis by (simp add: x_def y_def z_def)
qed

lemma percentage_rounding_div:
  assumes "0 < n" and "n < 2 ^ 32" and "sc \<le> n" and "\<not> 2 * n dvd 200 * sc + n"
  shows "percentageOf sc n = Num (int ((200 * sc + n) div (2 * n)))"
proof (cases "sc = 0")
  case True
  then show ?thesis using assms(1) by (simp add: percentageOf_zero)
next
  case False
  define k where "k = (200 * sc + n) div (2 * n)"
  define r where "r = (200 * sc + n) mod (2 * n)"
  define t :: rat where "t = 100 * (of_nat sc / of_nat n)"
  define z where "z = binary64 (binary64 (of_nat sc / of_nat n) * 100)"
  have r: "0 < r" "r < 2 * n"
    using assms(1,4) by (auto simp: r_def dvd_eq_mod_eq_0)
  have "200 * sc + n = k * (2 * n) + r"
    by (simp only: k_def r_def div_mult_mod_eq)
  then have "(of_nat (200 * sc + n) :: rat) = of_nat (k * (2 * n) + r)"
    by simp
  then have eq: "200 * (of_nat sc :: rat) + of_nat n = of_nat k * (2 * of_nat n) + of_nat r"
    by simp
  have "(of_nat n :: rat) < of_nat (2 ^ 32)"
    using assms(2) by (simp only: of_nat_less_iff)
  then have N: "0 < (of_nat n :: rat)" "(of_nat n :: rat) < 4294967296"
    using assms(1) by simp_all
  define d :: rat where "d = of_nat r / (2 * of_nat n)"
  have t: "t + 1 / 2 = of_nat k + d"
    using N(1) eq by (simp add: t_def d_def field_simps)
  have "(of_nat 1 :: rat) \<le> of_nat r" "(of_nat (r + 1) :: rat) \<le> of_nat (2 * n)"
    using r by (simp_all only: of_nat_le_iff)
  then have R: "1 \<le> (of_nat r :: rat)" "(of_nat r :: rat) \<le> 2 * of_nat n - 1"
    by simp_all
  have lo: "1 / 8589934592 < d"
    unfolding d_def using R(1) N by (simp add: field_simps)
  have hi: "d < 1 - 1 / 8589934592"
    unfolding d_def using R(2) N by (simp add: field_simps)
  have "\<bar>z - t\<bar> < 1 / 2 ^ 45"
    unfolding z_def t_def using False assms(3) by (intro percentage_error) simp_all
  then have err: "z - t < 1 / 35184372088832" "- (z - t) < 1 / 35184372088832"
    unfolding abs_less_iff by simp_all
  have "of_int (int k) \<le> z + 1 / 2" "z + 1 / 2 < of_int (int k) + 1"
    using t lo hi err by simp_all
  then have "\<lfloor>z + 1 / 2\<rfloor> = int k"
    by (intro floor_unique)
  then show ?thesis
    using assms(1) by (simp add: percentageOf_def Math_round_def z_def k_def)
qed


lemma roundTiesToEven_down:
  assumes "of_int k \<le> y" and "y < of_int k + 1 / 2"
  shows "roundTiesToEven y = k"
proof -
  have "\<lfloor>y\<rfloor> = k" using assms by (intro floor_unique) simp_all
  then show ?thesis using assms(2) by (simp add: roundTiesToEven_def)
qed

lemma binary64_down:
  assumes "0 < x" and "2 ^ 52 \<le> k" and "k < 2 ^ 53"
    and "of_int k \<le> x / 2 powi e" and "x / 2 powi e < of_int k + 1 / 2"
  shows "binary64 x = of_int k * 2 powi e"
proof -
  have "(of_int (2 ^ 52) :: rat) \<le> of_int k" "(of_int (k + 1) :: rat) \<le> of_int (2 ^ 53)"
    using assms(2,3) by (simp_all only: of_int_le_iff)
  then have "(2::rat) ^ 52 \<le> of_int k" "(of_int k :: rat) + 1 \<le> 2 ^ 53"
    by simp_all
  then have "2 ^ 52 \<le> x / 2 powi e" "x / 2 powi e < 2 ^ 53"
    using assms(4,5) by linarith+
  then have "binary64 x = of_int (roundTiesToEven (x / 2 powi e)) * 2 powi e"
    using assms(1) by (intro binary64_eqI)
  then show ?thesis
    using roundTiesToEven_down [OF assms(4,5)] by simp
qed

lemma percentageOf_23_40: "percentageOf 23 40 = Num 57"
proof -
  have a: "binary64 (23 / 40) = 5179139571476070 * 2 powi (- 53)"
    using binary64_down [of "23 / 40" 5179139571476070 "- 53"] by simp
  have b: "binary64 (5179139571476070 * 2 powi (- 53) * 100) = 8092405580431359 * 2 powi (- 47)"
    using binary64_down [of "5179139571476070 * 2 powi (- 53) * 100" 8092405580431359 "- 47"] by simp
  have c: "Math_round (8092405580431359 * 2 powi (- 47)) = 57"
    unfolding Math_round_def by (rule floor_unique) simp_all
  have "percentageOf 23 40 = Num (Math_round (binary64 (binary64 (23 / 40) * 100)))"
    by (simp add: percentageOf_def)
  then show ?thesis
    by (simp only: a b c)
qed

text \<open>
  The exact percentage \<open>100 * sc / n\<close> rounded half up, in integer arithmetic, and the
  case where it lies halfway between two integers.
\<close>

lemma exact_percentage_fraction:
  assumes "0 < n"
  shows "100 * (of_nat sc / of_nat n :: rat) + 1 / 2 = of_nat (200 * sc + n) / of_nat (2 * n)"
  using assms by (simp add: field_simps)

lemma exact_percentage_floor:
  assumes "0 < n"
  shows "\<lfloor>100 * (of_nat sc / of_nat n :: rat) + 1 / 2\<rfloor> = int ((200 * sc + n) div (2 * n))"
  unfolding exact_percentage_fraction [OF assms] by (rule floor_divide_of_nat_eq)

lemma exact_percentage_halfway:
  assumes "0 < n"
  shows "of_int \<lfloor>100 * (of_nat sc / of_nat n :: rat) + 1 / 2\<rfloor> = 100 * (of_nat sc / of_nat n :: rat) + 1 / 2
         \<longleftrightarrow> 2 * n dvd 200 * sc + n"
proof
  define M where "M = 200 * sc + n"
  define D where "D = 2 * n"
  have D: "0 < D" using assms by (simp add: D_def)
  assume "of_int \<lfloor>100 * (of_nat sc / of_nat n :: rat) + 1 / 2\<rfloor> = 100 * (of_nat sc / of_nat n :: rat) + 1 / 2"
  then have "(of_int (int (M div D)) :: rat) = of_nat M / of_nat D"
    unfolding exact_percentage_fraction [OF assms] floor_divide_of_nat_eq M_def D_def .
  then have "(of_nat (M div D) :: rat) * of_nat D = of_nat M"
    using D by (simp add: field_simps)
  then have "(of_nat (M div D * D) :: rat) = of_nat M"
    by simp
  then have "M div D * D = M"
    by (simp only: of_nat_eq_iff)
  then have "D dvd M"
    by (metis dvd_triv_right)
  then show "2 * n dvd 200 * sc + n"
    by (simp add: M_def D_def)
next
  assume "2 * n dvd 200 * sc + n"
  then obtain k where k: "200 * sc + n = 2 * n * k" by (auto simp: dvd_def)
  have "(of_nat (2 * n * k) :: rat) / of_nat (2 * n) = of_nat k"
    using assms by simp
  then have "100 * (of_nat sc / of_nat n :: rat) + 1 / 2 = of_int (int k)"
    unfolding exact_percentage_fraction [OF assms] k by simp
  then show "of_int \<lfloor>100 * (of_nat sc / of_nat n :: rat) + 1 / 2\<rfloor> = 100 * (of_nat sc / of_nat n :: rat) + 1 / 2"
    by (simp only: floor_of_int)
qed

text \<open>
  Unless the exact percentage lies halfway between two integers, the two roundings of
  the binary64 computation do not show: the result is the exact percentage rounded half up.
\<close>

lemma percentage_rounding:
  assumes "0 < n" and "n < 2 ^ 32" and "sc \<le> n"
    and "of_int \<lfloor>100 * (of_nat sc / of_nat n :: rat) + 1 / 2\<rfloor> \<noteq> 100 * (of_nat sc / of_nat n :: rat) + 1 / 2"
  shows "percentageOf sc n = Num \<lfloor>100 * (of_nat sc / of_nat n :: rat) + 1 / 2\<rfloor>"
proof -
  have "\<not> 2 * n dvd 200 * sc + n"
    using assms(4) unfolding exact_percentage_halfway [OF assms(1)] .
  then have "percentageOf sc n = Num (int ((200 * sc + n) div (2 * n)))"
    using assms(1,2,3) by (intro percentage_rounding_div)
  then show ?thesis
    unfolding exact_percentage_floor [OF assms(1)] .
qed

text \<open>
  A value of \<open>binary64\<close> is computed from the exponent \<open>e\<close> and the floor \<open>f\<close> of the
  significand.
\<close>

lemma binary64_floor:
  assumes "0 < x" and "2 ^ 52 \<le> x / 2 powi e" and "x / 2 powi e < 2 ^ 53"
    and "of_int f \<le> x / 2 powi e" and "x / 2 powi e < of_int f + 1"
  shows "binary64 x =
           of_int (if x / 2 powi e - of_int f < 1 / 2 then f
                   else if 1 / 2 < x / 2 powi e - of_int f then f + 1
                   else if even f then f else f + 1) * 2 powi e"
proof -
  have "\<lfloor>x / 2 powi e\<rfloor> = f"
    using assms(4,5) by (rule floor_unique)
  then have "roundTiesToEven (x / 2 powi e) =
           (if x / 2 powi e - of_int f < 1 / 2 then f
            else if 1 / 2 < x / 2 powi e - of_int f then f + 1
            else if even f then f else f + 1)"
    by (simp add: roundTiesToEven_def)
  then show ?thesis
    using binary64_eqI [OF assms(1,2,3)] by simp
qed

subsection \<open>The percentages halfway between two integers\<close>

text \<open>
  An exact percentage \<open>j - 1/2\<close> belongs to the ratio \<open>(2 * j - 1) / 200\<close> of score and
  total, whatever the total. Each of the hundred ratios is computed below: the quotient
  rounded to binary64, its hundredfold rounded again, and \<^verbatim>\<open>Math.round\<close> of that. The
  result is \<open>j\<close>, the exact percentage rounded half up, except for 14.5, 28.5, 56.5 and
  57.5, where the product falls just below the half and the result is \<open>j - 1\<close>.
\<close>

lemma percentage_halfway_1: "Math_round (binary64 (binary64 (1 / 200) * 100)) = 1"
proof -
  have a: "binary64 (1 / 200) = 5764607523034235 * 2 powi (- 60)"
    using binary64_floor [of "1 / 200" "- 60" 5764607523034234] by simp
  have b: "binary64 (5764607523034235 * 2 powi (- 60) * 100) = 4503599627370496 * 2 powi (- 53)"
    using binary64_floor [of "5764607523034235 * 2 powi (- 60) * 100" "- 53" 4503599627370496] by simp
  have c: "Math_round (4503599627370496 * 2 powi (- 53)) = 1"
    unfolding Math_round_def by (rule floor_unique) simp_all
  show ?thesis
    by (simp only: a b c)
qed

lemma percentage_halfway_2: "Math_round (binary64 (binary64 (3 / 200) * 100)) = 2"
proof -
  have a: "binary64 (3 / 200) = 8646911284551352 * 2 powi (- 59)"
    using binary64_floor [of "3 / 200" "- 59" 8646911284551352] by simp
  have b: "binary64 (8646911284551352 * 2 powi (- 59) * 100) = 6755399441055744 * 2 powi (- 52)"
    using binary64_floor [of "8646911284551352 * 2 powi (- 59) * 100" "- 52" 6755399441055743] by simp
  have c: "Math_round (6755399441055744 * 2 powi (- 52)) = 2"
    unfolding Math_round_def by (rule floor_unique) simp_all
  show ?thesis
    by (simp only: a b c)
qed

lemma percentage_halfway_3: "Math_round (binary64 (binary64 (1 / 40) * 100)) = 3"
proof -
  have a: "binary64 (1 / 40) = 7205759403792794 * 2 powi (- 58)"
    using binary64_floor [of "1 / 40" "- 58" 7205759403792793] by simp
  have b: "binary64 (7205759403792794 * 2 powi (- 58) * 100) = 5629499534213120 * 2 powi (- 51)"
    using binary64_floor [of "7205759403792794 * 2 powi (- 58) * 100" "- 51" 5629499534213120] by simp
  have c: "Math_round (5629499534213120 * 2 powi (- 51)) = 3"
    unfolding Math_round_def by (rule floor_unique) simp_all
  show ?thesis
    by (simp only: a b c)
qed

lemma percentage_halfway_4: "Math_round (binary64 (binary64 (7 / 200) * 100)) = 4"
proof -
  have a: "binary64 (7 / 200) = 5044031582654956 * 2 powi (- 57)"
    using binary64_floor [of "7 / 200" "- 57" 5044031582654955] by simp
  have b: "binary64 (5044031582654956 * 2 powi (- 57) * 100) = 7881299347898369 * 2 powi (- 51)"
    using binary64_floor [of "5044031582654956 * 2 powi (- 57) * 100" "- 51" 7881299347898368] by simp
  have c: "Math_round (7881299347898369 * 2 powi (- 51)) = 4"
    unfolding Math_round_def by (rule floor_unique) simp_all
  show ?thesis
    by (simp only: a b c)
qed

lemma percentage_halfway_5: "Math_round (binary64 (binary64 (9 / 200) * 100)) = 5"
proof -
  have a: "binary64 (9 / 200) = 6485183463413514 * 2 powi (- 57)"
    using binary64_floor [of "9 / 200" "- 57" 6485183463413514] by simp
  have b: "binary64 (6485183463413514 * 2 powi (- 57) * 100) = 5066549580791808 * 2 powi (- 50)"
    using binary64_floor [of "6485183463413514 * 2 powi (- 57) * 100" "- 50" 5066549580791807] by simp
  have c: "Math_round (5066549580791808 * 2 powi (- 50)) = 5"
    unfolding Math_round_def by (rule floor_unique) simp_all
  show ?thesis
    by (simp only: a b c)
qed

lemma percentage_halfway_6: "Math_round (binary64 (binary64 (11 / 200) * 100)) = 6"
proof -
  have a: "binary64 (11 / 200) = 7926335344172073 * 2 powi (- 57)"
    using binary64_floor [of "11 / 200" "- 57" 7926335344172072] by simp
  have b: "binary64 (7926335344172073 * 2 powi (- 57) * 100) = 6192449487634432 * 2 powi (- 50)"
    using binary64_floor [of "7926335344172073 * 2 powi (- 57) * 100" "- 50" 6192449487634432] by simp
  have c: "Math_round (6192449487634432 * 2 powi (- 50)) = 6"
    unfolding Math_round_def by (rule floor_unique) simp_all
  show ?thesis
    by (simp only: a b c)
qed

lemma percentage_halfway_7: "Math_round (binary64 (binary64 (13 / 200) * 100)) = 7"
proof -
  have a: "binary64 (13 / 200) = 4683743612465316 * 2 powi (- 56)"
    using binary64_floor [of "13 / 200" "- 56" 4683743612465315] by simp
  have b: "binary64 (4683743612465316 * 2 powi (- 56) * 100) = 7318349394477056 * 2 powi (- 50)"
    using binary64_floor [of "4683743612465316 * 2 powi (- 56) * 100" "- 50" 7318349394477056] by simp
  have c: "Math_round (7318349394477056 * 2 powi (- 50)) = 7"
    unfolding Math_round_def by (rule floor_unique) simp_all
  show ?thesis
    by (simp only: a b c)
qed

lemma percentage_halfway_8: "Math_round (binary64 (binary64 (3 / 40) * 100)) = 8"
proof -
  have a: "binary64 (3 / 40) = 5404319552844595 * 2 powi (- 56)"
    using binary64_floor [of "3 / 40" "- 56" 5404319552844595] by simp
  have b: "binary64 (5404319552844595 * 2 powi (- 56) * 100) = 8444249301319680 * 2 powi (- 50)"
    using binary64_floor [of "5404319552844595 * 2 powi (- 56) * 100" "- 50" 8444249301319679] by simp
  have c: "Math_round (8444249301319680 * 2 powi (- 50)) = 8"
    unfolding Math_round_def by (rule floor_unique) simp_all
  show ?thesis
    by (simp only: a b c)
qed

lemma percentage_halfway_9: "Math_round (binary64 (binary64 (17 / 200) * 100)) = 9"
proof -
  have a: "binary64 (17 / 200) = 6124895493223875 * 2 powi (- 56)"
    using binary64_floor [of "17 / 200" "- 56" 6124895493223874] by simp
  have b: "binary64 (6124895493223875 * 2 powi (- 56) * 100) = 4785074604081152 * 2 powi (- 49)"
    using binary64_floor [of "6124895493223875 * 2 powi (- 56) * 100" "- 49" 4785074604081152] by simp
  have c: "Math_round (4785074604081152 * 2 powi (- 49)) = 9"
    unfolding Math_round_def by (rule floor_unique) simp_all
  show ?thesis
    by (simp only: a b c)
qed

lemma percentage_halfway_10: "Math_round (binary64 (binary64 (19 / 200) * 100)) = 10"
proof -
  have a: "binary64 (19 / 200) = 6845471433603154 * 2 powi (- 56)"
    using binary64_floor [of "19 / 200" "- 56" 6845471433603153] by simp
  have b: "binary64 (6845471433603154 * 2 powi (- 56) * 100) = 5348024557502464 * 2 powi (- 49)"
    using binary64_floor [of "6845471433603154 * 2 powi (- 56) * 100" "- 49" 5348024557502464] by simp
  have c: "Math_round (5348024557502464 * 2 powi (- 49)) = 10"
    unfolding Math_round_def by (rule floor_unique) simp_all
  show ?thesis
    by (simp only: a b c)
qed

lemma percentage_halfway_11: "Math_round (binary64 (binary64 (21 / 200) * 100)) = 11"
proof -
  have a: "binary64 (21 / 200) = 7566047373982433 * 2 powi (- 56)"
    using binary64_floor [of "21 / 200" "- 56" 7566047373982433] by simp
  have b: "binary64 (7566047373982433 * 2 powi (- 56) * 100) = 5910974510923776 * 2 powi (- 49)"
    using binary64_floor [of "7566047373982433 * 2 powi (- 56) * 100" "- 49" 5910974510923775] by simp
  have c: "Math_round (5910974510923776 * 2 powi (- 49)) = 11"
    unfolding Math_round_def by (rule floor_unique) simp_all
  show ?thesis
    by (simp only: a b c)
qed

lemma percentage_halfway_12: "Math_round (binary64 (binary64 (23 / 200) * 100)) = 12"
proof -
  have a: "binary64 (23 / 200) = 8286623314361713 * 2 powi (- 56)"
    using binary64_floor [of "23 / 200" "- 56" 8286623314361712] by simp
  have b: "binary64 (8286623314361713 * 2 powi (- 56) * 100) = 6473924464345088 * 2 powi (- 49)"
    using binary64_floor [of "8286623314361713 * 2 powi (- 56) * 100" "- 49" 6473924464345088] by simp
  have c: "Math_round (6473924464345088 * 2 powi (- 49)) = 12"
    unfolding Math_round_def by (rule floor_unique) simp_all
  show ?thesis
    by (simp only: a b c)
qed

lemma percentage_halfway_13: "Math_round (binary64 (binary64 (1 / 8) * 100)) = 13"
proof -
  have a: "binary64 (1 / 8) = 4503599627370496 * 2 powi (- 55)"
    using binary64_floor [of "1 / 8" "- 55" 4503599627370496] by simp
  have b: "binary64 (4503599627370496 * 2 powi (- 55) * 100) = 7036874417766400 * 2 powi (- 49)"
    using binary64_floor [of "4503599627370496 * 2 powi (- 55) * 100" "- 49" 7036874417766400] by simp
  have c: "Math_round (7036874417766400 * 2 powi (- 49)) = 13"
    unfolding Math_round_def by (rule floor_unique) simp_all
  show ?thesis
    by (simp only: a b c)
qed

lemma percentage_halfway_14: "Math_round (binary64 (binary64 (27 / 200) * 100)) = 14"
proof -
  have a: "binary64 (27 / 200) = 4863887597560136 * 2 powi (- 55)"
    using binary64_floor [of "27 / 200" "- 55" 4863887597560135] by simp
  have b: "binary64 (4863887597560136 * 2 powi (- 55) * 100) = 7599824371187712 * 2 powi (- 49)"
    using binary64_floor [of "4863887597560136 * 2 powi (- 55) * 100" "- 49" 7599824371187712] by simp
  have c: "Math_round (7599824371187712 * 2 powi (- 49)) = 14"
    unfolding Math_round_def by (rule floor_unique) simp_all
  show ?thesis
    by (simp only: a b c)
qed

lemma percentage_halfway_15: "Math_round (binary64 (binary64 (29 / 200) * 100)) = 14"
proof -
  have a: "binary64 (29 / 200) = 5224175567749775 * 2 powi (- 55)"
    using binary64_floor [of "29 / 200" "- 55" 5224175567749775] by simp
  have b: "binary64 (5224175567749775 * 2 powi (- 55) * 100) = 8162774324609023 * 2 powi (- 49)"
    using binary64_floor [of "5224175567749775 * 2 powi (- 55) * 100" "- 49" 8162774324609023] by simp
  have c: "Math_round (8162774324609023 * 2 powi (- 49)) = 14"
    unfolding Math_round_def by (rule floor_unique) simp_all
  show ?thesis
    by (simp only: a b c)
qed

lemma percentage_halfway_16: "Math_round (binary64 (binary64 (31 / 200) * 100)) = 16"
proof -
  have a: "binary64 (31 / 200) = 5584463537939415 * 2 powi (- 55)"
    using binary64_floor [of "31 / 200" "- 55" 5584463537939415] by simp
  have b: "binary64 (5584463537939415 * 2 powi (- 55) * 100) = 8725724278030336 * 2 powi (- 49)"
    using binary64_floor [of "5584463537939415 * 2 powi (- 55) * 100" "- 49" 8725724278030335] by simp
  have c: "Math_round (8725724278030336 * 2 powi (- 49)) = 16"
    unfolding Math_round_def by (rule floor_unique) simp_all
  show ?thesis
    by (simp only: a b c)
qed

lemma percentage_halfway_17: "Math_round (binary64 (binary64 (33 / 200) * 100)) = 17"
proof -
  have a: "binary64 (33 / 200) = 5944751508129055 * 2 powi (- 55)"
    using binary64_floor [of "33 / 200" "- 55" 5944751508129054] by simp
  have b: "binary64 (5944751508129055 * 2 powi (- 55) * 100) = 4644337115725824 * 2 powi (- 48)"
    using binary64_floor [of "5944751508129055 * 2 powi (- 55) * 100" "- 48" 4644337115725824] by simp
  have c: "Math_round (4644337115725824 * 2 powi (- 48)) = 17"
    unfolding Math_round_def by (rule floor_unique) simp_all
  show ?thesis
    by (simp only: a b c)
qed

lemma percentage_halfway_18: "Math_round (binary64 (binary64 (7 / 40) * 100)) = 18"
proof -
  have a: "binary64 (7 / 40) = 6305039478318694 * 2 powi (- 55)"
    using binary64_floor [of "7 / 40" "- 55" 6305039478318694] by simp
  have b: "binary64 (6305039478318694 * 2 powi (- 55) * 100) = 4925812092436480 * 2 powi (- 48)"
    using binary64_floor [of "6305039478318694 * 2 powi (- 55) * 100" "- 48" 4925812092436479] by simp
  have c: "Math_round (4925812092436480 * 2 powi (- 48)) = 18"
    unfolding Math_round_def by (rule floor_unique) simp_all
  show ?thesis
    by (simp only: a b c)
qed

lemma percentage_halfway_19: "Math_round (binary64 (binary64 (37 / 200) * 100)) = 19"
proof -
  have a: "binary64 (37 / 200) = 6665327448508334 * 2 powi (- 55)"
    using binary64_floor [of "37 / 200" "- 55" 6665327448508334] by simp
  have b: "binary64 (6665327448508334 * 2 powi (- 55) * 100) = 5207287069147136 * 2 powi (- 48)"
    using binary64_floor [of "6665327448508334 * 2 powi (- 55) * 100" "- 48" 5207287069147135] by simp
  have c: "Math_round (5207287069147136 * 2 powi (- 48)) = 19"
    unfolding Math_round_def by (rule floor_unique) simp_all
  show ?thesis
    by (simp only: a b c)
qed

lemma percentage_halfway_20: "Math_round (binary64 (binary64 (39 / 200) * 100)) = 20"
proof -
  have a: "binary64 (39 / 200) = 7025615418697974 * 2 powi (- 55)"
    using binary64_floor [of "39 / 200" "- 55" 7025615418697973] by simp
  have b: "binary64 (7025615418697974 * 2 powi (- 55) * 100) = 5488762045857792 * 2 powi (- 48)"
    using binary64_floor [of "7025615418697974 * 2 powi (- 55) * 100" "- 48" 5488762045857792] by simp
  have c: "Math_round (5488762045857792 * 2 powi (- 48)) = 20"
    unfolding Math_round_def by (rule floor_unique) simp_all
  show ?thesis
    by (simp only: a b c)
qed

lemma percentage_halfway_21: "Math_round (binary64 (binary64 (41 / 200) * 100)) = 21"
proof -
  have a: "binary64 (41 / 200) = 7385903388887613 * 2 powi (- 55)"
    using binary64_floor [of "41 / 200" "- 55" 7385903388887613] by simp
  have b: "binary64 (7385903388887613 * 2 powi (- 55) * 100) = 5770237022568448 * 2 powi (- 48)"
    using binary64_floor [of "7385903388887613 * 2 powi (- 55) * 100" "- 48" 5770237022568447] by simp
  have c: "Math_round (5770237022568448 * 2 powi (- 48)) = 21"
    unfolding Math_round_def by (rule floor_unique) simp_all
  show ?thesis
    by (simp only: a b c)
qed

lemma percentage_halfway_22: "Math_round (binary64 (binary64 (43 / 200) * 100)) = 22"
proof -
  have a: "binary64 (43 / 200) = 7746191359077253 * 2 powi (- 55)"
    using binary64_floor [of "43 / 200" "- 55" 7746191359077253] by simp
  have b: "binary64 (7746191359077253 * 2 powi (- 55) * 100) = 6051711999279104 * 2 powi (- 48)"
    using binary64_floor [of "7746191359077253 * 2 powi (- 55) * 100" "- 48" 6051711999279103] by simp
  have c: "Math_round (6051711999279104 * 2 powi (- 48)) = 22"
    unfolding Math_round_def by (rule floor_unique) simp_all
  show ?thesis
    by (simp only: a b c)
qed

lemma percentage_halfway_23: "Math_round (binary64 (binary64 (9 / 40) * 100)) = 23"
proof -
  have a: "binary64 (9 / 40) = 8106479329266893 * 2 powi (- 55)"
    using binary64_floor [of "9 / 40" "- 55" 8106479329266892] by simp
  have b: "binary64 (8106479329266893 * 2 powi (- 55) * 100) = 6333186975989760 * 2 powi (- 48)"
    using binary64_floor [of "8106479329266893 * 2 powi (- 55) * 100" "- 48" 6333186975989760] by simp
  have c: "Math_round (6333186975989760 * 2 powi (- 48)) = 23"
    unfolding Math_round_def by (rule floor_unique) simp_all
  show ?thesis
    by (simp only: a b c)
qed

lemma percentage_halfway_24: "Math_round (binary64 (binary64 (47 / 200) * 100)) = 24"
proof -
  have a: "binary64 (47 / 200) = 8466767299456532 * 2 powi (- 55)"
    using binary64_floor [of "47 / 200" "- 55" 8466767299456532] by simp
  have b: "binary64 (8466767299456532 * 2 powi (- 55) * 100) = 6614661952700416 * 2 powi (- 48)"
    using binary64_floor [of "8466767299456532 * 2 powi (- 55) * 100" "- 48" 6614661952700415] by simp
  have c: "Math_round (6614661952700416 * 2 powi (- 48)) = 24"
    unfolding Math_round_def by (rule floor_unique) simp_all
  show ?thesis
    by (simp only: a b c)
qed

lemma percentage_halfway_25: "Math_round (binary64 (binary64 (49 / 200) * 100)) = 25"
proof -
  have a: "binary64 (49 / 200) = 8827055269646172 * 2 powi (- 55)"
    using binary64_floor [of "49 / 200" "- 55" 8827055269646172] by simp
  have b: "binary64 (8827055269646172 * 2 powi (- 55) * 100) = 6896136929411072 * 2 powi (- 48)"
    using binary64_floor [of "8827055269646172 * 2 powi (- 55) * 100" "- 48" 6896136929411071] by simp
  have c: "Math_round (6896136929411072 * 2 powi (- 48)) = 25"
    unfolding Math_round_def by (rule floor_unique) simp_all
  show ?thesis
    by (simp only: a b c)
qed

lemma percentage_halfway_26: "Math_round (binary64 (binary64 (51 / 200) * 100)) = 26"
proof -
  have a: "binary64 (51 / 200) = 4593671619917906 * 2 powi (- 54)"
    using binary64_floor [of "51 / 200" "- 54" 4593671619917905] by simp
  have b: "binary64 (4593671619917906 * 2 powi (- 54) * 100) = 7177611906121728 * 2 powi (- 48)"
    using binary64_floor [of "4593671619917906 * 2 powi (- 54) * 100" "- 48" 7177611906121728] by simp
  have c: "Math_round (7177611906121728 * 2 powi (- 48)) = 26"
    unfolding Math_round_def by (rule floor_unique) simp_all
  show ?thesis
    by (simp only: a b c)
qed

lemma percentage_halfway_27: "Math_round (binary64 (binary64 (53 / 200) * 100)) = 27"
proof -
  have a: "binary64 (53 / 200) = 4773815605012726 * 2 powi (- 54)"
    using binary64_floor [of "53 / 200" "- 54" 4773815605012725] by simp
  have b: "binary64 (4773815605012726 * 2 powi (- 54) * 100) = 7459086882832384 * 2 powi (- 48)"
    using binary64_floor [of "4773815605012726 * 2 powi (- 54) * 100" "- 48" 7459086882832384] by simp
  have c: "Math_round (7459086882832384 * 2 powi (- 48)) = 27"
    unfolding Math_round_def by (rule floor_unique) simp_all
  show ?thesis
    by (simp only: a b c)
qed

lemma percentage_halfway_28: "Math_round (binary64 (binary64 (11 / 40) * 100)) = 28"
proof -
  have a: "binary64 (11 / 40) = 4953959590107546 * 2 powi (- 54)"
    using binary64_floor [of "11 / 40" "- 54" 4953959590107545] by simp
  have b: "binary64 (4953959590107546 * 2 powi (- 54) * 100) = 7740561859543041 * 2 powi (- 48)"
    using binary64_floor [of "4953959590107546 * 2 powi (- 54) * 100" "- 48" 7740561859543040] by simp
  have c: "Math_round (7740561859543041 * 2 powi (- 48)) = 28"
    unfolding Math_round_def by (rule floor_unique) simp_all
  show ?thesis
    by (simp only: a b c)
qed

lemma percentage_halfway_29: "Math_round (binary64 (binary64 (57 / 200) * 100)) = 28"
proof -
  have a: "binary64 (57 / 200) = 5134103575202365 * 2 powi (- 54)"
    using binary64_floor [of "57 / 200" "- 54" 5134103575202365] by simp
  have b: "binary64 (5134103575202365 * 2 powi (- 54) * 100) = 8022036836253695 * 2 powi (- 48)"
    using binary64_floor [of "5134103575202365 * 2 powi (- 54) * 100" "- 48" 8022036836253695] by simp
  have c: "Math_round (8022036836253695 * 2 powi (- 48)) = 28"
    unfolding Math_round_def by (rule floor_unique) simp_all
  show ?thesis
    by (simp only: a b c)
qed

lemma percentage_halfway_30: "Math_round (binary64 (binary64 (59 / 200) * 100)) = 30"
proof -
  have a: "binary64 (59 / 200) = 5314247560297185 * 2 powi (- 54)"
    using binary64_floor [of "59 / 200" "- 54" 5314247560297185] by simp
  have b: "binary64 (5314247560297185 * 2 powi (- 54) * 100) = 8303511812964352 * 2 powi (- 48)"
    using binary64_floor [of "5314247560297185 * 2 powi (- 54) * 100" "- 48" 8303511812964351] by simp
  have c: "Math_round (8303511812964352 * 2 powi (- 48)) = 30"
    unfolding Math_round_def by (rule floor_unique) simp_all
  show ?thesis
    by (simp only: a b c)
qed

lemma percentage_halfway_31: "Math_round (binary64 (binary64 (61 / 200) * 100)) = 31"
proof -
  have a: "binary64 (61 / 200) = 5494391545392005 * 2 powi (- 54)"
    using binary64_floor [of "61 / 200" "- 54" 5494391545392005] by simp
  have b: "binary64 (5494391545392005 * 2 powi (- 54) * 100) = 8584986789675008 * 2 powi (- 48)"
    using binary64_floor [of "5494391545392005 * 2 powi (- 54) * 100" "- 48" 8584986789675007] by simp
  have c: "Math_round (8584986789675008 * 2 powi (- 48)) = 31"
    unfolding Math_round_def by (rule floor_unique) simp_all
  show ?thesis
    by (simp only: a b c)
qed

lemma percentage_halfway_32: "Math_round (binary64 (binary64 (63 / 200) * 100)) = 32"
proof -
  have a: "binary64 (63 / 200) = 5674535530486825 * 2 powi (- 54)"
    using binary64_floor [of "63 / 200" "- 54" 5674535530486824] by simp
  have b: "binary64 (5674535530486825 * 2 powi (- 54) * 100) = 8866461766385664 * 2 powi (- 48)"
    using binary64_floor [of "5674535530486825 * 2 powi (- 54) * 100" "- 48" 8866461766385664] by simp
  have c: "Math_round (8866461766385664 * 2 powi (- 48)) = 32"
    unfolding Math_round_def by (rule floor_unique) simp_all
  show ?thesis
    by (simp only: a b c)
qed

lemma percentage_halfway_33: "Math_round (binary64 (binary64 (13 / 40) * 100)) = 33"
proof -
  have a: "binary64 (13 / 40) = 5854679515581645 * 2 powi (- 54)"
    using binary64_floor [of "13 / 40" "- 54" 5854679515581644] by simp
  have b: "binary64 (5854679515581645 * 2 powi (- 54) * 100) = 4573968371548160 * 2 powi (- 47)"
    using binary64_floor [of "5854679515581645 * 2 powi (- 54) * 100" "- 47" 4573968371548160] by simp
  have c: "Math_round (4573968371548160 * 2 powi (- 47)) = 33"
    unfolding Math_round_def by (rule floor_unique) simp_all
  show ?thesis
    by (simp only: a b c)
qed

lemma percentage_halfway_34: "Math_round (binary64 (binary64 (67 / 200) * 100)) = 34"
proof -
  have a: "binary64 (67 / 200) = 6034823500676465 * 2 powi (- 54)"
    using binary64_floor [of "67 / 200" "- 54" 6034823500676464] by simp
  have b: "binary64 (6034823500676465 * 2 powi (- 54) * 100) = 4714705859903488 * 2 powi (- 47)"
    using binary64_floor [of "6034823500676465 * 2 powi (- 54) * 100" "- 47" 4714705859903488] by simp
  have c: "Math_round (4714705859903488 * 2 powi (- 47)) = 34"
    unfolding Math_round_def by (rule floor_unique) simp_all
  show ?thesis
    by (simp only: a b c)
qed

lemma percentage_halfway_35: "Math_round (binary64 (binary64 (69 / 200) * 100)) = 35"
proof -
  have a: "binary64 (69 / 200) = 6214967485771284 * 2 powi (- 54)"
    using binary64_floor [of "69 / 200" "- 54" 6214967485771284] by simp
  have b: "binary64 (6214967485771284 * 2 powi (- 54) * 100) = 4855443348258816 * 2 powi (- 47)"
    using binary64_floor [of "6214967485771284 * 2 powi (- 54) * 100" "- 47" 4855443348258815] by simp
  have c: "Math_round (4855443348258816 * 2 powi (- 47)) = 35"
    unfolding Math_round_def by (rule floor_unique) simp_all
  show ?thesis
    by (simp only: a b c)
qed

lemma percentage_halfway_36: "Math_round (binary64 (binary64 (71 / 200) * 100)) = 36"
proof -
  have a: "binary64 (71 / 200) = 6395111470866104 * 2 powi (- 54)"
    using binary64_floor [of "71 / 200" "- 54" 6395111470866104] by simp
  have b: "binary64 (6395111470866104 * 2 powi (- 54) * 100) = 4996180836614144 * 2 powi (- 47)"
    using binary64_floor [of "6395111470866104 * 2 powi (- 54) * 100" "- 47" 4996180836614143] by simp
  have c: "Math_round (4996180836614144 * 2 powi (- 47)) = 36"
    unfolding Math_round_def by (rule floor_unique) simp_all
  show ?thesis
    by (simp only: a b c)
qed

lemma percentage_halfway_37: "Math_round (binary64 (binary64 (73 / 200) * 100)) = 37"
proof -
  have a: "binary64 (73 / 200) = 6575255455960924 * 2 powi (- 54)"
    using binary64_floor [of "73 / 200" "- 54" 6575255455960924] by simp
  have b: "binary64 (6575255455960924 * 2 powi (- 54) * 100) = 5136918324969472 * 2 powi (- 47)"
    using binary64_floor [of "6575255455960924 * 2 powi (- 54) * 100" "- 47" 5136918324969471] by simp
  have c: "Math_round (5136918324969472 * 2 powi (- 47)) = 37"
    unfolding Math_round_def by (rule floor_unique) simp_all
  show ?thesis
    by (simp only: a b c)
qed

lemma percentage_halfway_38: "Math_round (binary64 (binary64 (3 / 8) * 100)) = 38"
proof -
  have a: "binary64 (3 / 8) = 6755399441055744 * 2 powi (- 54)"
    using binary64_floor [of "3 / 8" "- 54" 6755399441055744] by simp
  have b: "binary64 (6755399441055744 * 2 powi (- 54) * 100) = 5277655813324800 * 2 powi (- 47)"
    using binary64_floor [of "6755399441055744 * 2 powi (- 54) * 100" "- 47" 5277655813324800] by simp
  have c: "Math_round (5277655813324800 * 2 powi (- 47)) = 38"
    unfolding Math_round_def by (rule floor_unique) simp_all
  show ?thesis
    by (simp only: a b c)
qed

lemma percentage_halfway_39: "Math_round (binary64 (binary64 (77 / 200) * 100)) = 39"
proof -
  have a: "binary64 (77 / 200) = 6935543426150564 * 2 powi (- 54)"
    using binary64_floor [of "77 / 200" "- 54" 6935543426150563] by simp
  have b: "binary64 (6935543426150564 * 2 powi (- 54) * 100) = 5418393301680128 * 2 powi (- 47)"
    using binary64_floor [of "6935543426150564 * 2 powi (- 54) * 100" "- 47" 5418393301680128] by simp
  have c: "Math_round (5418393301680128 * 2 powi (- 47)) = 39"
    unfolding Math_round_def by (rule floor_unique) simp_all
  show ?thesis
    by (simp only: a b c)
qed

lemma percentage_halfway_40: "Math_round (binary64 (binary64 (79 / 200) * 100)) = 40"
proof -
  have a: "binary64 (79 / 200) = 7115687411245384 * 2 powi (- 54)"
    using binary64_floor [of "79 / 200" "- 54" 7115687411245383] by simp
  have b: "binary64 (7115687411245384 * 2 powi (- 54) * 100) = 5559130790035456 * 2 powi (- 47)"
    using binary64_floor [of "7115687411245384 * 2 powi (- 54) * 100" "- 47" 5559130790035456] by simp
  have c: "Math_round (5559130790035456 * 2 powi (- 47)) = 40"
    unfolding Math_round_def by (rule floor_unique) simp_all
  show ?thesis
    by (simp only: a b c)
qed

lemma percentage_halfway_41: "Math_round (binary64 (binary64 (81 / 200) * 100)) = 41"
proof -
  have a: "binary64 (81 / 200) = 7295831396340204 * 2 powi (- 54)"
    using binary64_floor [of "81 / 200" "- 54" 7295831396340203] by simp
  have b: "binary64 (7295831396340204 * 2 powi (- 54) * 100) = 5699868278390784 * 2 powi (- 47)"
    using binary64_floor [of "7295831396340204 * 2 powi (- 54) * 100" "- 47" 5699868278390784] by simp
  have c: "Math_round (5699868278390784 * 2 powi (- 47)) = 41"
    unfolding Math_round_def by (rule floor_unique) simp_all
  show ?thesis
    by (simp only: a b c)
qed

lemma percentage_halfway_42: "Math_round (binary64 (binary64 (83 / 200) * 100)) = 42"
proof -
  have a: "binary64 (83 / 200) = 7475975381435023 * 2 powi (- 54)"
    using binary64_floor [of "83 / 200" "- 54" 7475975381435023] by simp
  have b: "binary64 (7475975381435023 * 2 powi (- 54) * 100) = 5840605766746112 * 2 powi (- 47)"
    using binary64_floor [of "7475975381435023 * 2 powi (- 54) * 100" "- 47" 5840605766746111] by simp
  have c: "Math_round (5840605766746112 * 2 powi (- 47)) = 42"
    unfolding Math_round_def by (rule floor_unique) simp_all
  show ?thesis
    by (simp only: a b c)
qed

lemma percentage_halfway_43: "Math_round (binary64 (binary64 (17 / 40) * 100)) = 43"
proof -
  have a: "binary64 (17 / 40) = 7656119366529843 * 2 powi (- 54)"
    using binary64_floor [of "17 / 40" "- 54" 7656119366529843] by simp
  have b: "binary64 (7656119366529843 * 2 powi (- 54) * 100) = 5981343255101440 * 2 powi (- 47)"
    using binary64_floor [of "7656119366529843 * 2 powi (- 54) * 100" "- 47" 5981343255101439] by simp
  have c: "Math_round (5981343255101440 * 2 powi (- 47)) = 43"
    unfolding Math_round_def by (rule floor_unique) simp_all
  show ?thesis
    by (simp only: a b c)
qed

lemma percentage_halfway_44: "Math_round (binary64 (binary64 (87 / 200) * 100)) = 44"
proof -
  have a: "binary64 (87 / 200) = 7836263351624663 * 2 powi (- 54)"
    using binary64_floor [of "87 / 200" "- 54" 7836263351624663] by simp
  have b: "binary64 (7836263351624663 * 2 powi (- 54) * 100) = 6122080743456768 * 2 powi (- 47)"
    using binary64_floor [of "7836263351624663 * 2 powi (- 54) * 100" "- 47" 6122080743456767] by simp
  have c: "Math_round (6122080743456768 * 2 powi (- 47)) = 44"
    unfolding Math_round_def by (rule floor_unique) simp_all
  show ?thesis
    by (simp only: a b c)
qed

lemma percentage_halfway_45: "Math_round (binary64 (binary64 (89 / 200) * 100)) = 45"
proof -
  have a: "binary64 (89 / 200) = 8016407336719483 * 2 powi (- 54)"
    using binary64_floor [of "89 / 200" "- 54" 8016407336719482] by simp
  have b: "binary64 (8016407336719483 * 2 powi (- 54) * 100) = 6262818231812096 * 2 powi (- 47)"
    using binary64_floor [of "8016407336719483 * 2 powi (- 54) * 100" "- 47" 6262818231812096] by simp
  have c: "Math_round (6262818231812096 * 2 powi (- 47)) = 45"
    unfolding Math_round_def by (rule floor_unique) simp_all
  show ?thesis
    by (simp only: a b c)
qed

lemma percentage_halfway_46: "Math_round (binary64 (binary64 (91 / 200) * 100)) = 46"
proof -
  have a: "binary64 (91 / 200) = 8196551321814303 * 2 powi (- 54)"
    using binary64_floor [of "91 / 200" "- 54" 8196551321814302] by simp
  have b: "binary64 (8196551321814303 * 2 powi (- 54) * 100) = 6403555720167424 * 2 powi (- 47)"
    using binary64_floor [of "8196551321814303 * 2 powi (- 54) * 100" "- 47" 6403555720167424] by simp
  have c: "Math_round (6403555720167424 * 2 powi (- 47)) = 46"
    unfolding Math_round_def by (rule floor_unique) simp_all
  show ?thesis
    by (simp only: a b c)
qed

lemma percentage_halfway_47: "Math_round (binary64 (binary64 (93 / 200) * 100)) = 47"
proof -
  have a: "binary64 (93 / 200) = 8376695306909123 * 2 powi (- 54)"
    using binary64_floor [of "93 / 200" "- 54" 8376695306909122] by simp
  have b: "binary64 (8376695306909123 * 2 powi (- 54) * 100) = 6544293208522752 * 2 powi (- 47)"
    using binary64_floor [of "8376695306909123 * 2 powi (- 54) * 100" "- 47" 6544293208522752] by simp
  have c: "Math_round (6544293208522752 * 2 powi (- 47)) = 47"
    unfolding Math_round_def by (rule floor_unique) simp_all
  show ?thesis
    by (simp only: a b c)
qed

lemma percentage_halfway_48: "Math_round (binary64 (binary64 (19 / 40) * 100)) = 48"
proof -
  have a: "binary64 (19 / 40) = 8556839292003942 * 2 powi (- 54)"
    using binary64_floor [of "19 / 40" "- 54" 8556839292003942] by simp
  have b: "binary64 (8556839292003942 * 2 powi (- 54) * 100) = 6685030696878080 * 2 powi (- 47)"
    using binary64_floor [of "8556839292003942 * 2 powi (- 54) * 100" "- 47" 6685030696878079] by simp
  have c: "Math_round (6685030696878080 * 2 powi (- 47)) = 48"
    unfolding Math_round_def by (rule floor_unique) simp_all
  show ?thesis
    by (simp only: a b c)
qed

lemma percentage_halfway_49: "Math_round (binary64 (binary64 (97 / 200) * 100)) = 49"
proof -
  have a: "binary64 (97 / 200) = 8736983277098762 * 2 powi (- 54)"
    using binary64_floor [of "97 / 200" "- 54" 8736983277098762] by simp
  have b: "binary64 (8736983277098762 * 2 powi (- 54) * 100) = 6825768185233408 * 2 powi (- 47)"
    using binary64_floor [of "8736983277098762 * 2 powi (- 54) * 100" "- 47" 6825768185233407] by simp
  have c: "Math_round (6825768185233408 * 2 powi (- 47)) = 49"
    unfolding Math_round_def by (rule floor_unique) simp_all
  show ?thesis
    by (simp only: a b c)
qed

lemma percentage_halfway_50: "Math_round (binary64 (binary64 (99 / 200) * 100)) = 50"
proof -
  have a: "binary64 (99 / 200) = 8917127262193582 * 2 powi (- 54)"
    using binary64_floor [of "99 / 200" "- 54" 8917127262193582] by simp
  have b: "binary64 (8917127262193582 * 2 powi (- 54) * 100) = 6966505673588736 * 2 powi (- 47)"
    using binary64_floor [of "8917127262193582 * 2 powi (- 54) * 100" "- 47" 6966505673588735] by simp
  have c: "Math_round (6966505673588736 * 2 powi (- 47)) = 50"
    unfolding Math_round_def by (rule floor_unique) simp_all
  show ?thesis
    by (simp only: a b c)
qed

lemma percentage_halfway_51: "Math_round (binary64 (binary64 (101 / 200) * 100)) = 51"
proof -
  have a: "binary64 (101 / 200) = 4548635623644201 * 2 powi (- 53)"
    using binary64_floor [of "101 / 200" "- 53" 4548635623644200] by simp
  have b: "binary64 (4548635623644201 * 2 powi (- 53) * 100) = 7107243161944064 * 2 powi (- 47)"
    using binary64_floor [of "4548635623644201 * 2 powi (- 53) * 100" "- 47" 7107243161944064] by simp
  have c: "Math_round (7107243161944064 * 2 powi (- 47)) = 51"
    unfolding Math_round_def by (rule floor_unique) simp_all
  show ?thesis
    by (simp only: a b c)
qed

lemma percentage_halfway_52: "Math_round (binary64 (binary64 (103 / 200) * 100)) = 52"
proof -
  have a: "binary64 (103 / 200) = 4638707616191611 * 2 powi (- 53)"
    using binary64_floor [of "103 / 200" "- 53" 4638707616191610] by simp
  have b: "binary64 (4638707616191611 * 2 powi (- 53) * 100) = 7247980650299392 * 2 powi (- 47)"
    using binary64_floor [of "4638707616191611 * 2 powi (- 53) * 100" "- 47" 7247980650299392] by simp
  have c: "Math_round (7247980650299392 * 2 powi (- 47)) = 52"
    unfolding Math_round_def by (rule floor_unique) simp_all
  show ?thesis
    by (simp only: a b c)
qed

lemma percentage_halfway_53: "Math_round (binary64 (binary64 (21 / 40) * 100)) = 53"
proof -
  have a: "binary64 (21 / 40) = 4728779608739021 * 2 powi (- 53)"
    using binary64_floor [of "21 / 40" "- 53" 4728779608739020] by simp
  have b: "binary64 (4728779608739021 * 2 powi (- 53) * 100) = 7388718138654720 * 2 powi (- 47)"
    using binary64_floor [of "4728779608739021 * 2 powi (- 53) * 100" "- 47" 7388718138654720] by simp
  have c: "Math_round (7388718138654720 * 2 powi (- 47)) = 53"
    unfolding Math_round_def by (rule floor_unique) simp_all
  show ?thesis
    by (simp only: a b c)
qed

lemma percentage_halfway_54: "Math_round (binary64 (binary64 (107 / 200) * 100)) = 54"
proof -
  have a: "binary64 (107 / 200) = 4818851601286431 * 2 powi (- 53)"
    using binary64_floor [of "107 / 200" "- 53" 4818851601286430] by simp
  have b: "binary64 (4818851601286431 * 2 powi (- 53) * 100) = 7529455627010048 * 2 powi (- 47)"
    using binary64_floor [of "4818851601286431 * 2 powi (- 53) * 100" "- 47" 7529455627010048] by simp
  have c: "Math_round (7529455627010048 * 2 powi (- 47)) = 54"
    unfolding Math_round_def by (rule floor_unique) simp_all
  show ?thesis
    by (simp only: a b c)
qed

lemma percentage_halfway_55: "Math_round (binary64 (binary64 (109 / 200) * 100)) = 55"
proof -
  have a: "binary64 (109 / 200) = 4908923593833841 * 2 powi (- 53)"
    using binary64_floor [of "109 / 200" "- 53" 4908923593833840] by simp
  have b: "binary64 (4908923593833841 * 2 powi (- 53) * 100) = 7670193115365377 * 2 powi (- 47)"
    using binary64_floor [of "4908923593833841 * 2 powi (- 53) * 100" "- 47" 7670193115365376] by simp
  have c: "Math_round (7670193115365377 * 2 powi (- 47)) = 55"
    unfolding Math_round_def by (rule floor_unique) simp_all
  show ?thesis
    by (simp only: a b c)
qed

lemma percentage_halfway_56: "Math_round (binary64 (binary64 (111 / 200) * 100)) = 56"
proof -
  have a: "binary64 (111 / 200) = 4998995586381251 * 2 powi (- 53)"
    using binary64_floor [of "111 / 200" "- 53" 4998995586381250] by simp
  have b: "binary64 (4998995586381251 * 2 powi (- 53) * 100) = 7810930603720705 * 2 powi (- 47)"
    using binary64_floor [of "4998995586381251 * 2 powi (- 53) * 100" "- 47" 7810930603720704] by simp
  have c: "Math_round (7810930603720705 * 2 powi (- 47)) = 56"
    unfolding Math_round_def by (rule floor_unique) simp_all
  show ?thesis
    by (simp only: a b c)
qed

lemma percentage_halfway_57: "Math_round (binary64 (binary64 (113 / 200) * 100)) = 56"
proof -
  have a: "binary64 (113 / 200) = 5089067578928660 * 2 powi (- 53)"
    using binary64_floor [of "113 / 200" "- 53" 5089067578928660] by simp
  have b: "binary64 (5089067578928660 * 2 powi (- 53) * 100) = 7951668092076031 * 2 powi (- 47)"
    using binary64_floor [of "5089067578928660 * 2 powi (- 53) * 100" "- 47" 7951668092076031] by simp
  have c: "Math_round (7951668092076031 * 2 powi (- 47)) = 56"
    unfolding Math_round_def by (rule floor_unique) simp_all
  show ?thesis
    by (simp only: a b c)
qed

lemma percentage_halfway_58: "Math_round (binary64 (binary64 (23 / 40) * 100)) = 57"
proof -
  have a: "binary64 (23 / 40) = 5179139571476070 * 2 powi (- 53)"
    using binary64_floor [of "23 / 40" "- 53" 5179139571476070] by simp
  have b: "binary64 (5179139571476070 * 2 powi (- 53) * 100) = 8092405580431359 * 2 powi (- 47)"
    using binary64_floor [of "5179139571476070 * 2 powi (- 53) * 100" "- 47" 8092405580431359] by simp
  have c: "Math_round (8092405580431359 * 2 powi (- 47)) = 57"
    unfolding Math_round_def by (rule floor_unique) simp_all
  show ?thesis
    by (simp only: a b c)
qed

lemma percentage_halfway_59: "Math_round (binary64 (binary64 (117 / 200) * 100)) = 59"
proof -
  have a: "binary64 (117 / 200) = 5269211564023480 * 2 powi (- 53)"
    using binary64_floor [of "117 / 200" "- 53" 5269211564023480] by simp
  have b: "binary64 (5269211564023480 * 2 powi (- 53) * 100) = 8233143068786688 * 2 powi (- 47)"
    using binary64_floor [of "5269211564023480 * 2 powi (- 53) * 100" "- 47" 8233143068786687] by simp
  have c: "Math_round (8233143068786688 * 2 powi (- 47)) = 59"
    unfolding Math_round_def by (rule floor_unique) simp_all
  show ?thesis
    by (simp only: a b c)
qed

lemma percentage_halfway_60: "Math_round (binary64 (binary64 (119 / 200) * 100)) = 60"
proof -
  have a: "binary64 (119 / 200) = 5359283556570890 * 2 powi (- 53)"
    using binary64_floor [of "119 / 200" "- 53" 5359283556570890] by simp
  have b: "binary64 (5359283556570890 * 2 powi (- 53) * 100) = 8373880557142016 * 2 powi (- 47)"
    using binary64_floor [of "5359283556570890 * 2 powi (- 53) * 100" "- 47" 8373880557142015] by simp
  have c: "Math_round (8373880557142016 * 2 powi (- 47)) = 60"
    unfolding Math_round_def by (rule floor_unique) simp_all
  show ?thesis
    by (simp only: a b c)
qed

lemma percentage_halfway_61: "Math_round (binary64 (binary64 (121 / 200) * 100)) = 61"
proof -
  have a: "binary64 (121 / 200) = 5449355549118300 * 2 powi (- 53)"
    using binary64_floor [of "121 / 200" "- 53" 5449355549118300] by simp
  have b: "binary64 (5449355549118300 * 2 powi (- 53) * 100) = 8514618045497344 * 2 powi (- 47)"
    using binary64_floor [of "5449355549118300 * 2 powi (- 53) * 100" "- 47" 8514618045497343] by simp
  have c: "Math_round (8514618045497344 * 2 powi (- 47)) = 61"
    unfolding Math_round_def by (rule floor_unique) simp_all
  show ?thesis
    by (simp only: a b c)
qed

lemma percentage_halfway_62: "Math_round (binary64 (binary64 (123 / 200) * 100)) = 62"
proof -
  have a: "binary64 (123 / 200) = 5539427541665710 * 2 powi (- 53)"
    using binary64_floor [of "123 / 200" "- 53" 5539427541665710] by simp
  have b: "binary64 (5539427541665710 * 2 powi (- 53) * 100) = 8655355533852672 * 2 powi (- 47)"
    using binary64_floor [of "5539427541665710 * 2 powi (- 53) * 100" "- 47" 8655355533852671] by simp
  have c: "Math_round (8655355533852672 * 2 powi (- 47)) = 62"
    unfolding Math_round_def by (rule floor_unique) simp_all
  show ?thesis
    by (simp only: a b c)
qed

lemma percentage_halfway_63: "Math_round (binary64 (binary64 (5 / 8) * 100)) = 63"
proof -
  have a: "binary64 (5 / 8) = 5629499534213120 * 2 powi (- 53)"
    using binary64_floor [of "5 / 8" "- 53" 5629499534213120] by simp
  have b: "binary64 (5629499534213120 * 2 powi (- 53) * 100) = 8796093022208000 * 2 powi (- 47)"
    using binary64_floor [of "5629499534213120 * 2 powi (- 53) * 100" "- 47" 8796093022208000] by simp
  have c: "Math_round (8796093022208000 * 2 powi (- 47)) = 63"
    unfolding Math_round_def by (rule floor_unique) simp_all
  show ?thesis
    by (simp only: a b c)
qed

lemma percentage_halfway_64: "Math_round (binary64 (binary64 (127 / 200) * 100)) = 64"
proof -
  have a: "binary64 (127 / 200) = 5719571526760530 * 2 powi (- 53)"
    using binary64_floor [of "127 / 200" "- 53" 5719571526760529] by simp
  have b: "binary64 (5719571526760530 * 2 powi (- 53) * 100) = 8936830510563328 * 2 powi (- 47)"
    using binary64_floor [of "5719571526760530 * 2 powi (- 53) * 100" "- 47" 8936830510563328] by simp
  have c: "Math_round (8936830510563328 * 2 powi (- 47)) = 64"
    unfolding Math_round_def by (rule floor_unique) simp_all
  show ?thesis
    by (simp only: a b c)
qed

lemma percentage_halfway_65: "Math_round (binary64 (binary64 (129 / 200) * 100)) = 65"
proof -
  have a: "binary64 (129 / 200) = 5809643519307940 * 2 powi (- 53)"
    using binary64_floor [of "129 / 200" "- 53" 5809643519307939] by simp
  have b: "binary64 (5809643519307940 * 2 powi (- 53) * 100) = 4538783999459328 * 2 powi (- 46)"
    using binary64_floor [of "5809643519307940 * 2 powi (- 53) * 100" "- 46" 4538783999459328] by simp
  have c: "Math_round (4538783999459328 * 2 powi (- 46)) = 65"
    unfolding Math_round_def by (rule floor_unique) simp_all
  show ?thesis
    by (simp only: a b c)
qed

lemma percentage_halfway_66: "Math_round (binary64 (binary64 (131 / 200) * 100)) = 66"
proof -
  have a: "binary64 (131 / 200) = 5899715511855350 * 2 powi (- 53)"
    using binary64_floor [of "131 / 200" "- 53" 5899715511855349] by simp
  have b: "binary64 (5899715511855350 * 2 powi (- 53) * 100) = 4609152743636992 * 2 powi (- 46)"
    using binary64_floor [of "5899715511855350 * 2 powi (- 53) * 100" "- 46" 4609152743636992] by simp
  have c: "Math_round (4609152743636992 * 2 powi (- 46)) = 66"
    unfolding Math_round_def by (rule floor_unique) simp_all
  show ?thesis
    by (simp only: a b c)
qed

lemma percentage_halfway_67: "Math_round (binary64 (binary64 (133 / 200) * 100)) = 67"
proof -
  have a: "binary64 (133 / 200) = 5989787504402760 * 2 powi (- 53)"
    using binary64_floor [of "133 / 200" "- 53" 5989787504402759] by simp
  have b: "binary64 (5989787504402760 * 2 powi (- 53) * 100) = 4679521487814656 * 2 powi (- 46)"
    using binary64_floor [of "5989787504402760 * 2 powi (- 53) * 100" "- 46" 4679521487814656] by simp
  have c: "Math_round (4679521487814656 * 2 powi (- 46)) = 67"
    unfolding Math_round_def by (rule floor_unique) simp_all
  show ?thesis
    by (simp only: a b c)
qed

lemma percentage_halfway_68: "Math_round (binary64 (binary64 (27 / 40) * 100)) = 68"
proof -
  have a: "binary64 (27 / 40) = 6079859496950170 * 2 powi (- 53)"
    using binary64_floor [of "27 / 40" "- 53" 6079859496950169] by simp
  have b: "binary64 (6079859496950170 * 2 powi (- 53) * 100) = 4749890231992320 * 2 powi (- 46)"
    using binary64_floor [of "6079859496950170 * 2 powi (- 53) * 100" "- 46" 4749890231992320] by simp
  have c: "Math_round (4749890231992320 * 2 powi (- 46)) = 68"
    unfolding Math_round_def by (rule floor_unique) simp_all
  show ?thesis
    by (simp only: a b c)
qed

lemma percentage_halfway_69: "Math_round (binary64 (binary64 (137 / 200) * 100)) = 69"
proof -
  have a: "binary64 (137 / 200) = 6169931489497580 * 2 powi (- 53)"
    using binary64_floor [of "137 / 200" "- 53" 6169931489497579] by simp
  have b: "binary64 (6169931489497580 * 2 powi (- 53) * 100) = 4820258976169984 * 2 powi (- 46)"
    using binary64_floor [of "6169931489497580 * 2 powi (- 53) * 100" "- 46" 4820258976169984] by simp
  have c: "Math_round (4820258976169984 * 2 powi (- 46)) = 69"
    unfolding Math_round_def by (rule floor_unique) simp_all
  show ?thesis
    by (simp only: a b c)
qed

lemma percentage_halfway_70: "Math_round (binary64 (binary64 (139 / 200) * 100)) = 70"
proof -
  have a: "binary64 (139 / 200) = 6260003482044989 * 2 powi (- 53)"
    using binary64_floor [of "139 / 200" "- 53" 6260003482044989] by simp
  have b: "binary64 (6260003482044989 * 2 powi (- 53) * 100) = 4890627720347648 * 2 powi (- 46)"
    using binary64_floor [of "6260003482044989 * 2 powi (- 53) * 100" "- 46" 4890627720347647] by simp
  have c: "Math_round (4890627720347648 * 2 powi (- 46)) = 70"
    unfolding Math_round_def by (rule floor_unique) simp_all
  show ?thesis
    by (simp only: a b c)
qed

lemma percentage_halfway_71: "Math_round (binary64 (binary64 (141 / 200) * 100)) = 71"
proof -
  have a: "binary64 (141 / 200) = 6350075474592399 * 2 powi (- 53)"
    using binary64_floor [of "141 / 200" "- 53" 6350075474592399] by simp
  have b: "binary64 (6350075474592399 * 2 powi (- 53) * 100) = 4960996464525312 * 2 powi (- 46)"
    using binary64_floor [of "6350075474592399 * 2 powi (- 53) * 100" "- 46" 4960996464525311] by simp
  have c: "Math_round (4960996464525312 * 2 powi (- 46)) = 71"
    unfolding Math_round_def by (rule floor_unique) simp_all
  show ?thesis
    by (simp only: a b c)
qed

lemma percentage_halfway_72: "Math_round (binary64 (binary64 (143 / 200) * 100)) = 72"
proof -
  have a: "binary64 (143 / 200) = 6440147467139809 * 2 powi (- 53)"
    using binary64_floor [of "143 / 200" "- 53" 6440147467139809] by simp
  have b: "binary64 (6440147467139809 * 2 powi (- 53) * 100) = 5031365208702976 * 2 powi (- 46)"
    using binary64_floor [of "6440147467139809 * 2 powi (- 53) * 100" "- 46" 5031365208702975] by simp
  have c: "Math_round (5031365208702976 * 2 powi (- 46)) = 72"
    unfolding Math_round_def by (rule floor_unique) simp_all
  show ?thesis
    by (simp only: a b c)
qed

lemma percentage_halfway_73: "Math_round (binary64 (binary64 (29 / 40) * 100)) = 73"
proof -
  have a: "binary64 (29 / 40) = 6530219459687219 * 2 powi (- 53)"
    using binary64_floor [of "29 / 40" "- 53" 6530219459687219] by simp
  have b: "binary64 (6530219459687219 * 2 powi (- 53) * 100) = 5101733952880640 * 2 powi (- 46)"
    using binary64_floor [of "6530219459687219 * 2 powi (- 53) * 100" "- 46" 5101733952880639] by simp
  have c: "Math_round (5101733952880640 * 2 powi (- 46)) = 73"
    unfolding Math_round_def by (rule floor_unique) simp_all
  show ?thesis
    by (simp only: a b c)
qed

lemma percentage_halfway_74: "Math_round (binary64 (binary64 (147 / 200) * 100)) = 74"
proof -
  have a: "binary64 (147 / 200) = 6620291452234629 * 2 powi (- 53)"
    using binary64_floor [of "147 / 200" "- 53" 6620291452234629] by simp
  have b: "binary64 (6620291452234629 * 2 powi (- 53) * 100) = 5172102697058304 * 2 powi (- 46)"
    using binary64_floor [of "6620291452234629 * 2 powi (- 53) * 100" "- 46" 5172102697058303] by simp
  have c: "Math_round (5172102697058304 * 2 powi (- 46)) = 74"
    unfolding Math_round_def by (rule floor_unique) simp_all
  show ?thesis
    by (simp only: a b c)
qed

lemma percentage_halfway_75: "Math_round (binary64 (binary64 (149 / 200) * 100)) = 75"
proof -
  have a: "binary64 (149 / 200) = 6710363444782039 * 2 powi (- 53)"
    using binary64_floor [of "149 / 200" "- 53" 6710363444782039] by simp
  have b: "binary64 (6710363444782039 * 2 powi (- 53) * 100) = 5242471441235968 * 2 powi (- 46)"
    using binary64_floor [of "6710363444782039 * 2 powi (- 53) * 100" "- 46" 5242471441235967] by simp
  have c: "Math_round (5242471441235968 * 2 powi (- 46)) = 75"
    unfolding Math_round_def by (rule floor_unique) simp_all
  show ?thesis
    by (simp only: a b c)
qed

lemma percentage_halfway_76: "Math_round (binary64 (binary64 (151 / 200) * 100)) = 76"
proof -
  have a: "binary64 (151 / 200) = 6800435437329449 * 2 powi (- 53)"
    using binary64_floor [of "151 / 200" "- 53" 6800435437329448] by simp
  have b: "binary64 (6800435437329449 * 2 powi (- 53) * 100) = 5312840185413632 * 2 powi (- 46)"
    using binary64_floor [of "6800435437329449 * 2 powi (- 53) * 100" "- 46" 5312840185413632] by simp
  have c: "Math_round (5312840185413632 * 2 powi (- 46)) = 76"
    unfolding Math_round_def by (rule floor_unique) simp_all
  show ?thesis
    by (simp only: a b c)
qed

lemma percentage_halfway_77: "Math_round (binary64 (binary64 (153 / 200) * 100)) = 77"
proof -
  have a: "binary64 (153 / 200) = 6890507429876859 * 2 powi (- 53)"
    using binary64_floor [of "153 / 200" "- 53" 6890507429876858] by simp
  have b: "binary64 (6890507429876859 * 2 powi (- 53) * 100) = 5383208929591296 * 2 powi (- 46)"
    using binary64_floor [of "6890507429876859 * 2 powi (- 53) * 100" "- 46" 5383208929591296] by simp
  have c: "Math_round (5383208929591296 * 2 powi (- 46)) = 77"
    unfolding Math_round_def by (rule floor_unique) simp_all
  show ?thesis
    by (simp only: a b c)
qed

lemma percentage_halfway_78: "Math_round (binary64 (binary64 (31 / 40) * 100)) = 78"
proof -
  have a: "binary64 (31 / 40) = 6980579422424269 * 2 powi (- 53)"
    using binary64_floor [of "31 / 40" "- 53" 6980579422424268] by simp
  have b: "binary64 (6980579422424269 * 2 powi (- 53) * 100) = 5453577673768960 * 2 powi (- 46)"
    using binary64_floor [of "6980579422424269 * 2 powi (- 53) * 100" "- 46" 5453577673768960] by simp
  have c: "Math_round (5453577673768960 * 2 powi (- 46)) = 78"
    unfolding Math_round_def by (rule floor_unique) simp_all
  show ?thesis
    by (simp only: a b c)
qed

lemma percentage_halfway_79: "Math_round (binary64 (binary64 (157 / 200) * 100)) = 79"
proof -
  have a: "binary64 (157 / 200) = 7070651414971679 * 2 powi (- 53)"
    using binary64_floor [of "157 / 200" "- 53" 7070651414971678] by simp
  have b: "binary64 (7070651414971679 * 2 powi (- 53) * 100) = 5523946417946624 * 2 powi (- 46)"
    using binary64_floor [of "7070651414971679 * 2 powi (- 53) * 100" "- 46" 5523946417946624] by simp
  have c: "Math_round (5523946417946624 * 2 powi (- 46)) = 79"
    unfolding Math_round_def by (rule floor_unique) simp_all
  show ?thesis
    by (simp only: a b c)
qed

lemma percentage_halfway_80: "Math_round (binary64 (binary64 (159 / 200) * 100)) = 80"
proof -
  have a: "binary64 (159 / 200) = 7160723407519089 * 2 powi (- 53)"
    using binary64_floor [of "159 / 200" "- 53" 7160723407519088] by simp
  have b: "binary64 (7160723407519089 * 2 powi (- 53) * 100) = 5594315162124288 * 2 powi (- 46)"
    using binary64_floor [of "7160723407519089 * 2 powi (- 53) * 100" "- 46" 5594315162124288] by simp
  have c: "Math_round (5594315162124288 * 2 powi (- 46)) = 80"
    unfolding Math_round_def by (rule floor_unique) simp_all
  show ?thesis
    by (simp only: a b c)
qed

lemma percentage_halfway_81: "Math_round (binary64 (binary64 (161 / 200) * 100)) = 81"
proof -
  have a: "binary64 (161 / 200) = 7250795400066499 * 2 powi (- 53)"
    using binary64_floor [of "161 / 200" "- 53" 7250795400066498] by simp
  have b: "binary64 (7250795400066499 * 2 powi (- 53) * 100) = 5664683906301952 * 2 powi (- 46)"
    using binary64_floor [of "7250795400066499 * 2 powi (- 53) * 100" "- 46" 5664683906301952] by simp
  have c: "Math_round (5664683906301952 * 2 powi (- 46)) = 81"
    unfolding Math_round_def by (rule floor_unique) simp_all
  show ?thesis
    by (simp only: a b c)
qed

lemma percentage_halfway_82: "Math_round (binary64 (binary64 (163 / 200) * 100)) = 82"
proof -
  have a: "binary64 (163 / 200) = 7340867392613908 * 2 powi (- 53)"
    using binary64_floor [of "163 / 200" "- 53" 7340867392613908] by simp
  have b: "binary64 (7340867392613908 * 2 powi (- 53) * 100) = 5735052650479616 * 2 powi (- 46)"
    using binary64_floor [of "7340867392613908 * 2 powi (- 53) * 100" "- 46" 5735052650479615] by simp
  have c: "Math_round (5735052650479616 * 2 powi (- 46)) = 82"
    unfolding Math_round_def by (rule floor_unique) simp_all
  show ?thesis
    by (simp only: a b c)
qed

lemma percentage_halfway_83: "Math_round (binary64 (binary64 (33 / 40) * 100)) = 83"
proof -
  have a: "binary64 (33 / 40) = 7430939385161318 * 2 powi (- 53)"
    using binary64_floor [of "33 / 40" "- 53" 7430939385161318] by simp
  have b: "binary64 (7430939385161318 * 2 powi (- 53) * 100) = 5805421394657280 * 2 powi (- 46)"
    using binary64_floor [of "7430939385161318 * 2 powi (- 53) * 100" "- 46" 5805421394657279] by simp
  have c: "Math_round (5805421394657280 * 2 powi (- 46)) = 83"
    unfolding Math_round_def by (rule floor_unique) simp_all
  show ?thesis
    by (simp only: a b c)
qed

lemma percentage_halfway_84: "Math_round (binary64 (binary64 (167 / 200) * 100)) = 84"
proof -
  have a: "binary64 (167 / 200) = 7521011377708728 * 2 powi (- 53)"
    using binary64_floor [of "167 / 200" "- 53" 7521011377708728] by simp
  have b: "binary64 (7521011377708728 * 2 powi (- 53) * 100) = 5875790138834944 * 2 powi (- 46)"
    using binary64_floor [of "7521011377708728 * 2 powi (- 53) * 100" "- 46" 5875790138834943] by simp
  have c: "Math_round (5875790138834944 * 2 powi (- 46)) = 84"
    unfolding Math_round_def by (rule floor_unique) simp_all
  show ?thesis
    by (simp only: a b c)
qed

lemma percentage_halfway_85: "Math_round (binary64 (binary64 (169 / 200) * 100)) = 85"
proof -
  have a: "binary64 (169 / 200) = 7611083370256138 * 2 powi (- 53)"
    using binary64_floor [of "169 / 200" "- 53" 7611083370256138] by simp
  have b: "binary64 (7611083370256138 * 2 powi (- 53) * 100) = 5946158883012608 * 2 powi (- 46)"
    using binary64_floor [of "7611083370256138 * 2 powi (- 53) * 100" "- 46" 5946158883012607] by simp
  have c: "Math_round (5946158883012608 * 2 powi (- 46)) = 85"
    unfolding Math_round_def by (rule floor_unique) simp_all
  show ?thesis
    by (simp only: a b c)
qed

lemma percentage_halfway_86: "Math_round (binary64 (binary64 (171 / 200) * 100)) = 86"
proof -
  have a: "binary64 (171 / 200) = 7701155362803548 * 2 powi (- 53)"
    using binary64_floor [of "171 / 200" "- 53" 7701155362803548] by simp
  have b: "binary64 (7701155362803548 * 2 powi (- 53) * 100) = 6016527627190272 * 2 powi (- 46)"
    using binary64_floor [of "7701155362803548 * 2 powi (- 53) * 100" "- 46" 6016527627190271] by simp
  have c: "Math_round (6016527627190272 * 2 powi (- 46)) = 86"
    unfolding Math_round_def by (rule floor_unique) simp_all
  show ?thesis
    by (simp only: a b c)
qed

lemma percentage_halfway_87: "Math_round (binary64 (binary64 (173 / 200) * 100)) = 87"
proof -
  have a: "binary64 (173 / 200) = 7791227355350958 * 2 powi (- 53)"
    using binary64_floor [of "173 / 200" "- 53" 7791227355350958] by simp
  have b: "binary64 (7791227355350958 * 2 powi (- 53) * 100) = 6086896371367936 * 2 powi (- 46)"
    using binary64_floor [of "7791227355350958 * 2 powi (- 53) * 100" "- 46" 6086896371367935] by simp
  have c: "Math_round (6086896371367936 * 2 powi (- 46)) = 87"
    unfolding Math_round_def by (rule floor_unique) simp_all
  show ?thesis
    by (simp only: a b c)
qed

lemma percentage_halfway_88: "Math_round (binary64 (binary64 (7 / 8) * 100)) = 88"
proof -
  have a: "binary64 (7 / 8) = 7881299347898368 * 2 powi (- 53)"
    using binary64_floor [of "7 / 8" "- 53" 7881299347898368] by simp
  have b: "binary64 (7881299347898368 * 2 powi (- 53) * 100) = 6157265115545600 * 2 powi (- 46)"
    using binary64_floor [of "7881299347898368 * 2 powi (- 53) * 100" "- 46" 6157265115545600] by simp
  have c: "Math_round (6157265115545600 * 2 powi (- 46)) = 88"
    unfolding Math_round_def by (rule floor_unique) simp_all
  show ?thesis
    by (simp only: a b c)
qed

lemma percentage_halfway_89: "Math_round (binary64 (binary64 (177 / 200) * 100)) = 89"
proof -
  have a: "binary64 (177 / 200) = 7971371340445778 * 2 powi (- 53)"
    using binary64_floor [of "177 / 200" "- 53" 7971371340445777] by simp
  have b: "binary64 (7971371340445778 * 2 powi (- 53) * 100) = 6227633859723264 * 2 powi (- 46)"
    using binary64_floor [of "7971371340445778 * 2 powi (- 53) * 100" "- 46" 6227633859723264] by simp
  have c: "Math_round (6227633859723264 * 2 powi (- 46)) = 89"
    unfolding Math_round_def by (rule floor_unique) simp_all
  show ?thesis
    by (simp only: a b c)
qed

lemma percentage_halfway_90: "Math_round (binary64 (binary64 (179 / 200) * 100)) = 90"
proof -
  have a: "binary64 (179 / 200) = 8061443332993188 * 2 powi (- 53)"
    using binary64_floor [of "179 / 200" "- 53" 8061443332993187] by simp
  have b: "binary64 (8061443332993188 * 2 powi (- 53) * 100) = 6298002603900928 * 2 powi (- 46)"
    using binary64_floor [of "8061443332993188 * 2 powi (- 53) * 100" "- 46" 6298002603900928] by simp
  have c: "Math_round (6298002603900928 * 2 powi (- 46)) = 90"
    unfolding Math_round_def by (rule floor_unique) simp_all
  show ?thesis
    by (simp only: a b c)
qed

lemma percentage_halfway_91: "Math_round (binary64 (binary64 (181 / 200) * 100)) = 91"
proof -
  have a: "binary64 (181 / 200) = 8151515325540598 * 2 powi (- 53)"
    using binary64_floor [of "181 / 200" "- 53" 8151515325540597] by simp
  have b: "binary64 (8151515325540598 * 2 powi (- 53) * 100) = 6368371348078592 * 2 powi (- 46)"
    using binary64_floor [of "8151515325540598 * 2 powi (- 53) * 100" "- 46" 6368371348078592] by simp
  have c: "Math_round (6368371348078592 * 2 powi (- 46)) = 91"
    unfolding Math_round_def by (rule floor_unique) simp_all
  show ?thesis
    by (simp only: a b c)
qed

lemma percentage_halfway_92: "Math_round (binary64 (binary64 (183 / 200) * 100)) = 92"
proof -
  have a: "binary64 (183 / 200) = 8241587318088008 * 2 powi (- 53)"
    using binary64_floor [of "183 / 200" "- 53" 8241587318088007] by simp
  have b: "binary64 (8241587318088008 * 2 powi (- 53) * 100) = 6438740092256256 * 2 powi (- 46)"
    using binary64_floor [of "8241587318088008 * 2 powi (- 53) * 100" "- 46" 6438740092256256] by simp
  have c: "Math_round (6438740092256256 * 2 powi (- 46)) = 92"
    unfolding Math_round_def by (rule floor_unique) simp_all
  show ?thesis
    by (simp only: a b c)
qed

lemma percentage_halfway_93: "Math_round (binary64 (binary64 (37 / 40) * 100)) = 93"
proof -
  have a: "binary64 (37 / 40) = 8331659310635418 * 2 powi (- 53)"
    using binary64_floor [of "37 / 40" "- 53" 8331659310635417] by simp
  have b: "binary64 (8331659310635418 * 2 powi (- 53) * 100) = 6509108836433920 * 2 powi (- 46)"
    using binary64_floor [of "8331659310635418 * 2 powi (- 53) * 100" "- 46" 6509108836433920] by simp
  have c: "Math_round (6509108836433920 * 2 powi (- 46)) = 93"
    unfolding Math_round_def by (rule floor_unique) simp_all
  show ?thesis
    by (simp only: a b c)
qed

lemma percentage_halfway_94: "Math_round (binary64 (binary64 (187 / 200) * 100)) = 94"
proof -
  have a: "binary64 (187 / 200) = 8421731303182828 * 2 powi (- 53)"
    using binary64_floor [of "187 / 200" "- 53" 8421731303182827] by simp
  have b: "binary64 (8421731303182828 * 2 powi (- 53) * 100) = 6579477580611584 * 2 powi (- 46)"
    using binary64_floor [of "8421731303182828 * 2 powi (- 53) * 100" "- 46" 6579477580611584] by simp
  have c: "Math_round (6579477580611584 * 2 powi (- 46)) = 94"
    unfolding Math_round_def by (rule floor_unique) simp_all
  show ?thesis
    by (simp only: a b c)
qed

lemma percentage_halfway_95: "Math_round (binary64 (binary64 (189 / 200) * 100)) = 95"
proof -
  have a: "binary64 (189 / 200) = 8511803295730237 * 2 powi (- 53)"
    using binary64_floor [of "189 / 200" "- 53" 8511803295730237] by simp
  have b: "binary64 (8511803295730237 * 2 powi (- 53) * 100) = 6649846324789248 * 2 powi (- 46)"
    using binary64_floor [of "8511803295730237 * 2 powi (- 53) * 100" "- 46" 6649846324789247] by simp
  have c: "Math_round (6649846324789248 * 2 powi (- 46)) = 95"
    unfolding Math_round_def by (rule floor_unique) simp_all
  show ?thesis
    by (simp only: a b c)
qed

lemma percentage_halfway_96: "Math_round (binary64 (binary64 (191 / 200) * 100)) = 96"
proof -
  have a: "binary64 (191 / 200) = 8601875288277647 * 2 powi (- 53)"
    using binary64_floor [of "191 / 200" "- 53" 8601875288277647] by simp
  have b: "binary64 (8601875288277647 * 2 powi (- 53) * 100) = 6720215068966912 * 2 powi (- 46)"
    using binary64_floor [of "8601875288277647 * 2 powi (- 53) * 100" "- 46" 6720215068966911] by simp
  have c: "Math_round (6720215068966912 * 2 powi (- 46)) = 96"
    unfolding Math_round_def by (rule floor_unique) simp_all
  show ?thesis
    by (simp only: a b c)
qed

lemma percentage_halfway_97: "Math_round (binary64 (binary64 (193 / 200) * 100)) = 97"
proof -
  have a: "binary64 (193 / 200) = 8691947280825057 * 2 powi (- 53)"
    using binary64_floor [of "193 / 200" "- 53" 8691947280825057] by simp
  have b: "binary64 (8691947280825057 * 2 powi (- 53) * 100) = 6790583813144576 * 2 powi (- 46)"
    using binary64_floor [of "8691947280825057 * 2 powi (- 53) * 100" "- 46" 6790583813144575] by simp
  have c: "Math_round (6790583813144576 * 2 powi (- 46)) = 97"
    unfolding Math_round_def by (rule floor_unique) simp_all
  show ?thesis
    by (simp only: a b c)
qed

lemma percentage_halfway_98: "Math_round (binary64 (binary64 (39 / 40) * 100)) = 98"
proof -
  have a: "binary64 (39 / 40) = 8782019273372467 * 2 powi (- 53)"
    using binary64_floor [of "39 / 40" "- 53" 8782019273372467] by simp
  have b: "binary64 (8782019273372467 * 2 powi (- 53) * 100) = 6860952557322240 * 2 powi (- 46)"
    using binary64_floor [of "8782019273372467 * 2 powi (- 53) * 100" "- 46" 6860952557322239] by simp
  have c: "Math_round (6860952557322240 * 2 powi (- 46)) = 98"
    unfolding Math_round_def by (rule floor_unique) simp_all
  show ?thesis
    by (simp only: a b c)
qed

lemma percentage_halfway_99: "Math_round (binary64 (binary64 (197 / 200) * 100)) = 99"
proof -
  have a: "binary64 (197 / 200) = 8872091265919877 * 2 powi (- 53)"
    using binary64_floor [of "197 / 200" "- 53" 8872091265919877] by simp
  have b: "binary64 (8872091265919877 * 2 powi (- 53) * 100) = 6931321301499904 * 2 powi (- 46)"
    using binary64_floor [of "8872091265919877 * 2 powi (- 53) * 100" "- 46" 6931321301499903] by simp
  have c: "Math_round (6931321301499904 * 2 powi (- 46)) = 99"
    unfolding Math_round_def by (rule floor_unique) simp_all
  show ?thesis
    by (simp only: a b c)
qed

lemma percentage_halfway_100: "Math_round (binary64 (binary64 (199 / 200) * 100)) = 100"
proof -
  have a: "binary64 (199 / 200) = 8962163258467287 * 2 powi (- 53)"
    using binary64_floor [of "199 / 200" "- 53" 8962163258467287] by simp
  have b: "binary64 (8962163258467287 * 2 powi (- 53) * 100) = 7001690045677568 * 2 powi (- 46)"
    using binary64_floor [of "8962163258467287 * 2 powi (- 53) * 100" "- 46" 7001690045677567] by simp
  have c: "Math_round (7001690045677568 * 2 powi (- 46)) = 100"
    unfolding Math_round_def by (rule floor_unique) simp_all
  show ?thesis
    by (simp only: a b c)
qed


lemma percentage_halfway_table:
  assumes "1 \<le> j" and "j \<le> 100"
  shows "Math_round (binary64 (binary64 (of_nat (2 * j - 1) / 200) * 100)) =
           (if j \<in> {15, 29, 57, 58} then int j - 1 else int j)"
proof -
  have "j = 1 \<or> j = 2 \<or> j = 3 \<or> j = 4 \<or> j = 5 \<or> j = 6 \<or> j = 7 \<or> j = 8 \<or> j = 9 \<or> j = 10
      \<or> j = 11 \<or> j = 12 \<or> j = 13 \<or> j = 14 \<or> j = 15 \<or> j = 16 \<or> j = 17 \<or> j = 18 \<or> j = 19 \<or> j = 20
      \<or> j = 21 \<or> j = 22 \<or> j = 23 \<or> j = 24 \<or> j = 25 \<or> j = 26 \<or> j = 27 \<or> j = 28 \<or> j = 29 \<or> j = 30
      \<or> j = 31 \<or> j = 32 \<or> j = 33 \<or> j = 34 \<or> j = 35 \<or> j = 36 \<or> j = 37 \<or> j = 38 \<or> j = 39 \<or> j = 40
      \<or> j = 41 \<or> j = 42 \<or> j = 43 \<or> j = 44 \<or> j = 45 \<or> j = 46 \<or> j = 47 \<or> j = 48 \<or> j = 49 \<or> j = 50
      \<or> j = 51 \<or> j = 52 \<or> j = 53 \<or> j = 54 \<or> j = 55 \<or> j = 56 \<or> j = 57 \<or> j = 58 \<or> j = 59 \<or> j = 60
      \<or> j = 61 \<or> j = 62 \<or> j = 63 \<or> j = 64 \<or> j = 65 \<or> j = 66 \<or> j = 67 \<or> j = 68 \<or> j = 69 \<or> j = 70
      \<or> j = 71 \<or> j = 72 \<or> j = 73 \<or> j = 74 \<or> j = 75 \<or> j = 76 \<or> j = 77 \<or> j = 78 \<or> j = 79 \<or> j = 80
      \<or> j = 81 \<or> j = 82 \<or> j = 83 \<or> j = 84 \<or> j = 85 \<or> j = 86 \<or> j = 87 \<or> j = 88 \<or> j = 89 \<or> j = 90
      \<or> j = 91 \<or> j = 92 \<or> j = 93 \<or> j = 94 \<or> j = 95 \<or> j = 96 \<or> j = 97 \<or> j = 98 \<or> j = 99 \<or> j = 100"
    using assms by presburger
  then show ?thesis
    apply (elim disjE)
    subgoal using percentage_halfway_1 by simp
    subgoal using percentage_halfway_2 by simp
    subgoal using percentage_halfway_3 by simp
    subgoal using percentage_halfway_4 by simp
    subgoal using percentage_halfway_5 by simp
    subgoal using percentage_halfway_6 by simp
    subgoal using percentage_halfway_7 by simp
    subgoal using percentage_halfway_8 by simp
    subgoal using percentage_halfway_9 by simp
    subgoal using percentage_halfway_10 by simp
    subgoal using percentage_halfway_11 by simp
    subgoal using percentage_halfway_12 by simp
    subgoal using percentage_halfway_13 by simp
    subgoal using percentage_halfway_14 by simp
    subgoal using percentage_halfway_15 by simp
    subgoal using percentage_halfway_16 by simp
    subgoal using percentage_halfway_17 by simp
    subgoal using percentage_halfway_18 by simp
    subgoal using percentage_halfway_19 by simp
    subgoal using percentage_halfway_20 by simp
    subgoal using percentage_halfway_21 by simp
    subgoal using percentage_halfway_22 by simp
    subgoal using percentage_halfway_23 by simp
    subgoal using percentage_halfway_24 by simp
    subgoal using percentage_halfway_25 by simp
    subgoal using percentage_halfway_26 by simp
    subgoal using percentage_halfway_27 by simp
    subgoal using percentage_halfway_28 by simp
    subgoal using percentage_halfway_29 by simp
    subgoal using percentage_halfway_30 by simp
    subgoal using percentage_halfway_31 by simp
    subgoal using percentage_halfway_32 by simp
    subgoal using percentage_halfway_33 by simp
    subgoal using percentage_halfway_34 by simp
    subgoal using percentage_halfway_35 by simp
    subgoal using percentage_halfway_36 by simp
    subgoal using percentage_halfway_37 by simp
    subgoal using percentage_halfway_38 by simp
    subgoal using percentage_halfway_39 by simp
    subgoal using percentage_halfway_40 by simp
    subgoal using percentage_halfway_41 by simp
    subgoal using percentage_halfway_42 by simp
    subgoal using percentage_halfway_43 by simp
    subgoal using percentage_halfway_44 by simp
    subgoal using percentage_halfway_45 by simp
    subgoal using percentage_halfway_46 by simp
    subgoal using percentage_halfway_47 by simp
    subgoal using percentage_halfway_48 by simp
    subgoal using percentage_halfway_49 by simp
    subgoal using percentage_halfway_50 by simp
    subgoal using percentage_halfway_51 by simp
    subgoal using percentage_halfway_52 by simp
    subgoal using percentage_halfway_53 by simp
    subgoal using percentage_halfway_54 by simp
    subgoal using percentage_halfway_55 by simp
    subgoal using percentage_halfway_56 by simp
    subgoal using percentage_halfway_57 by simp
    subgoal using percentage_halfway_58 by simp
    subgoal using percentage_halfway_59 by simp
    subgoal using percentage_halfway_60 by simp
    subgoal using percentage_halfway_61 by simp
    subgoal using percentage_halfway_62 by simp
    subgoal using percentage_halfway_63 by simp
    subgoal using percentage_halfway_64 by simp
    subgoal using percentage_halfway_65 by simp
    subgoal using percentage_halfway_66 by simp
    subgoal using percentage_halfway_67 by simp
    subgoal using percentage_halfway_68 by simp
    subgoal using percentage_halfway_69 by simp
    subgoal using percentage_halfway_70 by simp
    subgoal using percentage_halfway_71 by simp
    subgoal using percentage_halfway_72 by simp
    subgoal using percentage_halfway_73 by simp
    subgoal using percentage_halfway_74 by simp
    subgoal using percentage_halfway_75 by simp
    subgoal using percentage_halfway_76 by simp
    subgoal using percentage_halfway_77 by simp
    subgoal using percentage_halfway_78 by simp
    subgoal using percentage_halfway_79 by simp
    subgoal using percentage_halfway_80 by simp
    subgoal using percentage_halfway_81 by simp
    subgoal using percentage_halfway_82 by simp
    subgoal using percentage_halfway_83 by simp
    subgoal using percentage_halfway_84 by simp
    subgoal using percentage_halfway_85 by simp
    subgoal using percentage_halfway_86 by simp
    subgoal using percentage_halfway_87 by simp
    subgoal using percentage_halfway_88 by simp
    subgoal using percentage_halfway_89 by simp
    subgoal using percentage_halfway_90 by simp
    subgoal using percentage_halfway_91 by simp
    subgoal using percentage_halfway_92 by simp
    subgoal using percentage_halfway_93 by simp
    subgoal using percentage_halfway_94 by simp
    subgoal using percentage_halfway_95 by simp
    subgoal using percentage_halfway_96 by simp
    subgoal using percentage_halfway_97 by simp
    subgoal using percentage_halfway_98 by simp
    subgoal using percentage_halfway_99 by simp
    subgoal using percentage_halfway_100 by simp
    done
qed

text \<open>
  So the percentage is the exact \<open>100 * sc / n\<close> rounded half up, less one at the four
  exact values 14.5, 28.5, 56.5 and 57.5.
\<close>

lemma percentage_halfway:
  assumes "0 < n" and "sc \<le> n" and "2 * n dvd 200 * sc + n"
  shows "percentageOf sc n =
           Num (if (200 * sc + n) div (2 * n) \<in> {15, 29, 57, 58}
                then int ((200 * sc + n) div (2 * n)) - 1 else int ((200 * sc + n) div (2 * n)))"
proof -
  define j where "j = (200 * sc + n) div (2 * n)"
  have e: "2 * n * j = 200 * sc + n"
    unfolding j_def using assms(3) by (rule dvd_mult_div_cancel)
  have j1: "1 \<le> j"
  proof (rule ccontr)
    assume "\<not> 1 \<le> j"
    then have "j = 0" by simp
    then show False using e assms(1) by simp
  qed
  have "2 * n * j \<le> 201 * n"
    using e assms(2) by linarith
  then have "n * (2 * j) \<le> n * 201"
    by (simp add: mult_ac)
  then have "2 * j \<le> 201"
    using assms(1) by simp
  then have j100: "j \<le> 100"
    by simp
  have "200 * sc = (2 * j - 1) * n"
    using e j1 by (simp add: algebra_simps)
  then have "(of_nat (200 * sc) :: rat) = of_nat ((2 * j - 1) * n)"
    by simp
  then have "200 * (of_nat sc :: rat) = of_nat (2 * j - 1) * of_nat n"
    by (simp only: of_nat_mult of_nat_numeral)
  then have ratio: "(of_nat sc / of_nat n :: rat) = of_nat (2 * j - 1) / 200"
    using assms(1) by (simp add: field_simps)
  have "percentageOf sc n = Num (Math_round (binary64 (binary64 (of_nat (2 * j - 1) / 200) * 100)))"
    using assms(1) by (simp add: percentageOf_def ratio)
  then have "percentageOf sc n = Num (if j \<in> {15, 29, 57, 58} then int j - 1 else int j)"
    by (simp only: percentage_halfway_table [OF j1 j100])
  then show ?thesis
    unfolding j_def .
qed

lemma percentage_exact:
  assumes "0 < n" and "n < 2 ^ 32" and "sc \<le> n"
  shows "percentageOf sc n =
           Num (\<lfloor>100 * (of_nat sc / of_nat n :: rat) + 1 / 2\<rfloor>
                - (if 100 * (of_nat sc / of_nat n :: rat) \<in> {29 / 2, 57 / 2, 113 / 2, 115 / 2} then 1 else 0))"
proof -
  define t :: rat where "t = 100 * (of_nat sc / of_nat n)"
  define j where "j = (200 * sc + n) div (2 * n)"
  have fl: "\<lfloor>t + 1 / 2\<rfloor> = int j"
    unfolding t_def j_def using assms(1) by (rule exact_percentage_floor)
  have half: "of_int \<lfloor>t + 1 / 2\<rfloor> = t + 1 / 2 \<longleftrightarrow> 2 * n dvd 200 * sc + n"
    unfolding t_def using assms(1) by (rule exact_percentage_halfway)
  show ?thesis
  proof (cases "2 * n dvd 200 * sc + n")
    case True
    then have "t + 1 / 2 = of_int (int j)"
      using half fl by simp
    then have t: "t = of_nat j - 1 / 2"
      by simp
    have "(t \<in> {29 / 2, 57 / 2, 113 / 2, 115 / 2}) = (j \<in> {15, 29, 57, 58})"
    proof -
      have "(t = 29 / 2) = (of_nat j = (of_nat 15 :: rat))" "(t = 57 / 2) = (of_nat j = (of_nat 29 :: rat))"
        "(t = 113 / 2) = (of_nat j = (of_nat 57 :: rat))" "(t = 115 / 2) = (of_nat j = (of_nat 58 :: rat))"
        unfolding t by auto
      then show ?thesis
        by (simp only: insert_iff empty_iff of_nat_eq_iff)
    qed
    then show ?thesis
      using percentage_halfway [OF assms(1,3) True]
      unfolding t_def [symmetric] j_def [symmetric] fl by auto
  next
    case False
    then have n: "of_int \<lfloor>t + 1 / 2\<rfloor> \<noteq> t + 1 / 2"
      using half by simp
    have "t \<notin> {29 / 2, 57 / 2, 113 / 2, 115 / 2}"
    proof
      assume "t \<in> {29 / 2, 57 / 2, 113 / 2, 115 / 2}"
      then have "t + 1 / 2 \<in> {of_int 15, of_int 29, of_int 57, of_int 58}"
        by auto
      then have "of_int \<lfloor>t + 1 / 2\<rfloor> = t + 1 / 2"
        by (metis empty_iff floor_of_int insert_iff)
      then show False using n by simp
    qed
    then show ?thesis
      using percentage_rounding_div [OF assms(1,2,3) False]
      unfolding t_def [symmetric] j_def [symmetric] fl by simp
  qed
qed

subsection \<open>The grading loop\<close>

lemma gradeQuestions_questions:
  "fst (snd (gradeQuestions i qs ans sc)) = map (\<lambda>q. q\<lparr>correctAnswers := sort (correctAnswers q)\<rparr>) qs"
  by (induction qs arbitrary: i ans sc) (simp_all add: Let_def case_prod_beta)

text \<open>
  The loop rewrites the entry of \<open>ans\<close> it has just read, and reads only later entries
  afterwards: the score is a count over the submission as it was passed in.
\<close>

lemma gradeQuestions_score:
  "fst (gradeQuestions i qs ans sc) =
     sc + length (filter (\<lambda>j. sort (submitted ans (i + j)) = sort (correctAnswers (qs ! j))) [0..<length qs])"
proof (induction qs arbitrary: i ans sc)
  case Nil
  then show ?case by simp
next
  case (Cons q qs)
  define ans1 where "ans1 = (case ans i of None \<Rightarrow> ans | Some a \<Rightarrow> ans(i \<mapsto> sort a))"
  define sc1 where "sc1 = (if sort (submitted ans i) = sort (correctAnswers q) then sc + 1 else sc)"
  have user: "(case ans i of None \<Rightarrow> [] | Some a \<Rightarrow> sort a) = sort (submitted ans i)"
    by (simp add: submitted_def split: option.splits)
  have later: "submitted ans1 (Suc (i + j)) = submitted ans (Suc (i + j))" for j
    by (simp add: ans1_def submitted_def split: option.splits)
  have "fst (gradeQuestions i (q # qs) ans sc) = fst (gradeQuestions (Suc i) qs ans1 sc1)"
    by (simp add: Let_def ans1_def sc1_def user case_prod_beta)
  also have "\<dots> = sc1 + length (filter (\<lambda>j. sort (submitted ans1 (Suc i + j)) = sort (correctAnswers (qs ! j))) [0..<length qs])"
    by (rule Cons.IH)
  also have "\<dots> = sc + length (filter (\<lambda>j. sort (submitted ans (i + j)) = sort (correctAnswers ((q # qs) ! j))) [0..<length (q # qs)])"
    by (simp add: later sc1_def filter_upt_Suc_shift del: upt_Suc)
  finally show ?case .
qed

lemma gradeQuiz_score:
  "fst (gradeQuiz qz ans) =
     length (filter (\<lambda>i. mset (submitted ans i) = mset (correctAnswers (questions qz ! i)))
               [0..<length (questions qz)])"
  using gradeQuestions_score [of 0 "questions qz" ans 0]
  by (simp add: gradeQuiz_def sort_eq_iff_mset case_prod_beta)

lemma gradeQuiz_quiz:
  "fst (snd (gradeQuiz qz ans)) =
     qz\<lparr>questions := map (\<lambda>q. q\<lparr>correctAnswers := sort (correctAnswers q)\<rparr>) (questions qz)\<rparr>"
  using gradeQuestions_questions [of 0 "questions qz" ans 0]
  by (simp add: gradeQuiz_def case_prod_beta)

lemma length_questions_gradeQuiz:
  "length (questions (fst (snd (gradeQuiz qz ans)))) = length (questions qz)"
  by (simp add: gradeQuiz_quiz)

lemma gradedPercentage_eq:
  "gradedPercentage qz ans = percentageOf (fst (gradeQuiz qz ans)) (length (questions qz))"
  by (simp add: gradedPercentage_def case_prod_beta length_questions_gradeQuiz)

lemma gradeQuiz_score_le: "fst (gradeQuiz qz ans) \<le> length (questions qz)"
proof -
  have "length (filter P [0..<n]) \<le> n" for P and n :: nat
    using length_filter_le [of P "[0..<n]"] by simp
  then show ?thesis by (simp add: gradeQuiz_score)
qed

text \<open>
  Claim C9. The score of a grading, and with it the percentage, does not depend on the
  order of a submitted selection nor on the order of a question's \<^verbatim>\<open>correctAnswers\<close>:
  a quiz and a submission that differ from the given ones only by permuting, question by
  question, the correct answers and the selections are graded alike.
\<close>

theorem C9_order_independent:
  assumes "length (questions qz') = length (questions qz)"
    and "\<forall>i<length (questions qz). mset (correctAnswers (questions qz' ! i)) = mset (correctAnswers (questions qz ! i))"
    and "\<forall>i<length (questions qz). mset (submitted ans' i) = mset (submitted ans i)"
  shows "fst (gradeQuiz qz' ans') = fst (gradeQuiz qz ans)
       \<and> percentageOf (fst (gradeQuiz qz' ans')) (length (questions qz'))
         = percentageOf (fst (gradeQuiz qz ans)) (length (questions qz))"
proof -
  have "filter (\<lambda>i. mset (submitted ans' i) = mset (correctAnswers (questions qz' ! i))) [0..<length (questions qz)]
      = filter (\<lambda>i. mset (submitted ans i) = mset (correctAnswers (questions qz ! i))) [0..<length (questions qz)]"
    using assms(2,3) by (intro filter_cong) auto
  then have "fst (gradeQuiz qz' ans') = fst (gradeQuiz qz ans)"
    by (simp add: gradeQuiz_score assms(1))
  then show ?thesis by (simp add: assms(1))
qed

theorem C9_order_independent_witness:
  "fst (gradeQuiz (exampleQuiz\<lparr>questions := [exampleQuestion\<lparr>correctAnswers := [''a'', ''b'']\<rparr>]\<rparr>)
         [0 \<mapsto> [''b'', ''a'']])
   = fst (gradeQuiz exampleQuiz [0 \<mapsto> [''a'', ''b'']])"
  using C9_order_independent [of "exampleQuiz\<lparr>questions := [exampleQuestion\<lparr>correctAnswers := [''a'', ''b'']\<rparr>]\<rparr>"
      exampleQuiz "[0 \<mapsto> [''b'', ''a'']]" "[0 \<mapsto> [''a'', ''b'']]"]
  by (simp add: exampleQuiz_def exampleQuestion_def submitted_def)

lemma length_filter_less_upt: "length (filter (\<lambda>i. i < k) [0..<n]) = min k n"
  by (induction n) auto

lemma mset_eq_iff_set_eq_distinct:
  "distinct xs \<Longrightarrow> distinct ys \<Longrightarrow> mset xs = mset ys \<longleftrightarrow> set xs = set ys"
  by (simp add: set_eq_iff_mset_eq_distinct)

text \<open>
  Claim C1, as the code has it. For every quiz and every submission, a question matches
  exactly when the sorted selection submitted for it and its sorted \<^verbatim>\<open>correctAnswers\<close>
  are the same list, that is when both hold the same strings the same number of times;
  where neither repeats a string that is equality of the two sets. The score is the
  number of matching questions, with no partial credit, and is at most the number of
  questions. The percentage of a quiz without questions is \<^verbatim>\<open>NaN\<close>; otherwise it is
  \<^verbatim>\<open>Math.round\<close> of the binary64 value of \<^verbatim>\<open>(score / total) * 100\<close>, which (for an
  array, whose length is below \<open>2^32\<close>) is the exact \<open>100 * score / total\<close> rounded half
  up, less one where the exact value is 14.5, 28.5, 56.5 or 57.5.
\<close>

theorem C1_grading:
  "fst (gradeQuiz qz ans) =
     length (filter (\<lambda>i. sort (submitted ans i) = sort (correctAnswers (questions qz ! i)))
               [0..<length (questions qz)])
   \<and> fst (gradeQuiz qz ans) =
     length (filter (\<lambda>i. mset (submitted ans i) = mset (correctAnswers (questions qz ! i)))
               [0..<length (questions qz)])
   \<and> ((\<forall>i<length (questions qz). distinct (submitted ans i) \<and> distinct (correctAnswers (questions qz ! i))) \<longrightarrow>
        fst (gradeQuiz qz ans) =
          length (filter (\<lambda>i. set (submitted ans i) = set (correctAnswers (questions qz ! i)))
                    [0..<length (questions qz)]))
   \<and> fst (gradeQuiz qz ans) \<le> length (questions qz)
   \<and> (questions qz = [] \<longrightarrow> percentageOf (fst (gradeQuiz qz ans)) (length (questions qz)) = NaN)
   \<and> (questions qz \<noteq> [] \<longrightarrow>
        percentageOf (fst (gradeQuiz qz ans)) (length (questions qz)) =
          Num (Math_round (binary64 (binary64 (of_nat (fst (gradeQuiz qz ans)) / of_nat (length (questions qz))) * 100))))
   \<and> (questions qz \<noteq> [] \<and> length (questions qz) < 2 ^ 32 \<longrightarrow>
        percentageOf (fst (gradeQuiz qz ans)) (length (questions qz)) =
          Num (\<lfloor>100 * (of_nat (fst (gradeQuiz qz ans)) / of_nat (length (questions qz)) :: rat) + 1 / 2\<rfloor>
               - (if 100 * (of_nat (fst (gradeQuiz qz ans)) / of_nat (length (questions qz)) :: rat)
                       \<in> {29 / 2, 57 / 2, 113 / 2, 115 / 2}
                  then 1 else 0)))"
proof -
  define n where "n = length (questions qz)"
  define sc where "sc = fst (gradeQuiz qz ans)"
  have le: "sc \<le> n"
    unfolding sc_def n_def by (rule gradeQuiz_score_le)
  have m: "sc = length (filter (\<lambda>i. mset (submitted ans i) = mset (correctAnswers (questions qz ! i))) [0..<n])"
    unfolding sc_def n_def by (rule gradeQuiz_score)
  have s: "sc = length (filter (\<lambda>i. sort (submitted ans i) = sort (correctAnswers (questions qz ! i))) [0..<n])"
    unfolding m by (simp add: sort_eq_iff_mset)
  have d: "sc = length (filter (\<lambda>i. set (submitted ans i) = set (correctAnswers (questions qz ! i))) [0..<n])"
    if "\<forall>i<n. distinct (submitted ans i) \<and> distinct (correctAnswers (questions qz ! i))"
  proof -
    have "filter (\<lambda>i. mset (submitted ans i) = mset (correctAnswers (questions qz ! i))) [0..<n]
        = filter (\<lambda>i. set (submitted ans i) = set (correctAnswers (questions qz ! i))) [0..<n]"
      using that by (intro filter_cong) (auto simp: mset_eq_iff_set_eq_distinct)
    then show ?thesis by (simp add: m)
  qed
  have e: "percentageOf sc n = NaN" if "n = 0"
    using that le by (simp add: percentageOf_def)
  have f: "percentageOf sc n = Num (Math_round (binary64 (binary64 (of_nat sc / of_nat n) * 100)))" if "n \<noteq> 0"
    using that by (simp add: percentageOf_def)
  have r: "percentageOf sc n =
             Num (\<lfloor>100 * (of_nat sc / of_nat n :: rat) + 1 / 2\<rfloor>
                  - (if 100 * (of_nat sc / of_nat n :: rat) \<in> {29 / 2, 57 / 2, 113 / 2, 115 / 2} then 1 else 0))"
    if "n \<noteq> 0" and "n < 2 ^ 32"
    using that le by (intro percentage_exact) simp_all
  have q: "(questions qz = []) = (n = 0)"
    by (simp add: n_def)
  show ?thesis
    unfolding sc_def [symmetric] n_def [symmetric] q
    using le m s d e f r by blast
qed

theorem C1_grading_witness:
  "fst (gradeQuiz exampleQuiz exampleAnswers) = 1
   \<and> questions exampleQuiz \<noteq> []
   \<and> length (questions exampleQuiz) < 2 ^ 32
   \<and> distinct (submitted exampleAnswers 0) \<and> distinct (correctAnswers (questions exampleQuiz ! 0))
   \<and> percentageOf (fst (gradeQuiz exampleQuiz exampleAnswers)) (length (questions exampleQuiz)) = Num 100"
proof -
  have sc: "fst (gradeQuiz exampleQuiz exampleAnswers) = 1"
    by (simp add: gradeQuiz_def exampleQuiz_def exampleQuestion_def exampleAnswers_def Let_def)
  have q: "questions exampleQuiz \<noteq> []" "length (questions exampleQuiz) = 1"
    "distinct (submitted exampleAnswers 0)" "distinct (correctAnswers (questions exampleQuiz ! 0))"
    by (simp_all add: exampleQuiz_def exampleQuestion_def exampleAnswers_def submitted_def)
  have small: "length (questions exampleQuiz) < 2 ^ 32"
    unfolding q(2) by simp
  have fl: "\<lfloor>100 * (of_nat 1 / of_nat 1 :: rat) + 1 / 2\<rfloor> = 100"
    by (rule floor_unique) simp_all
  have no: "(if 100 * (of_nat 1 / of_nat 1 :: rat) \<in> {29 / 2, 57 / 2, 113 / 2, 115 / 2} then 1 else 0) = (0::int)"
    by simp
  have "percentageOf (fst (gradeQuiz exampleQuiz exampleAnswers)) (length (questions exampleQuiz)) =
          Num (\<lfloor>100 * (of_nat (fst (gradeQuiz exampleQuiz exampleAnswers)) / of_nat (length (questions exampleQuiz)) :: rat) + 1 / 2\<rfloor>
               - (if 100 * (of_nat (fst (gradeQuiz exampleQuiz exampleAnswers)) / of_nat (length (questions exampleQuiz)) :: rat)
                       \<in> {29 / 2, 57 / 2, 113 / 2, 115 / 2}
                  then 1 else 0))"
    using C1_grading [of exampleQuiz exampleAnswers] q(1) small by blast
  then have "percentageOf (fst (gradeQuiz exampleQuiz exampleAnswers)) (length (questions exampleQuiz)) = Num 100"
    unfolding sc q(2) fl no by simp
  then show ?thesis
    using sc q(1,3,4) small by blast
qed

text \<open>
  The claim as stated fails in three places. For 23 matching questions of 40 the exact
  percentage is 57.5, which rounds to 58, and the code computes 57, because the binary64
  quotient \<open>23 / 40\<close> times 100 is slightly less than 57.5. A question whose
  \<^verbatim>\<open>correctAnswers\<close> names an option twice is not matched by the selection of that
  option, although the two are equal as sets. And a quiz without questions has the
  percentage \<^verbatim>\<open>NaN\<close>.
\<close>

lemma gradeQuiz_example40: "fst (gradeQuiz exampleQuiz40 exampleAnswers23) = 23"
proof -
  have "filter (\<lambda>i. mset (submitted exampleAnswers23 i) = mset (correctAnswers (questions exampleQuiz40 ! i))) [0..<40]
      = filter (\<lambda>i. i < 23) [0..<40]"
    by (intro filter_cong)
      (auto simp: exampleQuiz40_def exampleAnswers23_def exampleQuestion_def submitted_def)
  then show ?thesis
    by (simp add: gradeQuiz_score exampleQuiz40_def length_filter_less_upt)
qed

theorem C1_counterexample:
  "fst (gradeQuiz exampleQuiz40 exampleAnswers23) = 23
   \<and> length (questions exampleQuiz40) = 40
   \<and> percentageOf (fst (gradeQuiz exampleQuiz40 exampleAnswers23)) (length (questions exampleQuiz40)) = Num 57
   \<and> \<lfloor>100 * (23 / 40 :: rat) + 1 / 2\<rfloor> = 58
   \<and> set (submitted exampleSingleAnswer 0) = set (correctAnswers (questions exampleDuplicateQuiz ! 0))
   \<and> fst (gradeQuiz exampleDuplicateQuiz exampleSingleAnswer) = 0
   \<and> percentageOf (fst (gradeQuiz exampleEmptyQuiz exampleAnswers)) (length (questions exampleEmptyQuiz)) = NaN"
proof -
  have f: "\<lfloor>100 * (23 / 40 :: rat) + 1 / 2\<rfloor> = 58"
    by (rule floor_unique) simp_all
  have l: "length (questions exampleQuiz40) = 40"
    by (simp add: exampleQuiz40_def)
  have d: "set (submitted exampleSingleAnswer 0) = set (correctAnswers (questions exampleDuplicateQuiz ! 0))"
    "fst (gradeQuiz exampleDuplicateQuiz exampleSingleAnswer) = 0"
    by (simp_all add: gradeQuiz_def exampleDuplicateQuiz_def exampleSingleAnswer_def exampleQuestion_def
        submitted_def Let_def)
  have e: "percentageOf (fst (gradeQuiz exampleEmptyQuiz exampleAnswers)) (length (questions exampleEmptyQuiz)) = NaN"
    by (simp add: gradeQuiz_def exampleEmptyQuiz_def percentageOf_def)
  show ?thesis
    unfolding gradeQuiz_example40 l percentageOf_23_40 f using d e by simp
qed

text \<open>
  What the loop leaves of the quiz: everything but the order of the correct answers of
  each question.
\<close>

lemma gradeQuiz_preserves:
  "quiz_title (fst (snd (gradeQuiz qz ans))) = quiz_title qz"
  "map question (questions (fst (snd (gradeQuiz qz ans)))) = map question (questions qz)"
  "map qtype (questions (fst (snd (gradeQuiz qz ans)))) = map qtype (questions qz)"
  "map options (questions (fst (snd (gradeQuiz qz ans)))) = map options (questions qz)"
  "map (\<lambda>q. mset (correctAnswers q)) (questions (fst (snd (gradeQuiz qz ans))))
     = map (\<lambda>q. mset (correctAnswers q)) (questions qz)"
  by (simp_all add: gradeQuiz_quiz o_def)

subsection \<open>Module quiz\<close>


lemma course_id_quizCourseUpdater: "course_id (quizCourseUpdater p index aid c) = course_id c"
  by (simp add: quizCourseUpdater_def Let_def)

lemma modules_quizCourseUpdater:
  "course_id c = aid \<Longrightarrow>
   modules (quizCourseUpdater p index aid c) =
     (if num_ge p 80
      then mapi (\<lambda>i m. if i = index then m\<lparr>isCompleted := True, quizScore := Some p, quizAttempts := Some 0\<rparr> else m) (modules c)
      else mapi (\<lambda>i m. if i = index then m\<lparr>quizAttempts := Some ((case quizAttempts m of None \<Rightarrow> 0 | Some a \<Rightarrow> a) + 1)\<rparr> else m) (modules c))"
  by (simp add: quizCourseUpdater_def Let_def)

lemma unlocked_quizCourseUpdater:
  "course_id c = aid \<Longrightarrow>
   unlockedModuleIndex (quizCourseUpdater p index aid c) =
     (if num_ge p 80 \<and> unlockedModuleIndex c = index then unlockedModuleIndex c + 1 else unlockedModuleIndex c)"
  by (simp add: quizCourseUpdater_def Let_def)




text \<open>What the updater does to the graded module and to the unlock index.\<close>

lemma quizCourseUpdater_module:
  assumes "course_id c = aid" and "index < length (modules c)"
  shows "modules (quizCourseUpdater p index aid c) ! index =
           (if num_ge p 80
            then (modules c ! index)\<lparr>isCompleted := True, quizScore := Some p, quizAttempts := Some 0\<rparr>
            else (modules c ! index)\<lparr>quizAttempts :=
                   Some ((case quizAttempts (modules c ! index) of None \<Rightarrow> 0 | Some a \<Rightarrow> a) + 1)\<rparr>)"
  using assms by (simp add: modules_quizCourseUpdater nth_mapi)

text \<open>What the handler does with the updater, for a submission that is graded.\<close>

lemma handleQuizSubmit_graded:
  assumes "activeModule st = Some (m, index)" and "quiz m = Some a" and "activeCourse st = Some ac"
    and "a < length (quizStore st)"
  shows "courses_state (handleQuizSubmit ans st) =
           map (quizCourseUpdater (gradedPercentage (quizStore st ! a) ans) index (course_id ac)) (courses_state st)"
    and "learningPaths (handleQuizSubmit ans st) =
           (case activePath st of
              None \<Rightarrow> learningPaths st
            | Some ap \<Rightarrow>
                map (quizPathUpdater
                       (quizCourseUpdater (gradedPercentage (quizStore st ! a) ans) index (course_id ac))
                       (course_id ac) (path_id ap)) (learningPaths st))"
    and "quizStore (handleQuizSubmit ans st) = (quizStore st)[a := fst (snd (gradeQuiz (quizStore st ! a) ans))]"
    and "quizScore_state (handleQuizSubmit ans st) =
           (fst (gradeQuiz (quizStore st ! a) ans), length (questions (quizStore st ! a)))"
  using assms
  by (simp_all add: handleQuizSubmit_def gradedPercentage_def Let_def case_prod_beta
      length_questions_gradeQuiz split: option.splits)

text \<open>
  A course that is stored on its own. A graded module quiz rewrites every course of
  \<^verbatim>\<open>courses\<close> with the active course's id. At 80 or more the graded module is marked
  completed, the percentage is stored as its \<^verbatim>\<open>quizScore\<close> and its \<^verbatim>\<open>quizAttempts\<close>
  is reset to 0, and \<^verbatim>\<open>unlockedModuleIndex\<close> grows by one exactly when the graded module
  is the one it points at. Below 80 (the branch a \<^verbatim>\<open>NaN\<close> takes too) the module's
  \<^verbatim>\<open>quizAttempts\<close> grows by one, a missing counter counting as 0, no other field of the
  module changes and \<^verbatim>\<open>unlockedModuleIndex\<close> stays. It never decreases. The module's
  \<^verbatim>\<open>quiz\<close> field is the reference to its quiz, which the update copies.
\<close>

lemma handleQuizSubmit_stored_course:
  assumes "activeModule st = Some (m, index)" and "quiz m = Some a" and "activeCourse st = Some ac"
    and "a < length (quizStore st)"
    and "k < length (courses_state st)" and "course_id (courses_state st ! k) = course_id ac"
    and "index < length (modules (courses_state st ! k))"
  shows "(num_ge (gradedPercentage (quizStore st ! a) ans) 80 \<longrightarrow>
            modules (courses_state (handleQuizSubmit ans st) ! k) ! index =
              (modules (courses_state st ! k) ! index)
                \<lparr>isCompleted := True, quizScore := Some (gradedPercentage (quizStore st ! a) ans),
                 quizAttempts := Some 0\<rparr>
          \<and> unlockedModuleIndex (courses_state (handleQuizSubmit ans st) ! k) =
              (if index = unlockedModuleIndex (courses_state st ! k)
               then unlockedModuleIndex (courses_state st ! k) + 1
               else unlockedModuleIndex (courses_state st ! k)))
       \<and> (\<not> num_ge (gradedPercentage (quizStore st ! a) ans) 80 \<longrightarrow>
            modules (courses_state (handleQuizSubmit ans st) ! k) ! index =
              (modules (courses_state st ! k) ! index)
                \<lparr>quizAttempts :=
                   Some ((case quizAttempts (modules (courses_state st ! k) ! index) of
                            None \<Rightarrow> 0 | Some n \<Rightarrow> n) + 1)\<rparr>
          \<and> unlockedModuleIndex (courses_state (handleQuizSubmit ans st) ! k) =
              unlockedModuleIndex (courses_state st ! k))
       \<and> unlockedModuleIndex (courses_state st ! k)
           \<le> unlockedModuleIndex (courses_state (handleQuizSubmit ans st) ! k)"
  using assms(5,6,7)
  by (auto simp: handleQuizSubmit_graded(1) [OF assms(1,2,3,4)] quizCourseUpdater_module
      unlocked_quizCourseUpdater)

lemma gradedPercentage_example_pass: "gradedPercentage exampleQuiz exampleAnswers = Num 100"
proof -
  have "fst (gradeQuiz exampleQuiz exampleAnswers) = 1"
    by (simp add: gradeQuiz_def exampleQuiz_def exampleQuestion_def exampleAnswers_def Let_def)
  then show ?thesis
    by (simp add: gradedPercentage_eq exampleQuiz_def percentageOf_full)
qed

lemma gradedPercentage_example_fail: "gradedPercentage exampleQuiz Map.empty = Num 0"
proof -
  have "fst (gradeQuiz exampleQuiz Map.empty) = 0"
    by (simp add: gradeQuiz_def exampleQuiz_def exampleQuestion_def Let_def)
  then show ?thesis
    by (simp add: gradedPercentage_eq exampleQuiz_def percentageOf_zero)
qed

lemma handleQuizSubmit_stored_course_example:
  "modules (courses_state exampleState ! 0) ! 0 = exampleModule
   \<and> unlockedModuleIndex (courses_state exampleState ! 0) = 0
   \<and> modules (courses_state (handleQuizSubmit exampleAnswers exampleState) ! 0) ! 0 =
       exampleModule\<lparr>isCompleted := True, quizScore := Some (Num 100), quizAttempts := Some 0\<rparr>
   \<and> unlockedModuleIndex (courses_state (handleQuizSubmit exampleAnswers exampleState) ! 0) = 1
   \<and> modules (courses_state (handleQuizSubmit Map.empty exampleState) ! 0) ! 0 =
       exampleModule\<lparr>quizAttempts := Some 1\<rparr>
   \<and> unlockedModuleIndex (courses_state (handleQuizSubmit Map.empty exampleState) ! 0) = 0"
proof -
  have a: "activeModule exampleState = Some (exampleModule, 0)" "quiz exampleModule = Some 0"
    "activeCourse exampleState = Some exampleCourse" "0 < length (quizStore exampleState)"
    "0 < length (courses_state exampleState)"
    "course_id (courses_state exampleState ! 0) = course_id exampleCourse"
    "0 < length (modules (courses_state exampleState ! 0))"
    by (simp_all add: exampleState_def exampleModule_def exampleCourse_def)
  have b: "quizStore exampleState ! 0 = exampleQuiz" "modules (courses_state exampleState ! 0) ! 0 = exampleModule"
    "unlockedModuleIndex (courses_state exampleState ! 0) = 0" "quizAttempts exampleModule = Some 0"
    by (simp_all add: exampleState_def exampleCourse_def exampleModule_def)
  show ?thesis
    using handleQuizSubmit_stored_course [OF a, of exampleAnswers]
      handleQuizSubmit_stored_course [OF a, of Map.empty]
    by (simp add: b gradedPercentage_example_pass gradedPercentage_example_fail)
qed

subsection \<open>Learning paths\<close>

lemma findIndex_map_id:
  assumes "\<And>c. P (f c) = P c"
  shows "findIndex P (map f cs) = findIndex P cs"
  by (induction cs) (simp_all add: assms)

lemma findIndex_Some_less: "findIndex P xs = Some i \<Longrightarrow> i < length xs"
  by (induction xs arbitrary: i) (auto split: if_splits)

lemma findIndex_Some_first:
  "findIndex P xs = Some i \<Longrightarrow> P (xs ! i) \<and> (\<forall>j<i. \<not> P (xs ! j))"
proof (induction xs arbitrary: i)
  case Nil
  then show ?case by simp
next
  case (Cons x xs)
  show ?case
  proof (cases "P x")
    case True
    then show ?thesis using Cons.prems by simp
  next
    case False
    then obtain k where k: "findIndex P xs = Some k" "i = Suc k"
      using Cons.prems by auto
    have "P (xs ! k) \<and> (\<forall>j<k. \<not> P (xs ! j))" using k(1) by (rule Cons.IH)
    then show ?thesis using False k(2) by (auto simp: less_Suc_eq_0_disj)
  qed
qed

lemma findIndex_None_iff: "findIndex P xs = None \<longleftrightarrow> (\<forall>x\<in>set xs. \<not> P x)"
  by (induction xs) auto

lemma quizPathUpdater_found:
  assumes "path_id p = apid"
    and "findIndex (\<lambda>c. course_id c = aid) (courses p) = Some i"
  shows "courses (quizPathUpdater (quizCourseUpdater pc index aid) aid apid p) =
           map (quizCourseUpdater pc index aid) (courses p)"
    and "unlockedCourseIndex (quizPathUpdater (quizCourseUpdater pc index aid) aid apid p) =
           (if course_isCompleted (quizCourseUpdater pc index aid (courses p ! i)) \<and> i = unlockedCourseIndex p
            then unlockedCourseIndex p + 1 else unlockedCourseIndex p)"
proof -
  have "findIndex (\<lambda>c. course_id c = aid) (map (quizCourseUpdater pc index aid) (courses p)) = Some i"
    using assms(2) by (simp add: findIndex_map_id course_id_quizCourseUpdater)
  moreover have "i < length (courses p)"
    using assms(2) by (rule findIndex_Some_less)
  ultimately show "courses (quizPathUpdater (quizCourseUpdater pc index aid) aid apid p) =
           map (quizCourseUpdater pc index aid) (courses p)"
    and "unlockedCourseIndex (quizPathUpdater (quizCourseUpdater pc index aid) aid apid p) =
           (if course_isCompleted (quizCourseUpdater pc index aid (courses p ! i)) \<and> i = unlockedCourseIndex p
            then unlockedCourseIndex p + 1 else unlockedCourseIndex p)"
    using assms(1) by (simp_all add: quizPathUpdater_def Let_def)
qed

text \<open>
  What the block under \<^verbatim>\<open>if (activePath)\<close> does while a path is open: in a stored path
  with the open path's id that holds the graded course, at \<open>i\<close> first, every course gets
  the update that the courses stored on their own get, and \<^verbatim>\<open>unlockedCourseIndex\<close> grows
  by one exactly when the course at \<open>i\<close> is completed after the update and \<open>i\<close> is the
  index it points at.
\<close>

lemma handleQuizSubmit_open_path:
  assumes "activeModule st = Some (m, index)" and "quiz m = Some a" and "activeCourse st = Some ac"
    and "a < length (quizStore st)"
    and "activePath st = Some ap"
    and "j < length (learningPaths st)" and "path_id (learningPaths st ! j) = path_id ap"
    and "findIndex (\<lambda>c. course_id c = course_id ac) (courses (learningPaths st ! j)) = Some i"
  shows "courses (learningPaths (handleQuizSubmit ans st) ! j) =
           map (quizCourseUpdater (gradedPercentage (quizStore st ! a) ans) index (course_id ac))
             (courses (learningPaths st ! j))"
    and "unlockedCourseIndex (learningPaths (handleQuizSubmit ans st) ! j) =
           (if course_isCompleted (courses (learningPaths (handleQuizSubmit ans st) ! j) ! i)
               \<and> i = unlockedCourseIndex (learningPaths st ! j)
            then unlockedCourseIndex (learningPaths st ! j) + 1
            else unlockedCourseIndex (learningPaths st ! j))"
proof -
  note g = handleQuizSubmit_graded [OF assms(1,2,3,4)]
  have i: "i < length (courses (learningPaths st ! j))"
    using assms(8) by (rule findIndex_Some_less)
  show "courses (learningPaths (handleQuizSubmit ans st) ! j) =
           map (quizCourseUpdater (gradedPercentage (quizStore st ! a) ans) index (course_id ac))
             (courses (learningPaths st ! j))"
    using assms(6) i by (simp add: g(2) assms(5) quizPathUpdater_found [OF assms(7,8)])
  then show "unlockedCourseIndex (learningPaths (handleQuizSubmit ans st) ! j) =
           (if course_isCompleted (courses (learningPaths (handleQuizSubmit ans st) ! j) ! i)
               \<and> i = unlockedCourseIndex (learningPaths st ! j)
            then unlockedCourseIndex (learningPaths st ! j) + 1
            else unlockedCourseIndex (learningPaths st ! j))"
    using assms(6) i by (simp add: g(2) assms(5) quizPathUpdater_found [OF assms(7,8)])
qed

subsection \<open>A course of a learning path\<close>

text \<open>
  Without an open path the handler leaves every stored path as it is, whatever the
  grading, and \<open>setAppView\<close> closes the open path on the way to every view but the view
  of the path: whenever the learner has got to a quiz through \<open>setAppView\<close>, grading it
  changes no stored path.
\<close>

lemma handleQuizSubmit_no_activePath:
  "activePath st = None \<Longrightarrow> learningPaths (handleQuizSubmit ans st) = learningPaths st"
  by (simp add: handleQuizSubmit_def Let_def case_prod_beta split: option.splits prod.splits)

lemma activePath_setAppView: "newView \<noteq> View_path \<Longrightarrow> activePath (setAppView newView st) = None"
  by (simp add: setAppView_def Let_def)

lemma learningPaths_setAppView: "learningPaths (setAppView newView st) = learningPaths st"
  by (simp add: setAppView_def Let_def)

lemma learningPaths_quiz_view:
  "learningPaths (handleQuizSubmit ans (setAppView View_quiz st)) = learningPaths st"
  by (simp add: handleQuizSubmit_no_activePath activePath_setAppView learningPaths_setAppView)

text \<open>The states the learner is in after opening the quiz, in the two examples.\<close>

lemma openFirstQuiz_exampleModulePathState:
  "openFirstQuiz exampleModulePathState =
     exampleModulePathState\<lparr>activePath := None, activeCourse := Some exampleCourse,
        activeModule := Some (exampleModule, 0), view := View_quiz\<rparr>"
  by (simp add: openFirstQuiz_def setAppView_def handleModuleClick_def handleCourseClick_def
      exampleModulePathState_def examplePathState_def exampleModulePath_def exampleCourse_def
      exampleModule_def)

lemma openFirstQuiz_examplePathState:
  "openFirstQuiz examplePathState =
     examplePathState\<lparr>activePath := None, activeCourse := Some exampleSingleCourse,
        activeModule := Some (exampleModule, 0), view := View_quiz\<rparr>"
  by (simp add: openFirstQuiz_def setAppView_def handleModuleClick_def handleCourseClick_def
      examplePathState_def examplePath_def exampleSingleCourse_def exampleCourse_def exampleModule_def)

text \<open>
  Claim C2. Every graded module quiz is to update the graded module: at 80 or more it is
  completed, holds the percentage and a counter of 0, and the unlock index moves on from
  it; below 80 its counter grows by one. For a course stored on its own the handler does
  that (\<open>handleQuizSubmit_stored_course\<close>). A course of a learning path is stored in its
  path only, the handler rewrites the paths only under \<^verbatim>\<open>if (activePath)\<close>, and the
  learner who opens the course from the path, its module and the quiz has no open path
  left. Below, the only question of the quiz is answered correctly (100 percent) and then
  not at all (0 percent). Both submissions are graded, and after either the stored path,
  the only place that holds the course, is what it was, and so is the active course: the
  graded module is not completed, has no score and a counter of 0, and the unlock index of
  the course is 0.
\<close>

theorem C2_path_module_not_updated:
  "activeCourse (openFirstQuiz exampleModulePathState) = Some exampleCourse
   \<and> activeModule (openFirstQuiz exampleModulePathState) = Some (exampleModule, 0)
   \<and> gradedPercentage exampleQuiz exampleAnswers = Num 100
   \<and> gradedPercentage exampleQuiz Map.empty = Num 0
   \<and> quizScore_state (handleQuizSubmit exampleAnswers (openFirstQuiz exampleModulePathState)) = (1, 1)
   \<and> quizScore_state (handleQuizSubmit Map.empty (openFirstQuiz exampleModulePathState)) = (0, 1)
   \<and> courses_state (handleQuizSubmit exampleAnswers (openFirstQuiz exampleModulePathState)) = []
   \<and> courses_state (handleQuizSubmit Map.empty (openFirstQuiz exampleModulePathState)) = []
   \<and> learningPaths (handleQuizSubmit exampleAnswers (openFirstQuiz exampleModulePathState)) = [exampleModulePath]
   \<and> learningPaths (handleQuizSubmit Map.empty (openFirstQuiz exampleModulePathState)) = [exampleModulePath]
   \<and> activeCourse (handleQuizSubmit exampleAnswers (openFirstQuiz exampleModulePathState)) = Some exampleCourse
   \<and> activeCourse (handleQuizSubmit Map.empty (openFirstQuiz exampleModulePathState)) = Some exampleCourse
   \<and> courses exampleModulePath = [exampleCourse]
   \<and> modules exampleCourse ! 0 = exampleModule
   \<and> \<not> isCompleted exampleModule
   \<and> quizScore exampleModule = None
   \<and> quizAttempts exampleModule = Some 0
   \<and> unlockedModuleIndex exampleCourse = 0"
proof -
  define st where "st = openFirstQuiz exampleModulePathState"
  have st: "st = exampleModulePathState\<lparr>activePath := None, activeCourse := Some exampleCourse,
                activeModule := Some (exampleModule, 0), view := View_quiz\<rparr>"
    unfolding st_def by (rule openFirstQuiz_exampleModulePathState)
  have a: "activeModule st = Some (exampleModule, 0)" "quiz exampleModule = Some 0"
    "activeCourse st = Some exampleCourse" "0 < length (quizStore st)"
    by (simp_all add: st exampleModulePathState_def examplePathState_def exampleModule_def)
  have b: "quizStore st ! 0 = exampleQuiz" "courses_state st = []" "activePath st = None"
    "learningPaths st = [exampleModulePath]"
    by (simp_all add: st exampleModulePathState_def examplePathState_def)
  have sc: "fst (gradeQuiz exampleQuiz exampleAnswers) = 1" "fst (gradeQuiz exampleQuiz Map.empty) = 0"
    by (simp_all add: gradeQuiz_def exampleQuiz_def exampleQuestion_def exampleAnswers_def Let_def)
  have graded: "quizScore_state (handleQuizSubmit ans st) = (fst (gradeQuiz exampleQuiz ans), 1)" for ans
    using handleQuizSubmit_graded(4) [OF a, of ans] by (simp add: b exampleQuiz_def)
  have stored: "courses_state (handleQuizSubmit ans st) = []" for ans
    using handleQuizSubmit_graded(1) [OF a, of ans] by (simp add: b)
  have paths: "learningPaths (handleQuizSubmit ans st) = [exampleModulePath]" for ans
    using handleQuizSubmit_no_activePath [OF b(3), of ans] by (simp add: b)
  have active: "activeCourse (handleQuizSubmit ans st) = Some exampleCourse" for ans
    using a b
    by (simp add: handleQuizSubmit_def Let_def case_prod_beta rewritten_def lastSet_def)
  have ex: "courses exampleModulePath = [exampleCourse]" "modules exampleCourse ! 0 = exampleModule"
    "\<not> isCompleted exampleModule" "quizScore exampleModule = None"
    "quizAttempts exampleModule = Some 0" "unlockedModuleIndex exampleCourse = 0"
    by (simp_all add: exampleModulePath_def exampleCourse_def exampleModule_def)
  show ?thesis
    using a(1,3) graded stored paths active ex sc
    unfolding st_def by (simp add: gradedPercentage_example_pass gradedPercentage_example_fail)
qed

text \<open>
  Claim C6. A graded module quiz of a course of a learning path is to reach the path's
  copy of the course, and to move \<^verbatim>\<open>unlockedCourseIndex\<close> on when the course at that index
  is thereby completed. The handler has the block for it (\<open>handleQuizSubmit_open_path\<close>),
  under \<^verbatim>\<open>if (activePath)\<close>; the learner who opens the course from the path, its module
  and the quiz has no open path left. Below, the path holds one course with one module,
  and the learner answers the only question of its quiz correctly: the submission is
  graded, one of one, the update would complete the module and with it the course, which
  is the one \<^verbatim>\<open>unlockedCourseIndex\<close> points at; the stored path keeps the course as it
  was and the index at 0.
\<close>

theorem C6_path_copy_not_updated:
  "activePath (openFirstQuiz examplePathState) = None
   \<and> activeCourse (openFirstQuiz examplePathState) = Some exampleSingleCourse
   \<and> quizScore_state (handleQuizSubmit exampleAnswers (openFirstQuiz examplePathState)) = (1, 1)
   \<and> learningPaths (handleQuizSubmit exampleAnswers (openFirstQuiz examplePathState)) = [examplePath]
   \<and> courses examplePath = [exampleSingleCourse]
   \<and> unlockedCourseIndex examplePath = 0
   \<and> course_isCompleted (quizCourseUpdater (gradedPercentage exampleQuiz exampleAnswers) 0 ''c2'' exampleSingleCourse)
   \<and> quizCourseUpdater (gradedPercentage exampleQuiz exampleAnswers) 0 ''c2'' exampleSingleCourse \<noteq> exampleSingleCourse"
proof -
  define st where "st = openFirstQuiz examplePathState"
  have st: "st = examplePathState\<lparr>activePath := None, activeCourse := Some exampleSingleCourse,
                activeModule := Some (exampleModule, 0), view := View_quiz\<rparr>"
    unfolding st_def by (rule openFirstQuiz_examplePathState)
  have sc: "fst (gradeQuiz exampleQuiz exampleAnswers) = 1"
    by (simp add: gradeQuiz_def exampleQuiz_def exampleQuestion_def exampleAnswers_def Let_def)
  have graded: "quizScore_state (handleQuizSubmit exampleAnswers st) = (1, 1)"
    using handleQuizSubmit_graded(4) [of st exampleModule 0 0 exampleSingleCourse exampleAnswers] sc
    by (simp add: st examplePathState_def exampleModule_def exampleQuiz_def)
  have paths: "learningPaths (handleQuizSubmit exampleAnswers st) = [examplePath]"
    using handleQuizSubmit_no_activePath [of st exampleAnswers]
    by (simp add: st examplePathState_def)
  have upd: "course_isCompleted (quizCourseUpdater (gradedPercentage exampleQuiz exampleAnswers) 0 ''c2'' exampleSingleCourse)"
    by (simp add: gradedPercentage_example_pass quizCourseUpdater_def exampleSingleCourse_def
        exampleCourse_def exampleModule_def mapi_def)
  then have "quizCourseUpdater (gradedPercentage exampleQuiz exampleAnswers) 0 ''c2'' exampleSingleCourse \<noteq> exampleSingleCourse"
    by (auto simp: exampleSingleCourse_def exampleCourse_def)
  then show ?thesis
    using graded paths upd unfolding st_def
    by (simp add: st [unfolded st_def] examplePath_def)
qed

subsection \<open>Completion of a course\<close>










subsection \<open>The stored quiz\<close>

text \<open>
  Claim C8. Grading is to leave the quiz as it is. The loop calls
  \<^verbatim>\<open>q.correctAnswers.sort()\<close>, which sorts the array of the stored quiz in place: after
  the submission below (no answer at all) the stored quiz lists the correct answers of
  its question as \<^verbatim>\<open>["a", "b"]\<close>, where it had \<^verbatim>\<open>["b", "a"]\<close>.
\<close>

theorem C8_grading_sorts_stored_quiz:
  "map correctAnswers (questions (quizStore exampleState ! 0)) = [[''b'', ''a'']]
   \<and> map correctAnswers (questions (quizStore (handleQuizSubmit Map.empty exampleState) ! 0)) = [[''a'', ''b'']]"
proof -
  have "quizStore (handleQuizSubmit Map.empty exampleState)
          = (quizStore exampleState)[0 := fst (snd (gradeQuiz (quizStore exampleState ! 0) Map.empty))]"
    by (rule handleQuizSubmit_graded(3) [where m = exampleModule and index = 0 and ac = exampleCourse])
      (simp_all add: exampleState_def exampleModule_def)
  then show ?thesis
    by (simp add: gradeQuiz_quiz exampleState_def exampleQuiz_def exampleQuestion_def)
qed

subsection \<open>Mock test and badge\<close>

lemma newBadge_eq_Some_iff:
  "newBadge ac p today = Some b \<longleftrightarrow>
     num_ge p 80 \<and> b = \<lparr>courseTitle = course_title ac, score = p, dateAwarded = today\<rparr>"
  by (cases p) (auto simp: newBadge_def)

lemma newBadge_eq_None_iff: "newBadge ac p today = None \<longleftrightarrow> \<not> num_ge p 80"
  by (cases p) (auto simp: newBadge_def)

lemma badge_mockCourseUpdater:
  "badge (mockCourseUpdater p nb aid c) = (if course_id c = aid \<and> nb \<noteq> None then nb else badge c)"
  by (cases nb) (simp_all add: mockCourseUpdater_def)

lemma mockTestScore_mockCourseUpdater:
  "mockTestScore (mockCourseUpdater p nb aid c) = (if course_id c = aid then Some p else mockTestScore c)"
  by (cases nb) (simp_all add: mockCourseUpdater_def)

text \<open>What the handler does with the updater, for a submission that is graded.\<close>

lemma allCourses_map:
  "allCourses (st\<lparr>courses_state := map f (courses_state st),
                  learningPaths := map (\<lambda>p. p\<lparr>courses := map f (courses p)\<rparr>) (learningPaths st)\<rparr>)
   = map f (allCourses st)"
  by (simp add: allCourses_def map_concat o_def)

lemma handleMockTestSubmit_graded:
  assumes "activeCourse st = Some ac" and "mockTest ac = Some a" and "a < length (quizStore st)"
  shows "allCourses (handleMockTestSubmit ans today st) =
           map (mockCourseUpdater
                  (gradedPercentage (quizStore st ! a) ans)
                  (newBadge ac (gradedPercentage (quizStore st ! a) ans) today)
                  (course_id ac)) (allCourses st)"
    and "quizStore (handleMockTestSubmit ans today st) = (quizStore st)[a := fst (snd (gradeQuiz (quizStore st ! a) ans))]"
  using assms
  by (simp_all add: handleMockTestSubmit_def gradedPercentage_def Let_def case_prod_beta
      allCourses_def map_concat o_def)

text \<open>
  Claim C3. A graded mock test rewrites every stored course with the active course's
  id, alone or in a path. At 70 or more (a pass) the percentage is stored as
  \<^verbatim>\<open>mockTestScore\<close>. A badge is made exactly when the percentage is 80 or more, so none
  for 70 to 79; it carries the percentage as its score and replaces the course's badge,
  which stays as it was otherwise. The name that \<^verbatim>\<open>getBadgeStyling\<close> derives from the
  score of a badge made is Gold from 90, Silver from 85 and Bronze below.
\<close>

theorem C3_mock_test_badge:
  assumes "activeCourse st = Some ac" and "mockTest ac = Some a" and "a < length (quizStore st)"
    and "k < length (allCourses st)" and "course_id (allCourses st ! k) = course_id ac"
  shows "(num_ge (gradedPercentage (quizStore st ! a) ans) 70 \<longrightarrow>
            mockTestScore (allCourses (handleMockTestSubmit ans today st) ! k) =
              Some (gradedPercentage (quizStore st ! a) ans))
       \<and> ((newBadge ac (gradedPercentage (quizStore st ! a) ans) today \<noteq> None) =
            num_ge (gradedPercentage (quizStore st ! a) ans) 80)
       \<and> (num_ge (gradedPercentage (quizStore st ! a) ans) 80 \<longrightarrow>
            badge (allCourses (handleMockTestSubmit ans today st) ! k) =
              Some \<lparr>courseTitle = course_title ac, score = gradedPercentage (quizStore st ! a) ans,
                    dateAwarded = today\<rparr>
          \<and> fst (getBadgeStyling (gradedPercentage (quizStore st ! a) ans)) =
              (if num_ge (gradedPercentage (quizStore st ! a) ans) 90 then ''Gold''
               else if num_ge (gradedPercentage (quizStore st ! a) ans) 85 then ''Silver''
               else ''Bronze''))
       \<and> (\<not> num_ge (gradedPercentage (quizStore st ! a) ans) 80 \<longrightarrow>
            badge (allCourses (handleMockTestSubmit ans today st) ! k) = badge (allCourses st ! k))"
proof -
  have "newBadge ac (gradedPercentage (quizStore st ! a) ans) today = None \<or>
        newBadge ac (gradedPercentage (quizStore st ! a) ans) today =
          Some \<lparr>courseTitle = course_title ac, score = gradedPercentage (quizStore st ! a) ans,
                dateAwarded = today\<rparr>"
    by (cases "newBadge ac (gradedPercentage (quizStore st ! a) ans) today") (auto simp: newBadge_eq_Some_iff)
  then show ?thesis
    using assms(4,5)
    by (auto simp: handleMockTestSubmit_graded(1) [OF assms(1,2,3)] badge_mockCourseUpdater
        mockTestScore_mockCourseUpdater newBadge_eq_None_iff newBadge_eq_Some_iff getBadgeStyling_def)
qed

theorem C3_mock_test_badge_witness:
  "badge (allCourses exampleMockState ! 0) =
     Some \<lparr>courseTitle = ''Algebra'', score = Num 95, dateAwarded = ''1/1/2025''\<rparr>
   \<and> mockTestScore (allCourses (handleMockTestSubmit exampleAnswers ''2/1/2025'' exampleMockState) ! 0) = Some (Num 100)
   \<and> badge (allCourses (handleMockTestSubmit exampleAnswers ''2/1/2025'' exampleMockState) ! 0) =
       Some \<lparr>courseTitle = ''Algebra'', score = Num 100, dateAwarded = ''2/1/2025''\<rparr>
   \<and> fst (getBadgeStyling (Num 100)) = ''Gold''
   \<and> newBadge exampleMockCourse (Num 0) ''2/1/2025'' = None
   \<and> badge (allCourses (handleMockTestSubmit Map.empty ''2/1/2025'' exampleMockState) ! 0) =
       Some \<lparr>courseTitle = ''Algebra'', score = Num 95, dateAwarded = ''1/1/2025''\<rparr>"
proof -
  have a: "activeCourse exampleMockState = Some exampleMockCourse" "mockTest exampleMockCourse = Some 0"
    "0 < length (quizStore exampleMockState)" "0 < length (allCourses exampleMockState)"
    "course_id (allCourses exampleMockState ! 0) = course_id exampleMockCourse"
    by (simp_all add: exampleMockState_def exampleMockCourse_def allCourses_def)
  have b: "quizStore exampleMockState ! 0 = exampleQuiz"
    "badge (allCourses exampleMockState ! 0) =
       Some \<lparr>courseTitle = ''Algebra'', score = Num 95, dateAwarded = ''1/1/2025''\<rparr>"
    "course_title exampleMockCourse = ''Algebra''"
    by (simp_all add: exampleMockState_def exampleMockCourse_def exampleGoldCourse_def exampleCourse_def
        allCourses_def)
  show ?thesis
    using C3_mock_test_badge [OF a, of exampleAnswers "''2/1/2025''"]
      C3_mock_test_badge [OF a, of Map.empty "''2/1/2025''"]
    by (simp add: b gradedPercentage_example_pass gradedPercentage_example_fail)
qed

lemma badge_mockGrading:
  "badge (mockGrading (ac, p, today) c) =
     (if course_id c = course_id ac \<and> num_ge p 80
      then Some \<lparr>courseTitle = course_title ac, score = p, dateAwarded = today\<rparr> else badge c)"
  by (cases "newBadge ac p today")
    (auto simp: mockGrading_def badge_mockCourseUpdater newBadge_eq_None_iff newBadge_eq_Some_iff)

lemma badge_mockGradings_kept: "badge c \<noteq> None \<Longrightarrow> badge (mockGradings gs c) \<noteq> None"
proof (induction gs arbitrary: c)
  case Nil
  then show ?case by (simp add: mockGradings_def)
next
  case (Cons g gs)
  obtain ac p today where g: "g = (ac, p, today)" by (cases g) auto
  have "badge (mockGrading g c) \<noteq> None"
    using Cons.prems by (simp add: g badge_mockGrading)
  then have "badge (mockGradings gs (mockGrading g c)) \<noteq> None"
    by (rule Cons.IH)
  then show ?case by (simp add: mockGradings_def)
qed

text \<open>
  Claim C4, as the code has it. Through any sequence of mock-test gradings a course that
  has a badge keeps having one; a grading below 80 leaves the badge as it is, so a grading
  changes the badge only at 80 or more; and a grading at 80 or more of the course replaces
  the badge by a new one with that percentage, whatever score the old badge had.
\<close>

theorem C4_badge_kept:
  "(badge c \<noteq> None \<longrightarrow> badge (mockGradings gs c) \<noteq> None)
   \<and> (\<not> num_ge p 80 \<longrightarrow> badge (mockGrading (ac, p, today) c) = badge c)
   \<and> (badge (mockGrading (ac, p, today) c) \<noteq> badge c \<longrightarrow> num_ge p 80)
   \<and> (num_ge p 80 \<and> course_id c = course_id ac \<longrightarrow>
        badge (mockGrading (ac, p, today) c) =
          Some \<lparr>courseTitle = course_title ac, score = p, dateAwarded = today\<rparr>)"
  using badge_mockGradings_kept [of c gs]
  by (auto simp: badge_mockGrading)

theorem C4_badge_kept_witness:
  "badge exampleGoldCourse = Some \<lparr>courseTitle = ''Algebra'', score = Num 95, dateAwarded = ''1/1/2025''\<rparr>
   \<and> badge (mockGradings [(exampleGoldCourse, Num 60, ''2/1/2025''), (exampleGoldCourse, Num 75, ''3/1/2025'')]
        exampleGoldCourse) \<noteq> None
   \<and> badge (mockGrading (exampleGoldCourse, Num 75, ''3/1/2025'') exampleGoldCourse) = badge exampleGoldCourse"
  using C4_badge_kept [of exampleGoldCourse
      "[(exampleGoldCourse, Num 60, ''2/1/2025''), (exampleGoldCourse, Num 75, ''3/1/2025'')]"
      "Num 75" exampleGoldCourse "''3/1/2025''"]
  by (simp add: exampleGoldCourse_def)

text \<open>
  The claim as stated fails for a lower score that still reaches 80: the Gold badge of 95
  percent is overwritten by the badge of a later attempt at 80 percent.
\<close>

theorem C4_counterexample:
  "badge exampleGoldCourse = Some \<lparr>courseTitle = ''Algebra'', score = Num 95, dateAwarded = ''1/1/2025''\<rparr>
   \<and> badge (mockGrading (exampleGoldCourse, Num 80, ''2/1/2025'') exampleGoldCourse) =
       Some \<lparr>courseTitle = ''Algebra'', score = Num 80, dateAwarded = ''2/1/2025''\<rparr>"
  by (simp add: badge_mockGrading exampleGoldCourse_def exampleCourse_def)

text \<open>
  Claim C10. Every graded mock-test submission writes the computed percentage into
  \<^verbatim>\<open>mockTestScore\<close> of each stored course with the active course's id, alone or in a
  path, whether the attempt passes or not and whatever score was stored before.
\<close>

theorem C10_mockTestScore_unconditional:
  assumes "activeCourse st = Some ac" and "mockTest ac = Some a" and "a < length (quizStore st)"
    and "k < length (allCourses st)" and "course_id (allCourses st ! k) = course_id ac"
  shows "mockTestScore (allCourses (handleMockTestSubmit ans today st) ! k) =
           Some (gradedPercentage (quizStore st ! a) ans)"
  using assms
  by (simp add: handleMockTestSubmit_graded(1) mockTestScore_mockCourseUpdater)

theorem C10_mockTestScore_unconditional_witness:
  "mockTestScore (allCourses exampleMockState ! 0) = Some (Num 95)
   \<and> mockTestScore (allCourses (handleMockTestSubmit Map.empty ''2/1/2025'' exampleMockState) ! 0) = Some (Num 0)"
proof -
  have a: "activeCourse exampleMockState = Some exampleMockCourse" "mockTest exampleMockCourse = Some 0"
    "0 < length (quizStore exampleMockState)" "0 < length (allCourses exampleMockState)"
    "course_id (allCourses exampleMockState ! 0) = course_id exampleMockCourse"
    by (simp_all add: exampleMockState_def exampleMockCourse_def allCourses_def)
  have b: "quizStore exampleMockState ! 0 = exampleQuiz"
    "mockTestScore (allCourses exampleMockState ! 0) = Some (Num 95)"
    by (simp_all add: exampleMockState_def exampleMockCourse_def exampleGoldCourse_def allCourses_def)
  show ?thesis
    using C10_mockTestScore_unconditional [OF a, of Map.empty "''2/1/2025''"]
    by (simp add: b gradedPercentage_example_fail)
qed

subsection \<open>Module generation\<close>

lemma course_id_moduleCourseUpdater:
  "course_id (moduleCourseUpdater aid moduleIndex state cont qz c) = course_id c"
  by (simp add: moduleCourseUpdater_def)

lemma module_moduleCourseUpdater:
  assumes "course_id c = aid" and "moduleIndex < length (modules c)"
  shows "modules (moduleCourseUpdater aid moduleIndex state cont qz c) ! moduleIndex =
           (modules c ! moduleIndex)\<lparr>generationState := state, content := cont, quiz := qz\<rparr>"
  using assms by (simp add: moduleCourseUpdater_def)

lemma allCourses_quizStore_update [simp]: "allCourses (st\<lparr>quizStore := qs\<rparr>) = allCourses st"
  by (simp add: allCourses_def)

lemma updateModuleState_Some:
  assumes "updateModuleState aid moduleIndex state cont qz st = Some st'"
  shows "indexInside aid moduleIndex (allCourses st)"
    and "allCourses st' = map (moduleCourseUpdater aid moduleIndex state cont qz) (allCourses st)"
    and "quizStore st' = quizStore st"
  using assms
  by (auto simp: updateModuleState_def Let_def allCourses_def map_concat o_def split: if_splits)

lemma indexInside_nth:
  assumes "indexInside aid moduleIndex cs" and "k < length cs" and "course_id (cs ! k) = aid"
  shows "moduleIndex < length (modules (cs ! k))"
  using assms by (simp add: indexInside_def list_all_length)

text \<open>
  What a run of the handler leaves at the module, for a course of the active course's id
  at position \<open>k\<close> of the stored courses (alone or in a path).
\<close>

lemma handleGenerateModule_Some:
  assumes "activeCourse st = Some ac" and "hasApiKey st"
    and "handleGenerateModule moduleIndex gateway st = Some (st1, st2)"
  shows "requestModule ac moduleIndex st = Some st1"
    and "resolveModule ac moduleIndex gateway st1 = Some st2"
  using assms
  by (auto simp: handleGenerateModule_def split: option.splits)

lemma requestModule_module:
  assumes "requestModule ac moduleIndex st = Some st1"
    and "k < length (allCourses st)" and "course_id (allCourses st ! k) = course_id ac"
  shows "moduleIndex < length (modules (allCourses st ! k))"
    and "modules (allCourses st1 ! k) ! moduleIndex =
           (modules (allCourses st ! k) ! moduleIndex)\<lparr>generationState := GENERATING, content := None, quiz := None\<rparr>"
    and "quizStore st1 = quizStore st"
proof -
  note u = updateModuleState_Some [OF assms(1) [unfolded requestModule_def]]
  show i: "moduleIndex < length (modules (allCourses st ! k))"
    using u(1) assms(2,3) by (rule indexInside_nth)
  show "modules (allCourses st1 ! k) ! moduleIndex =
          (modules (allCourses st ! k) ! moduleIndex)\<lparr>generationState := GENERATING, content := None, quiz := None\<rparr>"
    using assms(2,3) i by (simp add: u(2) module_moduleCourseUpdater)
  show "quizStore st1 = quizStore st" by (rule u(3))
qed

lemma resolveModule_failure:
  assumes "resolveModule ac moduleIndex gateway st1 = Some st2"
    and "gateway = None \<or> length (modules ac) \<le> moduleIndex"
    and "k < length (allCourses st1)" and "course_id (allCourses st1 ! k) = course_id ac"
  shows "modules (allCourses st2 ! k) ! moduleIndex =
           (modules (allCourses st1 ! k) ! moduleIndex)\<lparr>generationState := FAILED, content := None, quiz := None\<rparr>"
proof -
  have "updateModuleState (course_id ac) moduleIndex FAILED None None st1 = Some st2"
    using assms(1,2) by (auto simp: resolveModule_def)
  note u = updateModuleState_Some [OF this]
  have "moduleIndex < length (modules (allCourses st1 ! k))"
    using u(1) assms(3,4) by (rule indexInside_nth)
  then show ?thesis
    using assms(3,4) by (simp add: u(2) module_moduleCourseUpdater)
qed

lemma resolveModule_success:
  assumes "resolveModule ac moduleIndex (Some (cont, qz)) st1 = Some st2"
    and "moduleIndex < length (modules ac)"
    and "k < length (allCourses st1)" and "course_id (allCourses st1 ! k) = course_id ac"
  shows "modules (allCourses st2 ! k) ! moduleIndex =
           (modules (allCourses st1 ! k) ! moduleIndex)
             \<lparr>generationState := READY, content := Some cont, quiz := Some (length (quizStore st1))\<rparr>"
    and "quizStore st2 ! length (quizStore st1) = qz"
proof -
  have "updateModuleState (course_id ac) moduleIndex READY (Some cont) (Some (length (quizStore st1)))
          (st1\<lparr>quizStore := quizStore st1 @ [qz]\<rparr>) = Some st2"
    using assms(1,2) by (simp add: resolveModule_def)
  note u = updateModuleState_Some [OF this]
  have "moduleIndex < length (modules (allCourses st1 ! k))"
    using u(1) assms(3,4) by (simp add: indexInside_nth)
  then show "modules (allCourses st2 ! k) ! moduleIndex =
           (modules (allCourses st1 ! k) ! moduleIndex)
             \<lparr>generationState := READY, content := Some cont, quiz := Some (length (quizStore st1))\<rparr>"
    using assms(3,4) by (simp add: u(2) module_moduleCourseUpdater)
  show "quizStore st2 ! length (quizStore st1) = qz"
    by (simp add: u(3))
qed

lemma length_allCourses_request:
  assumes "requestModule ac moduleIndex st = Some st1"
  shows "length (allCourses st1) = length (allCourses st)"
    and "k < length (allCourses st) \<Longrightarrow> course_id (allCourses st1 ! k) = course_id (allCourses st ! k)"
  using updateModuleState_Some(2) [OF assms [unfolded requestModule_def]]
  by (simp_all add: course_id_moduleCourseUpdater)

text \<open>
  Claim C5, as the code has it. A generation request sets the module to
  \<^verbatim>\<open>GENERATING\<close> before the gateway answers, in a state that does not depend on the
  answer; on success \<^verbatim>\<open>content\<close>, \<^verbatim>\<open>quiz\<close> and \<^verbatim>\<open>READY\<close> are set in one update;
  on failure the module is set to \<^verbatim>\<open>FAILED\<close>. The \<^verbatim>\<open>GENERATING\<close> and the
  \<^verbatim>\<open>FAILED\<close> update both write \<^verbatim>\<open>undefined\<close> into \<^verbatim>\<open>content\<close> and \<^verbatim>\<open>quiz\<close>:
  after either, the module has neither, whatever it held before. The other fields of the
  module keep their values throughout.
\<close>

theorem C5_module_generation:
  assumes "activeCourse st = Some ac" and "hasApiKey st"
    and "handleGenerateModule moduleIndex gateway st = Some (st1, st2)"
    and "k < length (allCourses st)" and "course_id (allCourses st ! k) = course_id ac"
  shows "requestModule ac moduleIndex st = Some st1
       \<and> modules (allCourses st1 ! k) ! moduleIndex =
           (modules (allCourses st ! k) ! moduleIndex)\<lparr>generationState := GENERATING, content := None, quiz := None\<rparr>
       \<and> (\<forall>cont qz. gateway = Some (cont, qz) \<and> moduleIndex < length (modules ac) \<longrightarrow>
             modules (allCourses st2 ! k) ! moduleIndex =
               (modules (allCourses st ! k) ! moduleIndex)
                 \<lparr>generationState := READY, content := Some cont, quiz := Some (length (quizStore st))\<rparr>
           \<and> quizStore st2 ! length (quizStore st) = qz)
       \<and> (gateway = None \<or> length (modules ac) \<le> moduleIndex \<longrightarrow>
             modules (allCourses st2 ! k) ! moduleIndex =
               (modules (allCourses st ! k) ! moduleIndex)\<lparr>generationState := FAILED, content := None, quiz := None\<rparr>)"
proof -
  note h = handleGenerateModule_Some [OF assms(1,2,3)]
  note r = requestModule_module [OF h(1) assms(4,5)]
  note l = length_allCourses_request [OF h(1)]
  have k1: "k < length (allCourses st1)" and id1: "course_id (allCourses st1 ! k) = course_id ac"
    using assms(4,5) l by simp_all
  have success: "modules (allCourses st2 ! k) ! moduleIndex =
               (modules (allCourses st ! k) ! moduleIndex)
                 \<lparr>generationState := READY, content := Some cont, quiz := Some (length (quizStore st))\<rparr>
           \<and> quizStore st2 ! length (quizStore st) = qz"
    if "gateway = Some (cont, qz)" and "moduleIndex < length (modules ac)" for cont qz
    using resolveModule_success [OF h(2) [unfolded that(1)] that(2) k1 id1] r(2,3) by simp
  have failure: "modules (allCourses st2 ! k) ! moduleIndex =
               (modules (allCourses st ! k) ! moduleIndex)\<lparr>generationState := FAILED, content := None, quiz := None\<rparr>"
    if "gateway = None \<or> length (modules ac) \<le> moduleIndex"
    using resolveModule_failure [OF h(2) that k1 id1] r(2) by simp
  show ?thesis
    using h(1) r(2) success failure by blast
qed

lemma handleGenerateModule_example_success:
  "handleGenerateModule 1 (Some (''## Matrices'', exampleQuiz)) exampleState \<noteq> None"
  by (simp add: handleGenerateModule_def requestModule_def resolveModule_def updateModuleState_def
      moduleCourseUpdater_def indexInside_def allCourses_def hasApiKey_def
      exampleState_def exampleCourse_def Let_def)

theorem C5_module_generation_witness:
  "handleGenerateModule 1 (Some (''## Matrices'', exampleQuiz)) exampleState \<noteq> None
   \<and> generationState (modules (allCourses exampleState ! 0) ! 1) = LOCKED
   \<and> generationState (modules (allCourses
        (fst (the (handleGenerateModule 1 (Some (''## Matrices'', exampleQuiz)) exampleState))) ! 0) ! 1) = GENERATING
   \<and> modules (allCourses
        (snd (the (handleGenerateModule 1 (Some (''## Matrices'', exampleQuiz)) exampleState))) ! 0) ! 1 =
       (modules exampleCourse ! 1)\<lparr>generationState := READY, content := Some ''## Matrices'', quiz := Some 1\<rparr>
   \<and> quizStore (snd (the (handleGenerateModule 1 (Some (''## Matrices'', exampleQuiz)) exampleState))) ! 1 = exampleQuiz"
proof -
  obtain st1 st2 where h: "handleGenerateModule 1 (Some (''## Matrices'', exampleQuiz)) exampleState = Some (st1, st2)"
    using handleGenerateModule_example_success by fastforce
  have a: "activeCourse exampleState = Some exampleCourse" "hasApiKey exampleState"
    "0 < length (allCourses exampleState)" "course_id (allCourses exampleState ! 0) = course_id exampleCourse"
    "length (quizStore exampleState) = 1" "1 < length (modules exampleCourse)"
    "allCourses exampleState ! 0 = exampleCourse"
    "generationState (modules exampleCourse ! 1) = LOCKED"
    by (simp_all add: exampleState_def hasApiKey_def allCourses_def exampleCourse_def)
  have s: "fst (the (handleGenerateModule 1 (Some (''## Matrices'', exampleQuiz)) exampleState)) = st1"
    "snd (the (handleGenerateModule 1 (Some (''## Matrices'', exampleQuiz)) exampleState)) = st2"
    by (simp_all only: h option.sel fst_conv snd_conv)
  show ?thesis
    unfolding s
    using C5_module_generation [OF a(1) a(2) h a(3) a(4)] a(5-8) handleGenerateModule_example_success
    by simp
qed

text \<open>
  The claim as stated fails for a module that holds content and a quiz: the request
  clears both, and they stay cleared when the gateway fails.
\<close>

theorem C5_counterexample:
  "content (modules (allCourses exampleState ! 0) ! 0) = Some ''## Vectors''
   \<and> quiz (modules (allCourses exampleState ! 0) ! 0) = Some 0
   \<and> handleGenerateModule 0 None exampleState \<noteq> None
   \<and> generationState (modules (allCourses (fst (the (handleGenerateModule 0 None exampleState))) ! 0) ! 0) = GENERATING
   \<and> content (modules (allCourses (fst (the (handleGenerateModule 0 None exampleState))) ! 0) ! 0) = None
   \<and> quiz (modules (allCourses (fst (the (handleGenerateModule 0 None exampleState))) ! 0) ! 0) = None
   \<and> generationState (modules (allCourses (snd (the (handleGenerateModule 0 None exampleState))) ! 0) ! 0) = FAILED
   \<and> content (modules (allCourses (snd (the (handleGenerateModule 0 None exampleState))) ! 0) ! 0) = None
   \<and> quiz (modules (allCourses (snd (the (handleGenerateModule 0 None exampleState))) ! 0) ! 0) = None"
  by (simp add: handleGenerateModule_def requestModule_def resolveModule_def updateModuleState_def
      moduleCourseUpdater_def indexInside_def allCourses_def hasApiKey_def lastSet_def rewritten_def
      exampleState_def exampleCourse_def exampleModule_def Let_def)

end
